theory Spec2Isabelle
  imports Complex_Main
begin

section \<open>JavaScript values\<close>

text \<open>
  The property page (\<^verbatim>\<open>pages/property/[id].tsx\<close>) and the account page
  (\<^verbatim>\<open>pages/mypage.tsx\<close>) are TypeScript over untyped (\<^verbatim>\<open>any\<close>) JSON data, so the
  embedding starts with the values the code can see.

  \<^item> Strings are lists of characters. The code only inspects ASCII letters and digits
    (\<^verbatim>\<open>[a-z]\<close>, \<^verbatim>\<open>[A-Z]\<close>, \<^verbatim>\<open>[0-9]\<close>); \<open>toLowerCase\<close> is modelled on ASCII letters and
    leaves every other character alone.
  \<^item> A number is \<open>NaN\<close>, negative zero, or a finite value. A finite double is modelled
    by the real number it denotes. The operations of the program that round, the product
    and the quotient by 100 and the reading of a decimal string, round their exact result
    to the nearest double, a tie to the even significand (\<open>to_double\<close> below). Overflow
    to infinity and the exponent notation that \<open>toFixed\<close> switches to from \<open>1e21\<close> on
    are outside the model.
  \<^item> An object is the list of its own properties in insertion order; the properties
    every plain object inherits from \<open>Object.prototype\<close> are visible to a property read
    as \<open>Builtin\<close> values. That JavaScript enumerates keys that look like array
    indices before all others is not modelled; no key of this program is of that kind.
\<close>

definition is_upper :: "char \<Rightarrow> bool" where
  "is_upper c = (65 \<le> (of_char c :: nat) \<and> (of_char c :: nat) \<le> 90)"

definition is_lower :: "char \<Rightarrow> bool" where
  "is_lower c = (97 \<le> (of_char c :: nat) \<and> (of_char c :: nat) \<le> 122)"

definition is_digit :: "char \<Rightarrow> bool" where
  "is_digit c = (48 \<le> (of_char c :: nat) \<and> (of_char c :: nat) \<le> 57)"

definition to_lower :: "char \<Rightarrow> char" where
  "to_lower c = (if is_upper c then char_of ((of_char c :: nat) + 32) else c)"

definition to_upper :: "char \<Rightarrow> char" where
  "to_upper c = (if is_lower c then char_of ((of_char c :: nat) - 32) else c)"

definition toLowerCase :: "string \<Rightarrow> string" where
  "toLowerCase s = map to_lower s"

fun starts_with :: "string \<Rightarrow> string \<Rightarrow> bool" where
  "starts_with s [] = True"
| "starts_with [] (p # ps) = False"
| "starts_with (c # cs) (p # ps) = (c = p \<and> starts_with cs ps)"

text \<open>\<^verbatim>\<open>s.includes(p)\<close>: \<open>p\<close> occurs in \<open>s\<close> as a contiguous substring.\<close>

fun str_includes :: "string \<Rightarrow> string \<Rightarrow> bool" where
  "str_includes [] p = (p = [])"
| "str_includes (c # cs) p = (starts_with (c # cs) p \<or> str_includes cs p)"

datatype jnum = NaN | NegZero | Fin real

datatype jsval =
    Undefined
  | Null
  | Bool bool
  | Num jnum
  | Str string
  | Arr "jsval list"
  | Obj "(string \<times> jsval) list"
  | Builtin string

type_synonym jobject = "(string \<times> jsval) list"

datatype js_error = TypeError

text \<open>\<^verbatim>\<open>a ?? b\<close> and \<^verbatim>\<open>a || b\<close>.\<close>

definition nullish :: "jsval \<Rightarrow> bool" where
  "nullish v = (v = Undefined \<or> v = Null)"

definition coalesce :: "jsval \<Rightarrow> jsval \<Rightarrow> jsval" where
  "coalesce a b = (if nullish a then b else a)"

fun truthy :: "jsval \<Rightarrow> bool" where
  "truthy Undefined = False"
| "truthy Null = False"
| "truthy (Bool b) = b"
| "truthy (Num NaN) = False"
| "truthy (Num NegZero) = False"
| "truthy (Num (Fin r)) = (r \<noteq> 0)"
| "truthy (Str s) = (s \<noteq> [])"
| "truthy (Arr xs) = True"
| "truthy (Obj kvs) = True"
| "truthy (Builtin p) = True"

definition or_else :: "jsval \<Rightarrow> jsval \<Rightarrow> jsval" where
  "or_else a b = (if truthy a then a else b)"

text \<open>
  \<open>ToNumber\<close>, applied implicitly by \<^verbatim>\<open>Math.round(v)\<close> and \<^verbatim>\<open>v * 100\<close>. How the runtime
  reads a string, an array or an object as a number is not part of this program; it is
  the parameter \<open>cn\<close> of every function that coerces.
\<close>

fun to_number :: "(jsval \<Rightarrow> jnum) \<Rightarrow> jsval \<Rightarrow> jnum" where
  "to_number cn Undefined = NaN"
| "to_number cn Null = Fin 0"
| "to_number cn (Bool b) = Fin (if b then 1 else 0)"
| "to_number cn (Num n) = n"
| "to_number cn v = cn v"

text \<open>
  Rounding to binary64. A double is an integer significand below \<open>2^53\<close> times a power
  of two; the exponent of a normal number runs from \<open>-1022\<close> to \<open>1023\<close>, and below
  \<open>2^-1022\<close> the subnormal numbers keep the spacing \<open>2^-1074\<close>. \<open>find_exponent\<close>
  searches downwards from the largest exponent for the binade of a positive number,
  \<open>round_half_even\<close> is rounding to the nearest integer with ties to the even one, and
  \<open>to_double\<close> rounds a real number to the nearest double. It is meant for the numbers
  that do not round to infinity, those of magnitude below \<open>2^1024 - 2^970\<close>.
\<close>

definition pow2 :: "int \<Rightarrow> real" where
  "pow2 k = (if 0 \<le> k then 2 ^ nat k else 1 / 2 ^ nat (- k))"

function find_exponent :: "int \<Rightarrow> real \<Rightarrow> int" where
  "find_exponent e a =
     (if e \<le> - 1022 then - 1022
      else if pow2 e \<le> a then e
      else find_exponent (e - 1) a)"
  by pat_completeness auto
termination
  by (relation "measure (\<lambda>(e, a). nat (e + 1022))") auto

declare find_exponent.simps [simp del]

definition round_half_even :: "real \<Rightarrow> int" where
  "round_half_even m =
     (let f = \<lfloor>m\<rfloor>; d = m - of_int f in
      if d < 1 / 2 then f
      else if 1 / 2 < d then f + 1
      else if even f then f else f + 1)"

definition to_double :: "real \<Rightarrow> real" where
  "to_double x =
     (if x = 0 then 0
      else let q = pow2 (find_exponent 1023 \<bar>x\<bar> - 52) in
           sgn x * of_int (round_half_even (\<bar>x\<bar> / q)) * q)"

text \<open>
  \<^verbatim>\<open>x * 100\<close> and \<^verbatim>\<open>x / 100\<close>: the exact result rounded to a double. A result that
  rounds to zero keeps the sign of \<open>x\<close>.
\<close>

fun mul100 :: "jnum \<Rightarrow> jnum" where
  "mul100 NaN = NaN"
| "mul100 NegZero = NegZero"
| "mul100 (Fin r) = (let p = to_double (r * 100) in if p = 0 \<and> r < 0 then NegZero else Fin p)"

fun div100 :: "jnum \<Rightarrow> jnum" where
  "div100 NaN = NaN"
| "div100 NegZero = NegZero"
| "div100 (Fin r) = (let p = to_double (r / 100) in if p = 0 \<and> r < 0 then NegZero else Fin p)"

text \<open>\<^verbatim>\<open>Math.round\<close>: ties go up, and a negative argument that rounds to zero gives \<open>-0\<close>.\<close>

fun math_round :: "jnum \<Rightarrow> jnum" where
  "math_round NaN = NaN"
| "math_round NegZero = NegZero"
| "math_round (Fin r) = (if - (1 / 2) \<le> r \<and> r < 0 then NegZero else Fin (of_int \<lfloor>r + 1 / 2\<rfloor>))"

text \<open>\<^verbatim>\<open>n || 0\<close> on a number: \<open>NaN\<close> and both zeros are falsy.\<close>

fun or_zero :: "jnum \<Rightarrow> jnum" where
  "or_zero (Fin r) = Fin r"
| "or_zero n = Fin 0"

subsection \<open>Objects\<close>

text \<open>
  Defining an own property (\<^verbatim>\<open>{...prev, [key]: v}\<close>): an existing key keeps its place
  and takes the new value, a new key goes to the end.
\<close>

fun obj_put :: "jobject \<Rightarrow> string \<Rightarrow> jsval \<Rightarrow> jobject" where
  "obj_put [] k v = [(k, v)]"
| "obj_put ((k', v') # kvs) k v = (if k' = k then (k, v) # kvs else (k', v') # obj_put kvs k v)"

text \<open>
  An assignment \<^verbatim>\<open>acc[k] = v\<close> on a plain object does the same, except for the key
  \<^verbatim>\<open>__proto__\<close>, which is an inherited setter: it creates no own property.
\<close>

definition obj_assign :: "jobject \<Rightarrow> string \<Rightarrow> jsval \<Rightarrow> jobject" where
  "obj_assign acc k v = (if k = ''__proto__'' then acc else obj_put acc k v)"

definition object_prototype :: "string list" where
  "object_prototype = [''constructor'', ''__proto__'', ''hasOwnProperty'', ''isPrototypeOf'',
     ''propertyIsEnumerable'', ''toLocaleString'', ''toString'', ''valueOf'',
     ''__defineGetter__'', ''__defineSetter__'', ''__lookupGetter__'', ''__lookupSetter__'']"

text \<open>A property read \<^verbatim>\<open>obj[k]\<close> on a plain object: own property first, then the prototype.\<close>

definition obj_get :: "jobject \<Rightarrow> string \<Rightarrow> jsval" where
  "obj_get obj k =
     (case map_of obj k of
        Some v \<Rightarrow> v
      | None \<Rightarrow> if k \<in> set object_prototype then Builtin k else Undefined)"

text \<open>The string an inherited built-in turns into when it is used as a property key.\<close>

definition builtin_text :: "string \<Rightarrow> string" where
  "builtin_text p =
     (if p = ''__proto__'' then ''[object Object]''
      else ''function '' @ (if p = ''constructor'' then ''Object'' else p) @ ''() { [native code] }'')"

text \<open>
  \<^verbatim>\<open>table[k] || k\<close> on a table of strings, with the result used as a property key.
\<close>

definition key_or :: "(string \<times> string) list \<Rightarrow> string \<Rightarrow> string" where
  "key_or table k =
     (case map_of table k of
        Some v \<Rightarrow> if v = [] then k else v
      | None \<Rightarrow> if k \<in> set object_prototype then builtin_text k else k)"

text \<open>
  A section of a snapshot (\<^verbatim>\<open>api_data\<close>, \<^verbatim>\<open>user_inputs\<close>, \<^verbatim>\<open>calculated_data\<close>) is a plain
  object, or it is missing (\<^verbatim>\<open>null\<close> or \<^verbatim>\<open>undefined\<close>), and then reading a property of it
  throws.
\<close>

fun section_get :: "jobject option \<Rightarrow> string \<Rightarrow> js_error + jsval" where
  "section_get None k = Inl TypeError"
| "section_get (Some obj) k = Inr (obj_get obj k)"

section \<open>The field registry\<close>

datatype value_type = API_Data | User_Input | Calculated

record property_item =
  name :: string
  value_type :: value_type
  item_section :: string
  format :: "string option"

definition Item :: "string \<Rightarrow> value_type \<Rightarrow> string \<Rightarrow> string option \<Rightarrow> property_item" where
  "Item n t s f = \<lparr>name = n, value_type = t, item_section = s, format = f\<rparr>"

record snapshot =
  api_data :: "jobject option"
  calculated_data :: "jobject option"
  user_inputs :: "jobject option"
  cashflow_per_unit :: jnum

text \<open>The sections of \<^verbatim>\<open>groupedItems\<close>, one constant each, in the order of the source.\<close>

definition property_info_items :: "property_item list" where
  "property_info_items = [
     Item ''Fair Market Value'' API_Data ''Property Info'' (Some ''currency''),
     Item ''Vacancy Rate'' User_Input ''Property Info'' (Some ''percentage''),
     Item ''Management Rate'' User_Input ''Property Info'' (Some ''percentage''),
     Item ''Advertising Cost per Vacancy'' User_Input ''Property Info'' (Some ''currency''),
     Item ''Number of Units'' API_Data ''Property Info'' (Some ''number''),
     Item ''Annual Appreciation Rate'' User_Input ''Property Info'' (Some ''percentage'')
   ]"

definition purchase_info_items :: "property_item list" where
  "purchase_info_items = [
     Item ''Offer Price'' API_Data ''Purchase Info'' (Some ''currency''),
     Item ''Repairs'' User_Input ''Purchase Info'' (Some ''currency''),
     Item ''Repairs Contingency'' User_Input ''Purchase Info'' (Some ''currency''),
     Item ''Lender Fee'' User_Input ''Purchase Info'' (Some ''currency''),
     Item ''Broker Fee'' User_Input ''Purchase Info'' (Some ''currency''),
     Item ''Environmentals'' User_Input ''Purchase Info'' (Some ''currency''),
     Item ''Inspections'' User_Input ''Purchase Info'' (Some ''currency''),
     Item ''Appraisals'' User_Input ''Purchase Info'' (Some ''currency''),
     Item ''Misc'' User_Input ''Purchase Info'' (Some ''currency''),
     Item ''Transfer Tax'' API_Data ''Purchase Info'' (Some ''currency''),
     Item ''Legal'' User_Input ''Purchase Info'' (Some ''currency''),
     Item ''Real Purchase Price (RPP)'' Calculated ''Purchase Info'' (Some ''currency'')
   ]"

definition financing_monthly_items :: "property_item list" where
  "financing_monthly_items = [
     Item ''1st Mtg Principle Borrowed'' Calculated ''Financing (Monthly)'' (Some ''currency''),
     Item ''1st Mtg Interest Rate'' API_Data ''Financing (Monthly)'' (Some ''percentage''),
     Item ''1st Mtg Amortization Period'' User_Input ''Financing (Monthly)'' (Some ''number''),
     Item ''1st Mtg CMHC Fee'' User_Input ''Financing (Monthly)'' (Some ''percentage''),
     Item ''1st Mtg Total Principle'' Calculated ''Financing (Monthly)'' (Some ''currency''),
     Item ''1st Mtg Total Monthly Payment'' Calculated ''Financing (Monthly)'' (Some ''currency''),
     Item ''2nd Mtg Principle Amount'' User_Input ''Financing (Monthly)'' (Some ''currency''),
     Item ''2nd Mtg Interest Rate'' User_Input ''Financing (Monthly)'' (Some ''percentage''),
     Item ''2nd Mtg Amortization Period'' User_Input ''Financing (Monthly)'' (Some ''number''),
     Item ''2nd Mtg Total Monthly Payment'' Calculated ''Financing (Monthly)'' (Some ''currency''),
     Item ''Interest Only Principle Amount'' User_Input ''Financing (Monthly)'' (Some ''currency''),
     Item ''Interest Only Interest Rate'' User_Input ''Financing (Monthly)'' (Some ''percentage''),
     Item ''Interest Only Total Monthly Payment'' Calculated ''Financing (Monthly)'' (Some ''currency''),
     Item ''Other Monthly Financing Costs'' User_Input ''Financing (Monthly)'' (Some ''currency''),
     Item ''Cash Required to Close'' Calculated ''Financing (Monthly)'' (Some ''currency'')
   ]"

definition income_annual_items :: "property_item list" where
  "income_annual_items = [
     Item ''Gross Rents'' API_Data ''Income (Annual)'' (Some ''currency''),
     Item ''Parking'' User_Input ''Income (Annual)'' (Some ''currency''),
     Item ''Storage'' User_Input ''Income (Annual)'' (Some ''currency''),
     Item ''Laundry / Vending'' User_Input ''Income (Annual)'' (Some ''currency''),
     Item ''Other Income'' User_Input ''Income (Annual)'' (Some ''currency''),
     Item ''Total Income'' Calculated ''Income (Annual)'' (Some ''currency''),
     Item ''Vacancy Loss'' Calculated ''Income (Annual)'' (Some ''currency''),
     Item ''Effective Gross Income'' Calculated ''Income (Annual)'' (Some ''currency'')
   ]"

definition operating_expenses_annual_items :: "property_item list" where
  "operating_expenses_annual_items = [
     Item ''Property Taxes'' API_Data ''Operating Expenses (Annual)'' (Some ''currency''),
     Item ''Insurance'' API_Data ''Operating Expenses (Annual)'' (Some ''currency''),
     Item ''Repairs'' User_Input ''Operating Expenses (Annual)'' (Some ''currency''),
     Item ''Electricity'' User_Input ''Operating Expenses (Annual)'' (Some ''currency''),
     Item ''Gas'' User_Input ''Operating Expenses (Annual)'' (Some ''currency''),
     Item ''Lawn / Snow Maintenance'' User_Input ''Operating Expenses (Annual)'' (Some ''currency''),
     Item ''Water / Sewer'' User_Input ''Operating Expenses (Annual)'' (Some ''currency''),
     Item ''Cable'' User_Input ''Operating Expenses (Annual)'' (Some ''currency''),
     Item ''Management'' Calculated ''Operating Expenses (Annual)'' (Some ''currency''),
     Item ''Caretaking'' User_Input ''Operating Expenses (Annual)'' (Some ''currency''),
     Item ''Advertising'' Calculated ''Operating Expenses (Annual)'' (Some ''currency''),
     Item ''Association Fees'' API_Data ''Operating Expenses (Annual)'' (Some ''currency''),
     Item ''Pest Control'' Calculated ''Operating Expenses (Annual)'' (Some ''currency''),
     Item ''Security'' Calculated ''Operating Expenses (Annual)'' (Some ''currency''),
     Item ''Trash Removal'' User_Input ''Operating Expenses (Annual)'' (Some ''currency''),
     Item ''Miscellaneous'' User_Input ''Operating Expenses (Annual)'' (Some ''currency''),
     Item ''Common Area Maintenance'' User_Input ''Operating Expenses (Annual)'' (Some ''currency''),
     Item ''Capital Improvements'' User_Input ''Operating Expenses (Annual)'' (Some ''currency''),
     Item ''Accounting'' User_Input ''Operating Expenses (Annual)'' (Some ''currency''),
     Item ''Legal'' User_Input ''Operating Expenses (Annual)'' (Some ''currency''),
     Item ''Bad Debts'' User_Input ''Operating Expenses (Annual)'' (Some ''currency''),
     Item ''Other Expenses'' User_Input ''Operating Expenses (Annual)'' (Some ''currency''),
     Item ''Evictions'' Calculated ''Operating Expenses (Annual)'' (Some ''currency''),
     Item ''Total Expenses'' Calculated ''Operating Expenses (Annual)'' (Some ''currency'')
   ]"

definition net_operating_income_annual_items :: "property_item list" where
  "net_operating_income_annual_items = [
     Item ''Net Operating Income'' Calculated ''Net Operating Income (Annual)'' (Some ''currency'')
   ]"

definition cash_requirements_items :: "property_item list" where
  "cash_requirements_items = [
     Item ''Deposit(s) made with Offer'' User_Input ''Cash Requirements'' (Some ''currency''),
     Item ''Less Pro-Ration of Rents'' User_Input ''Cash Requirements'' (Some ''currency''),
     Item ''Cash Required to Close'' Calculated ''Cash Requirements'' (Some ''currency''),
     Item ''Total Cash Required'' Calculated ''Cash Requirements'' (Some ''currency'')
   ]"

definition cashflow_summary_annual_items :: "property_item list" where
  "cashflow_summary_annual_items = [
     Item ''Effective Gross Income'' Calculated ''Cashflow Summary (Annual)'' (Some ''currency''),
     Item ''Operating Expenses'' Calculated ''Cashflow Summary (Annual)'' (Some ''currency''),
     Item ''Net Operating Income'' Calculated ''Cashflow Summary (Annual)'' (Some ''currency''),
     Item ''Debt Servicing Costs'' Calculated ''Cashflow Summary (Annual)'' (Some ''currency''),
     Item ''Annual Profit or Loss'' Calculated ''Cashflow Summary (Annual)'' (Some ''currency''),
     Item ''Total Monthly Profit or Loss'' Calculated ''Cashflow Summary (Annual)'' (Some ''currency''),
     Item ''Cashflow per Unit per Month'' Calculated ''Cashflow Summary (Annual)'' (Some ''currency'')
   ]"

definition quick_analysis_items :: "property_item list" where
  "quick_analysis_items = [
     Item ''1st Mortgage LTV'' Calculated ''Quick Analysis'' (Some ''percentage''),
     Item ''1st Mortgage LTPP'' Calculated ''Quick Analysis'' (Some ''percentage''),
     Item ''2nd Mortgage LTV'' Calculated ''Quick Analysis'' (Some ''percentage''),
     Item ''2nd Mortgage LTPP'' Calculated ''Quick Analysis'' (Some ''percentage''),
     Item ''Cap Rate on PP'' Calculated ''Quick Analysis'' (Some ''percentage''),
     Item ''Cap Rate on FMV'' Calculated ''Quick Analysis'' (Some ''percentage''),
     Item ''Average Rent'' Calculated ''Quick Analysis'' (Some ''currency''),
     Item ''GRM'' Calculated ''Quick Analysis'' (Some ''number''),
     Item ''DCR'' Calculated ''Quick Analysis'' (Some ''number''),
     Item ''Cash on Cash ROI'' Calculated ''Quick Analysis'' (Some ''percentage''),
     Item ''Equity ROI (After 1 Year)'' Calculated ''Quick Analysis'' (Some ''percentage''),
     Item ''Appreciation ROI (After 1 Year)'' Calculated ''Quick Analysis'' (Some ''percentage''),
     Item ''Total ROI (After 1 Year)'' Calculated ''Quick Analysis'' (Some ''percentage''),
     Item ''Forced App. ROI (After 1 Year)'' Calculated ''Quick Analysis'' (Some ''percentage''),
     Item ''Expense to Income Ratio'' Calculated ''Quick Analysis'' (Some ''percentage'')
   ]"

definition groupedItems :: "(string \<times> property_item list) list" where
  "groupedItems = [
     (''Property Info'', property_info_items),
     (''Purchase Info'', purchase_info_items),
     (''Financing (Monthly)'', financing_monthly_items),
     (''Income (Annual)'', income_annual_items),
     (''Operating Expenses (Annual)'', operating_expenses_annual_items),
     (''Net Operating Income (Annual)'', net_operating_income_annual_items),
     (''Cash Requirements'', cash_requirements_items),
     (''Cashflow Summary (Annual)'', cashflow_summary_annual_items),
     (''Quick Analysis'', quick_analysis_items)
   ]"

text \<open>The items of the registry in display order, section after section.\<close>

definition registry_items :: "property_item list" where
  "registry_items = concat (map snd groupedItems)"

section \<open>The format engine\<close>

text \<open>Decimal digits of a natural number.\<close>

function dec :: "nat \<Rightarrow> string" where
  "dec n = (if n < 10 then [''0123456789'' ! n] else dec (n div 10) @ [''0123456789'' ! (n mod 10)])"
  by pat_completeness auto
termination
  by (relation "measure (\<lambda>n. n)") auto

declare dec.simps [simp del]

text \<open>Grouping separators of the \<^verbatim>\<open>en-US\<close> locale: a comma before every block of three
  digits, counted from the right.\<close>

fun group_rev :: "string \<Rightarrow> string" where
  "group_rev (a # b # c # d # ds) = a # b # c # CHR '','' # group_rev (d # ds)"
| "group_rev ds = ds"

definition group3 :: "string \<Rightarrow> string" where
  "group3 s = rev (group_rev (rev s))"

text \<open>
  \<^verbatim>\<open>Intl.NumberFormat('en-US', {minimumFractionDigits: 0, maximumFractionDigits: 0})\<close>:
  the sign, and the magnitude rounded to an integer (ties away from zero) with grouping.
  A negative value keeps its sign when it rounds to zero.
\<close>

fun intl_sign :: "jnum \<Rightarrow> string" where
  "intl_sign NaN = []"
| "intl_sign NegZero = ''-''"
| "intl_sign (Fin r) = (if r < 0 then ''-'' else [])"

fun intl_digits :: "jnum \<Rightarrow> string" where
  "intl_digits NaN = ''NaN''"
| "intl_digits NegZero = ''0''"
| "intl_digits (Fin r) = group3 (dec (nat \<lfloor>\<bar>r\<bar> + 1 / 2\<rfloor>))"

definition formatCurrency :: "jnum \<Rightarrow> string" where
  "formatCurrency amount = intl_sign amount @ ''$'' @ intl_digits amount"

definition formatNumber :: "jnum \<Rightarrow> string" where
  "formatNumber v = intl_sign v @ intl_digits v"

text \<open>
  \<^verbatim>\<open>x.toFixed(2)\<close>: the sign of a negative \<open>x\<close>, then the integer nearest to
  \<open>|x| * 100\<close> (the larger one on a tie) written with two digits after the point.
\<close>

definition fixed2_digits :: "nat \<Rightarrow> string" where
  "fixed2_digits n = dec (n div 100) @ ''.'' @ [''0123456789'' ! (n mod 100 div 10), ''0123456789'' ! (n mod 10)]"

fun toFixed2 :: "jnum \<Rightarrow> string" where
  "toFixed2 NaN = ''NaN''"
| "toFixed2 NegZero = ''0.00''"
| "toFixed2 (Fin r) = (if r < 0 then ''-'' else []) @ fixed2_digits (nat \<lfloor>\<bar>r\<bar> * 100 + 1 / 2\<rfloor>)"

text \<open>
  \<^verbatim>\<open>parseFloat(x.toFixed(2))\<close>: the double nearest to the decimal number that the
  string above denotes (\<^verbatim>\<open>"-0.00"\<close> reads as negative zero).
\<close>

fun parseFloat_toFixed2 :: "jnum \<Rightarrow> jnum" where
  "parseFloat_toFixed2 NaN = NaN"
| "parseFloat_toFixed2 NegZero = Fin 0"
| "parseFloat_toFixed2 (Fin r) =
     (let n = \<lfloor>\<bar>r\<bar> * 100 + 1 / 2\<rfloor> in
      if r < 0 then (if n = 0 then NegZero else Fin (to_double (- (of_int n / 100))))
      else Fin (to_double (of_int n / 100)))"

definition formatPercentage :: "jnum \<Rightarrow> string" where
  "formatPercentage v = toFixed2 (mul100 v) @ ''%''"

definition percentage_like :: "property_item \<Rightarrow> bool" where
  "percentage_like item =
     (format item = Some ''percentage'' \<or>
      str_includes (toLowerCase (name item)) ''rate'' \<or>
      str_includes (toLowerCase (name item)) ''ratio'')"

definition currency_like :: "property_item \<Rightarrow> bool" where
  "currency_like item =
     (format item = Some ''currency'' \<or>
      str_includes (toLowerCase (name item)) ''price'' \<or>
      str_includes (toLowerCase (name item)) ''cost'' \<or>
      str_includes (toLowerCase (name item)) ''value'' \<or>
      str_includes (toLowerCase (name item)) ''fee'' \<or>
      str_includes (toLowerCase (name item)) ''rent'' \<or>
      str_includes (toLowerCase (name item)) ''income'' \<or>
      str_includes (toLowerCase (name item)) ''expense'' \<or>
      str_includes (toLowerCase (name item)) ''tax'' \<or>
      str_includes (toLowerCase (name item)) ''insurance'' \<or>
      str_includes (toLowerCase (name item)) ''cashflow'' \<or>
      str_includes (toLowerCase (name item)) ''cash'')"

text \<open>
  \<^verbatim>\<open>formatValue\<close>. The first \<^verbatim>\<open>if\<close> of the source rounds the value exactly when the
  percentage test of the second \<^verbatim>\<open>if\<close> fails, so past the percentage branch the value
  is always the number \<^verbatim>\<open>Math.round(value)\<close>; the closing \<^verbatim>\<open>value.toString()\<close> of the
  source is never reached.
\<close>

definition formatValue :: "(jsval \<Rightarrow> jnum) \<Rightarrow> jsval \<Rightarrow> property_item \<Rightarrow> string" where
  "formatValue cn v item =
     (if nullish v then ''N/A''
      else if percentage_like item then formatPercentage (to_number cn v)
      else if currency_like item then formatCurrency (math_round (to_number cn v))
      else formatNumber (math_round (to_number cn v)))"

section \<open>Value resolution\<close>

definition keyMappings :: "(string \<times> string) list" where
  "keyMappings = [
    (''advertising_cost_per_vacancy'', ''advertising_cost_per_vacancy''),
    (''laundry___vending'', ''laundry_vending''),
    (''lawn___snow_maintenance'', ''lawn_maintenance''),
    (''water___sewer'', ''water_sewer''),
    (''deposit_s__made_with_offer'', ''deposit_with_offer''),
    (''interest_only_principle_amount'', ''interest_only_principle''),
    (''interest_only_interest_rate'', ''interest_only_rate''),
    (''other_monthly_financing_costs'', ''other_monthly_financing''),
    (''2nd_mtg_principle_amount'', ''second_mtg_principle''),
    (''2nd_mtg_interest_rate'', ''second_mtg_interest_rate''),
    (''2nd_mtg_amortization_period'', ''second_mtg_amortization''),
    (''1st_mtg_amortization_period'', ''first_mtg_amortization_period''),
    (''1st_mtg_cmhc_fee'', ''first_mtg_cmhc_fee''),
    (''annual_appreciation_rate'', ''annual_appreciation_rate'')
  ]"


definition calculatedKeyMappings :: "(string \<times> string) list" where
  "calculatedKeyMappings = [
    (''Real Purchase Price (RPP)'', ''Real Purchase Price''),
    (''1st Mtg Principle Borrowed'', ''First Mortgage Principle Borrowed''),
    (''1st Mtg Total Principle'', ''First Mortgage Total Principle''),
    (''1st Mtg Total Monthly Payment'', ''First Mortgage Total Monthly Payment''),
    (''2nd Mtg Total Monthly Payment'', ''Second Mortgage Total Monthly Payment''),
    (''Vacancy Loss'', ''Vacancy Loss Percentage''),
    (''1st Mortgage LTV'', ''First Mortgage LTV''),
    (''1st Mortgage LTPP'', ''First Mortgage LTPP''),
    (''2nd Mortgage LTV'', ''Second Mortgage LTV''),
    (''2nd Mortgage LTPP'', ''Second Mortgage LTPP''),
    (''Equity ROI (After 1 Year)'', ''Equity ROI after 1 Year''),
    (''Appreciation ROI (After 1 Year)'', ''Appreciation ROI after 1 Year''),
    (''Total ROI (After 1 Year)'', ''Total ROI after 1 Year''),
    (''Forced App. ROI (After 1 Year)'', ''Forced App ROI after 1 Year'')
  ]"

text \<open>\<^verbatim>\<open>.replace(/[^a-z0-9]/g, '_')\<close>: every single character outside \<^verbatim>\<open>[a-z0-9]\<close>
  becomes one underscore.\<close>

primrec replace_non_alnum :: "string \<Rightarrow> string" where
  "replace_non_alnum [] = []"
| "replace_non_alnum (c # cs) =
     (if is_lower c \<or> is_digit c then c else CHR ''_'') # replace_non_alnum cs"

text \<open>
  The second \<^verbatim>\<open>replace\<close> of the user-input branch puts \<^verbatim>\<open>letter.toLowerCase()\<close> in the
  place of every match of \<^verbatim>\<open>/(?:^\w|[A-Z]|\b\w)/g\<close>. Lower-casing changes upper-case
  letters only and the alternative \<^verbatim>\<open>[A-Z]\<close> matches each of them, so the call
  lower-cases the whole string whatever else is matched.
\<close>

definition lowercase_matches :: "string \<Rightarrow> string" where
  "lowercase_matches s = map to_lower s"

definition derive_key :: "string \<Rightarrow> string" where
  "derive_key nm = lowercase_matches (replace_non_alnum (toLowerCase nm))"

definition userInputKey :: "string \<Rightarrow> string" where
  "userInputKey nm = key_or keyMappings (derive_key nm)"

definition calculatedKey :: "string \<Rightarrow> string" where
  "calculatedKey nm = key_or calculatedKeyMappings nm"

text \<open>The case labels of the \<^verbatim>\<open>switch\<close> over sourced (\<^verbatim>\<open>API Data\<close>) items.\<close>

definition sourced_names :: "string list" where
  "sourced_names = [''Address'', ''Fair Market Value'', ''Number of Units'', ''Offer Price'',
     ''1st Mtg Interest Rate'', ''Property Taxes'', ''Insurance'', ''Association Fees'',
     ''Gross Rents'', ''Transfer Tax'']"

text \<open>The body of the \<^verbatim>\<open>try\<close> block of \<^verbatim>\<open>getValue\<close>; \<open>Inl\<close> is a thrown exception.\<close>

definition getValue_try :: "(jsval \<Rightarrow> jnum) \<Rightarrow> property_item \<Rightarrow> snapshot \<Rightarrow> js_error + jsval" where
  "getValue_try cn item property =
     (case value_type item of
        API_Data \<Rightarrow>
          (if name item = ''Address'' then
             map_sum id (\<lambda>v. or_else v (Str ''Address not available''))
               (section_get (api_data property) ''address'')
           else if name item = ''Fair Market Value'' then
             section_get (api_data property) ''fair_market_value''
           else if name item = ''Number of Units'' then
             map_sum id (\<lambda>v. or_else v (Num (Fin 1)))
               (section_get (api_data property) ''number_of_units'')
           else if name item = ''Offer Price'' then
             section_get (api_data property) ''offer_price''
           else if name item = ''1st Mtg Interest Rate'' then
             map_sum id (\<lambda>v. or_else v (Num (Fin 0)))
               (section_get (api_data property) ''first_mtg_interest_rate'')
           else if name item = ''Property Taxes'' then
             map_sum id (\<lambda>v. Num (math_round (to_number cn (or_else v (Num (Fin 0))))))
               (section_get (api_data property) ''property_taxes'')
           else if name item = ''Insurance'' then
             map_sum id (\<lambda>v. or_else v (Num (Fin 0)))
               (section_get (api_data property) ''insurance'')
           else if name item = ''Association Fees'' then
             map_sum id (\<lambda>v. or_else v (Num (Fin 0)))
               (section_get (api_data property) ''association_fees'')
           else if name item = ''Gross Rents'' then
             map_sum id (\<lambda>v. or_else v (Num (Fin 0)))
               (section_get (api_data property) ''gross_rents'')
           else if name item = ''Transfer Tax'' then
             map_sum id (\<lambda>v. or_else v (Num (Fin 0)))
               (section_get (api_data property) ''transfer_tax'')
           else Inr (Num (Fin 0)))
      | User_Input \<Rightarrow>
          map_sum id (\<lambda>v. coalesce v (Num (Fin 0)))
            (section_get (user_inputs property) (userInputKey (name item)))
      | Calculated \<Rightarrow>
          map_sum id (\<lambda>v. coalesce v (Num (Fin 0)))
            (section_get (calculated_data property) (calculatedKey (name item))))"

text \<open>\<^verbatim>\<open>getValue\<close>: the \<^verbatim>\<open>catch\<close> turns any exception into a fixed string.\<close>

definition getValue :: "(jsval \<Rightarrow> jnum) \<Rightarrow> property_item \<Rightarrow> snapshot \<Rightarrow> jsval" where
  "getValue cn item property =
     (case getValue_try cn item property of
        Inl e \<Rightarrow> Str ''Error loading data''
      | Inr v \<Rightarrow> v)"

section \<open>The page: state and handlers\<close>

text \<open>
  The component keeps its state in \<^verbatim>\<open>useState\<close> cells; \<open>router_id\<close> is
  \<^verbatim>\<open>router.query.id\<close>. A handler is a function from the state it was called in to the
  state after its updates. An \<^verbatim>\<open>async\<close> handler is split where it awaits the transport:
  one function up to the request, one for the moment the promise settles.
\<close>

record page_state =
  router_id :: "string option"
  propertyDetail :: "snapshot list option"
  isLoading :: bool
  isRecalculating :: bool
  error :: "string option"
  modifiedValues :: jobject

datatype 'a settled = Resolved 'a | Rejected string

record recalc_request =
  property_id :: "string option"
  request_values :: jobject

text \<open>\<^verbatim>\<open>propertyDetail?.properties[0]\<close>.\<close>

fun first_property :: "snapshot list option \<Rightarrow> snapshot option" where
  "first_property None = None"
| "first_property (Some []) = None"
| "first_property (Some (p # ps)) = Some p"

text \<open>The key under which an edit is kept: \<^verbatim>\<open>itemName.toLowerCase().replace(/ /g, '_')\<close>.\<close>

definition edit_key :: "string \<Rightarrow> string" where
  "edit_key itemName = map (\<lambda>c. if c = CHR '' '' then CHR ''_'' else c) (toLowerCase itemName)"

text \<open>
  \<^verbatim>\<open>handleValueChange(itemName, value)\<close> uses its string argument only as
  \<^verbatim>\<open>parseFloat(value)\<close>; the model takes that number, \<open>parsed\<close>.
\<close>

definition handleValueChange :: "string \<Rightarrow> jnum \<Rightarrow> page_state \<Rightarrow> page_state" where
  "handleValueChange itemName parsed st =
     st\<lparr>modifiedValues := obj_put (modifiedValues st) (edit_key itemName) (Num (or_zero parsed))\<rparr>"

definition userInputMappings :: "(string \<times> string) list" where
  "userInputMappings = [
    (''vacancy_rate'', ''vacancy_rate''),
    (''management_rate'', ''management_rate''),
    (''advertising_cost_per_vacancy'', ''advertising_cost_per_vacancy''),
    (''annual_appreciation_rate'', ''annual_appreciation_rate''),
    (''repairs'', ''repairs''),
    (''repairs_contingency'', ''repairs_contingency''),
    (''lender_fee'', ''lender_fee''),
    (''broker_fee'', ''broker_fee''),
    (''environmentals'', ''environmentals''),
    (''inspections'', ''inspections''),
    (''appraisals'', ''appraisals''),
    (''misc'', ''misc''),
    (''legal'', ''legal''),
    (''first_mtg_amortization_period'', ''first_mtg_amortization_period''),
    (''first_mtg_cmhc_fee'', ''first_mtg_cmhc_fee''),
    (''second_mtg_principle'', ''second_mtg_principle''),
    (''second_mtg_interest_rate'', ''second_mtg_interest_rate''),
    (''second_mtg_amortization'', ''second_mtg_amortization''),
    (''interest_only_principle'', ''interest_only_principle''),
    (''interest_only_rate'', ''interest_only_rate''),
    (''other_monthly_financing'', ''other_monthly_financing''),
    (''parking'', ''parking''),
    (''storage'', ''storage''),
    (''laundry_vending'', ''laundry_vending''),
    (''other_income'', ''other_income''),
    (''electricity'', ''electricity''),
    (''gas'', ''gas''),
    (''lawn_maintenance'', ''lawn_maintenance''),
    (''water_sewer'', ''water_sewer''),
    (''cable'', ''cable''),
    (''caretaking'', ''caretaking''),
    (''trash_removal'', ''trash_removal''),
    (''miscellaneous'', ''miscellaneous''),
    (''common_area_maintenance'', ''common_area_maintenance''),
    (''capital_improvements'', ''capital_improvements''),
    (''accounting'', ''accounting''),
    (''bad_debts'', ''bad_debts''),
    (''other_expenses'', ''other_expenses''),
    (''deposit_with_offer'', ''deposit_with_offer''),
    (''less_pro_ration_of_rents'', ''less_pro_ration_of_rents'')
  ]"

text \<open>\<^verbatim>\<open>modifiedValues[key] ?? property.user_inputs[mappedKey] ?? 0\<close>: the snapshot is
  read only when there is no edit.\<close>

definition pending_or_stored :: "jobject \<Rightarrow> jobject option \<Rightarrow> string \<Rightarrow> string \<Rightarrow> js_error + jsval" where
  "pending_or_stored mods inputs key mappedKey =
     (if \<not> nullish (obj_get mods key) then Inr (obj_get mods key)
      else map_sum id (\<lambda>v. coalesce v (Num (Fin 0))) (section_get inputs mappedKey))"

text \<open>The \<^verbatim>\<open>forEach\<close> over the entries of \<^verbatim>\<open>userInputMappings\<close>.\<close>

fun collect_inputs :: "jobject \<Rightarrow> jobject option \<Rightarrow> jobject \<Rightarrow> (string \<times> string) list \<Rightarrow> js_error + jobject" where
  "collect_inputs mods inputs currentValues [] = Inr currentValues"
| "collect_inputs mods inputs currentValues ((key, mappedKey) # rest) =
     (case pending_or_stored mods inputs key mappedKey of
        Inl e \<Rightarrow> Inl e
      | Inr v \<Rightarrow> collect_inputs mods inputs (obj_assign currentValues key v) rest)"

definition api_values :: "jobject \<Rightarrow> jobject" where
  "api_values api =
     [(''address'', or_else (obj_get api ''address'') (Str [])),
      (''fair_market_value'', obj_get api ''fair_market_value''),
      (''number_of_units'', obj_get api ''number_of_units''),
      (''offer_price'', obj_get api ''offer_price''),
      (''transfer_tax'', obj_get api ''transfer_tax''),
      (''first_mtg_interest_rate'', obj_get api ''first_mtg_interest_rate''),
      (''gross_rents'', obj_get api ''gross_rents''),
      (''property_taxes'', obj_get api ''property_taxes''),
      (''insurance'', obj_get api ''insurance''),
      (''association_fees'', obj_get api ''association_fees'')]"

definition collectCurrentValues :: "page_state \<Rightarrow> js_error + jobject" where
  "collectCurrentValues st =
     (case first_property (propertyDetail st) of
        None \<Rightarrow> Inr []
      | Some property \<Rightarrow>
          (case api_data property of
             None \<Rightarrow> Inl TypeError
           | Some api \<Rightarrow>
               collect_inputs (modifiedValues st) (user_inputs property) (api_values api)
                 userInputMappings))"

text \<open>
  \<^verbatim>\<open>handleRecalculate\<close>, up to the \<^verbatim>\<open>await\<close>: the flag is raised and the request built.
  No request (\<open>None\<close>) means that building it threw inside the \<^verbatim>\<open>try\<close>.
\<close>

definition handleRecalculate_submit :: "page_state \<Rightarrow> page_state \<times> recalc_request option" where
  "handleRecalculate_submit st =
     (st\<lparr>isRecalculating := True\<rparr>,
      case collectCurrentValues st of
        Inl e \<Rightarrow> None
      | Inr updatedValues \<Rightarrow> Some \<lparr>property_id = router_id st, request_values = updatedValues\<rparr>)"

text \<open>\<^verbatim>\<open>handleRecalculate\<close>, from the settled promise on: \<^verbatim>\<open>try\<close> tail, \<^verbatim>\<open>catch\<close>, \<^verbatim>\<open>finally\<close>.\<close>

fun handleRecalculate_settle :: "snapshot list settled \<Rightarrow> page_state \<Rightarrow> page_state" where
  "handleRecalculate_settle (Resolved data) st =
     st\<lparr>propertyDetail := Some data, isRecalculating := False\<rparr>"
| "handleRecalculate_settle (Rejected err) st =
     st\<lparr>error := Some ''Failed to recalculate values'', isRecalculating := False\<rparr>"

text \<open>The whole of \<^verbatim>\<open>handleRecalculate\<close> when nothing else happens while the request is
  in flight; \<open>transport\<close> is the answer of \<^verbatim>\<open>axios.post\<close>.\<close>

definition handleRecalculate :: "(recalc_request \<Rightarrow> snapshot list settled) \<Rightarrow> page_state \<Rightarrow> page_state" where
  "handleRecalculate transport st =
     (case handleRecalculate_submit st of
        (st1, None) \<Rightarrow> handleRecalculate_settle (Rejected []) st1
      | (st1, Some req) \<Rightarrow> handleRecalculate_settle (transport req) st1)"

text \<open>\<^verbatim>\<open>fetchPropertyDetail\<close>, before and after its \<^verbatim>\<open>await\<close>. \<^verbatim>\<open>!id\<close> holds for a missing
  and for an empty identifier.\<close>

definition id_present :: "string option \<Rightarrow> bool" where
  "id_present i = (case i of None \<Rightarrow> False | Some s \<Rightarrow> s \<noteq> [])"

definition fetchPropertyDetail_submit :: "page_state \<Rightarrow> page_state" where
  "fetchPropertyDetail_submit st =
     (if \<not> id_present (router_id st) then st else st\<lparr>isLoading := True, error := None\<rparr>)"

fun fetchPropertyDetail_settle :: "snapshot list settled \<Rightarrow> page_state \<Rightarrow> page_state" where
  "fetchPropertyDetail_settle (Resolved data) st = st\<lparr>propertyDetail := Some data, isLoading := False\<rparr>"
| "fetchPropertyDetail_settle (Rejected message) st = st\<lparr>error := Some message, isLoading := False\<rparr>"

text \<open>The effect \<^verbatim>\<open>useEffect(() => { if (id) fetchPropertyDetail(); }, [id])\<close>, run when
  the identifier in the route changes.\<close>

definition id_changed :: "string option \<Rightarrow> page_state \<Rightarrow> page_state" where
  "id_changed new_id st =
     (let st1 = st\<lparr>router_id := new_id\<rparr> in
      if id_present new_id then fetchPropertyDetail_submit st1 else st1)"

text \<open>\<^verbatim>\<open>handleSaveProperty\<close> and \<^verbatim>\<open>handleSaveDefaultInputs\<close> touch the state only to
  report a failure; \<open>token\<close> tells whether a token is stored.\<close>

definition handleSaveProperty :: "bool \<Rightarrow> unit settled \<Rightarrow> page_state \<Rightarrow> page_state" where
  "handleSaveProperty token result st =
     (if \<not> token then st\<lparr>error := Some ''Please login to save properties''\<rparr>
      else case result of
        Resolved u \<Rightarrow> st
      | Rejected err \<Rightarrow> st\<lparr>error := Some ''Failed to save property''\<rparr>)"

definition handleSaveDefaultInputs :: "bool \<Rightarrow> unit settled \<Rightarrow> page_state \<Rightarrow> page_state" where
  "handleSaveDefaultInputs token result st =
     (if \<not> token then st\<lparr>error := Some ''Please login to save default inputs''\<rparr>
      else case result of
        Resolved u \<Rightarrow> st
      | Rejected err \<Rightarrow> st\<lparr>error := Some ''Failed to save default inputs''\<rparr>)"

text \<open>
  Everything that can happen to the mounted page, one event at a time: the route gets a
  new identifier, a fetch settles, a field is edited, \<^verbatim>\<open>Recalculate\<close> is clicked, a
  recalculation settles, one of the two save actions runs, or \<^verbatim>\<open>Try Again\<close> is clicked on
  the error screen (\<^verbatim>\<open>setError(null); fetchPropertyDetail()\<close>).
\<close>

datatype event =
    RouteId "string option"
  | FetchSettled "snapshot list settled"
  | ValueChange string jnum
  | RecalculateClick
  | RecalculateSettled "snapshot list settled"
  | SaveProperty bool "unit settled"
  | SaveDefaultInputs bool "unit settled"
  | TryAgainClick

fun step :: "page_state \<Rightarrow> event \<Rightarrow> page_state" where
  "step st (RouteId i) = id_changed i st"
| "step st (FetchSettled r) = fetchPropertyDetail_settle r st"
| "step st (ValueChange itemName parsed) = handleValueChange itemName parsed st"
| "step st RecalculateClick =
     (case handleRecalculate_submit st of
        (st1, None) \<Rightarrow> handleRecalculate_settle (Rejected []) st1
      | (st1, Some req) \<Rightarrow> st1)"
| "step st (RecalculateSettled r) = handleRecalculate_settle r st"
| "step st (SaveProperty token r) = handleSaveProperty token r st"
| "step st (SaveDefaultInputs token r) = handleSaveDefaultInputs token r st"
| "step st TryAgainClick = fetchPropertyDetail_submit (st\<lparr>error := None\<rparr>)"

definition run :: "page_state \<Rightarrow> event list \<Rightarrow> page_state" where
  "run st evs = foldl step st evs"

section \<open>Rendering a line item\<close>

datatype rendered =
    TextCell jsval
  | CurrencyInput jsval
  | PercentInput jnum
  | NumberInput jsval
  | Formatted string
  | RenderError js_error

text \<open>The seven names that the percentage branch converts between fraction and percent.\<close>

definition percent_names :: "string list" where
  "percent_names = [''Vacancy Rate'', ''Management Rate'', ''1st Mtg Interest Rate'',
     ''2nd Mtg Interest Rate'', ''1st Mtg CMHC Fee'', ''Interest Only Interest Rate'',
     ''Annual Appreciation Rate'']"

text \<open>
  \<^verbatim>\<open>displayValue\<close> of the percentage branch. For the other names the source calls
  \<^verbatim>\<open>inputValue.toFixed(2)\<close> on the value itself, which throws unless it is a number.
\<close>

definition displayValue :: "(jsval \<Rightarrow> jnum) \<Rightarrow> property_item \<Rightarrow> jsval \<Rightarrow> js_error + jnum" where
  "displayValue cn item inputValue =
     (if name item \<in> set percent_names
      then Inr (parseFloat_toFixed2 (mul100 (to_number cn inputValue)))
      else case inputValue of
             Num n \<Rightarrow> Inr (parseFloat_toFixed2 n)
           | _ \<Rightarrow> Inl TypeError)"

definition renderValue :: "(jsval \<Rightarrow> jnum) \<Rightarrow> jobject \<Rightarrow> property_item \<Rightarrow> snapshot \<Rightarrow> rendered" where
  "renderValue cn mods item property =
     (let v = getValue cn item property in
      if name item = ''Address'' then TextCell v
      else if value_type item = API_Data \<or> value_type item = User_Input then
        (let inputValue = coalesce (coalesce (obj_get mods (edit_key (name item))) v) (Num (Fin 0)) in
         if format item = Some ''currency'' then CurrencyInput inputValue
         else if format item = Some ''percentage'' then
           (case displayValue cn item inputValue of
              Inl e \<Rightarrow> RenderError e
            | Inr d \<Rightarrow> PercentInput d)
         else NumberInput inputValue)
      else Formatted (formatValue cn (coalesce v (Num (Fin 0))) item))"

text \<open>
  The \<^verbatim>\<open>onChange\<close> handler of the percentage input; \<open>parsed\<close> is
  \<^verbatim>\<open>parseFloat(e.target.value)\<close>. The source hands \<^verbatim>\<open>newValue.toString()\<close> to
  \<^verbatim>\<open>handleValueChange\<close>, which parses it again: printing and re-reading a number gives
  the number back, except that \<open>-0\<close> returns as \<open>0\<close>, which \<^verbatim>\<open>|| 0\<close> does to it anyway.
\<close>

definition percent_onChange :: "property_item \<Rightarrow> jnum \<Rightarrow> page_state \<Rightarrow> page_state" where
  "percent_onChange item parsed st =
     (let newValue = (if name item \<in> set percent_names then div100 parsed else parsed)
      in handleValueChange (name item) newValue st)"

section \<open>Key casing on the account page\<close>

text \<open>\<^verbatim>\<open>key.replace(/_([a-z])/g, (_, letter) => letter.toUpperCase())\<close>, scanning from the
  left.\<close>

fun snakeToCamelKey :: "string \<Rightarrow> string" where
  "snakeToCamelKey (c # d # cs) =
     (if c = CHR ''_'' \<and> is_lower d then to_upper d # snakeToCamelKey cs
      else c # snakeToCamelKey (d # cs))"
| "snakeToCamelKey cs = cs"

text \<open>\<^verbatim>\<open>key.replace(/[A-Z]/g, letter => `_${letter.toLowerCase()}`)\<close>.\<close>

fun camelToSnakeKey :: "string \<Rightarrow> string" where
  "camelToSnakeKey [] = []"
| "camelToSnakeKey (c # cs) =
     (if is_upper c then CHR ''_'' # to_lower c # camelToSnakeKey cs
      else c # camelToSnakeKey cs)"

text \<open>
  Both converters return anything that is not an object as it is, map over arrays, and
  rebuild an object by assigning each converted key, in the order of \<^verbatim>\<open>Object.keys\<close>,
  to an accumulator that starts empty.
\<close>

primrec convertSnakeToCamel :: "jsval \<Rightarrow> jsval" where
  "convertSnakeToCamel Undefined = Undefined"
| "convertSnakeToCamel Null = Null"
| "convertSnakeToCamel (Bool b) = Bool b"
| "convertSnakeToCamel (Num n) = Num n"
| "convertSnakeToCamel (Str s) = Str s"
| "convertSnakeToCamel (Builtin p) = Builtin p"
| "convertSnakeToCamel (Arr xs) = Arr (map convertSnakeToCamel xs)"
| "convertSnakeToCamel (Obj kvs) =
     Obj (foldl (\<lambda>acc (key, v). obj_assign acc (snakeToCamelKey key) v) []
            (map (map_prod id convertSnakeToCamel) kvs))"

primrec convertCamelToSnake :: "jsval \<Rightarrow> jsval" where
  "convertCamelToSnake Undefined = Undefined"
| "convertCamelToSnake Null = Null"
| "convertCamelToSnake (Bool b) = Bool b"
| "convertCamelToSnake (Num n) = Num n"
| "convertCamelToSnake (Str s) = Str s"
| "convertCamelToSnake (Builtin p) = Builtin p"
| "convertCamelToSnake (Arr xs) = Arr (map convertCamelToSnake xs)"
| "convertCamelToSnake (Obj kvs) =
     Obj (foldl (\<lambda>acc (key, v). obj_assign acc (camelToSnakeKey key) v) []
            (map (map_prod id convertCamelToSnake) kvs))"

text \<open>The snake-style keys the property page uses: the sourced keys it sends and the
  user-input keys of \<^verbatim>\<open>userInputMappings\<close>.\<close>

definition canonical_keys :: "string list" where
  "canonical_keys = map fst (api_values []) @ map fst userInputMappings"

text \<open>Every object inside a value has distinct keys, all of them satisfying \<open>P\<close>.\<close>

fun keys_ok :: "(string \<Rightarrow> bool) \<Rightarrow> jsval \<Rightarrow> bool" where
  "keys_ok P (Arr xs) = (\<forall>x \<in> set xs. keys_ok P x)"
| "keys_ok P (Obj kvs) = (distinct (map fst kvs) \<and> (\<forall>(k, v) \<in> set kvs. P k \<and> keys_ok P v))"
| "keys_ok P v = True"

definition snake_key :: "string \<Rightarrow> bool" where
  "snake_key k = (list_all (\<lambda>c. \<not> is_upper c) k \<and> k \<noteq> ''__proto__'')"

section \<open>The normalisation algorithm as the specification words it\<close>

text \<open>
  For comparison with \<open>derive_key\<close> and \<open>userInputKey\<close>: lower-case the name, replace
  every run of non-alphanumeric characters with a single underscore, trim leading and
  trailing underscores, then take the override when the table has one.
\<close>

definition alnum :: "char \<Rightarrow> bool" where
  "alnum c = (is_lower c \<or> is_upper c \<or> is_digit c)"

fun collapse_runs :: "bool \<Rightarrow> string \<Rightarrow> string" where
  "collapse_runs in_run [] = []"
| "collapse_runs in_run (c # cs) =
     (if alnum c then c # collapse_runs False cs
      else if in_run then collapse_runs True cs
      else CHR ''_'' # collapse_runs True cs)"

definition trim_underscores :: "string \<Rightarrow> string" where
  "trim_underscores s =
     rev (dropWhile (\<lambda>c. c = CHR ''_'') (rev (dropWhile (\<lambda>c. c = CHR ''_'') s)))"

definition spec_derive :: "string \<Rightarrow> string" where
  "spec_derive nm = trim_underscores (collapse_runs False (toLowerCase nm))"

definition spec_normalize :: "(string \<times> string) list \<Rightarrow> string \<Rightarrow> string" where
  "spec_normalize table nm =
     (case map_of table (spec_derive nm) of Some k \<Rightarrow> k | None \<Rightarrow> spec_derive nm)"

text \<open>
  Names on which the two derivations can be compared: the first and the last character
  are alphanumeric and no two neighbours are both non-alphanumeric.
\<close>

fun no_adjacent :: "string \<Rightarrow> bool" where
  "no_adjacent (c # d # cs) = ((alnum c \<or> alnum d) \<and> no_adjacent (d # cs))"
| "no_adjacent cs = True"

definition plain_name :: "string \<Rightarrow> bool" where
  "plain_name nm = (nm \<noteq> [] \<and> alnum (hd nm) \<and> alnum (last nm) \<and> no_adjacent nm)"

section \<open>Example data\<close>

text \<open>A coercion that reads every string, array and object as \<open>NaN\<close>.\<close>

definition no_coercion :: "jsval \<Rightarrow> jnum" where
  "no_coercion v = NaN"

definition example_snapshot :: snapshot where
  "example_snapshot =
     \<lparr>api_data = Some [(''address'', Str ''12 Elm Street''),
                       (''fair_market_value'', Num (Fin 450000)),
                       (''number_of_units'', Num (Fin 2))],
      calculated_data = Some [(''Total Income'', Num (Fin 36000))],
      user_inputs = Some [(''vacancy_rate'', Num (Fin (55 / 1000))),
                          (''repairs'', Num (Fin 1000))],
      cashflow_per_unit = Fin 120\<rparr>"

definition recalculated_snapshot :: snapshot where
  "recalculated_snapshot =
     \<lparr>api_data = Some [(''address'', Str ''12 Elm Street''),
                       (''fair_market_value'', Num (Fin 450000))],
      calculated_data = Some [(''Total Income'', Num (Fin 34000))],
      user_inputs = Some [(''vacancy_rate'', Num (Fin (8 / 100)))],
      cashflow_per_unit = Fin 95\<rparr>"

definition other_snapshot :: snapshot where
  "other_snapshot =
     \<lparr>api_data = Some [(''address'', Str ''7 Oak Avenue''),
                       (''fair_market_value'', Num (Fin 300000))],
      calculated_data = Some [(''Total Income'', Num (Fin 20000))],
      user_inputs = Some [],
      cashflow_per_unit = Fin 40\<rparr>"

text \<open>The page showing property \<open>P1\<close> with one unsaved edit of the vacancy rate.\<close>

definition example_state :: page_state where
  "example_state =
     \<lparr>router_id = Some ''P1'',
      propertyDetail = Some [example_snapshot],
      isLoading = False,
      isRecalculating = False,
      error = None,
      modifiedValues = [(''vacancy_rate'', Num (Fin (8 / 100)))]\<rparr>"

definition transport_ok :: "recalc_request \<Rightarrow> snapshot list settled" where
  "transport_ok req = Resolved [recalculated_snapshot]"

definition transport_down :: "recalc_request \<Rightarrow> snapshot list settled" where
  "transport_down req = Rejected ''Network Error''"

definition vacancy_rate_item :: property_item where
  "vacancy_rate_item = Item ''Vacancy Rate'' User_Input ''Property Info'' (Some ''percentage'')"

definition fair_market_value_item :: property_item where
  "fair_market_value_item = Item ''Fair Market Value'' API_Data ''Property Info'' (Some ''currency'')"

definition pro_ration_item :: property_item where
  "pro_ration_item = Item ''Less Pro-Ration of Rents'' User_Input ''Cash Requirements'' (Some ''currency'')"

definition total_income_item :: property_item where
  "total_income_item = Item ''Total Income'' Calculated ''Income (Annual)'' (Some ''currency'')"

definition vacancy_loss_item :: property_item where
  "vacancy_loss_item = Item ''Vacancy Loss'' Calculated ''Income (Annual)'' (Some ''currency'')"

text \<open>A sourced item that the \<^verbatim>\<open>switch\<close> of \<^verbatim>\<open>getValue\<close> has no case for.\<close>

definition lot_size_item :: property_item where
  "lot_size_item = Item ''Lot Size'' API_Data ''Property Info'' (Some ''number'')"

text \<open>A nested value over canonical keys.\<close>

definition example_mapping :: jsval where
  "example_mapping =
     Obj [(''vacancy_rate'', Num (Fin (5 / 100))),
          (''first_mtg_cmhc_fee'', Num (Fin 0)),
          (''address'', Str ''12 Elm Street''),
          (''repairs'', Arr [Obj [(''legal'', Null), (''less_pro_ration_of_rents'', Bool True)]])]"

text \<open>A snapshot none of whose sections has arrived.\<close>

definition empty_snapshot :: snapshot where
  "empty_snapshot =
     \<lparr>api_data = None, calculated_data = None, user_inputs = None, cashflow_per_unit = Fin 0\<rparr>"

text \<open>
  A recalculation is requested for \<open>P1\<close>; the user moves on to \<open>P2\<close>, whose snapshot
  arrives; then the answer for \<open>P1\<close> comes in.
\<close>

definition until_p2_loaded :: "event list" where
  "until_p2_loaded =
     [RecalculateClick, RouteId (Some ''P2''), FetchSettled (Resolved [other_snapshot])]"

definition late_response :: "event list" where
  "late_response = until_p2_loaded @ [RecalculateSettled (Resolved [recalculated_snapshot])]"

text \<open>The example snapshot with the vacancy loss stored as zero, and with it stored as
  \<^verbatim>\<open>null\<close>; in \<open>example_snapshot\<close> itself the key is missing.\<close>

definition zero_loss_snapshot :: snapshot where
  "zero_loss_snapshot =
     example_snapshot\<lparr>calculated_data :=
       Some [(''Total Income'', Num (Fin 36000)), (''Vacancy Loss Percentage'', Num (Fin 0))]\<rparr>"

definition null_loss_snapshot :: snapshot where
  "null_loss_snapshot =
     example_snapshot\<lparr>calculated_data :=
       Some [(''Total Income'', Num (Fin 36000)), (''Vacancy Loss Percentage'', Null)]\<rparr>"

text \<open>
  The example snapshot with the vacancy rate that the JSON number with the decimal
  expansion \<open>r\<close> is read as, and the page showing the example property with no edits.
\<close>

definition rate_snapshot :: "real \<Rightarrow> snapshot" where
  "rate_snapshot r =
     example_snapshot\<lparr>user_inputs := Some [(''vacancy_rate'', Num (Fin (to_double r)))]\<rparr>"

definition unedited_state :: page_state where
  "unedited_state =
     \<lparr>router_id = Some ''P1'',
      propertyDetail = Some [example_snapshot],
      isLoading = False,
      isRecalculating = False,
      error = None,
      modifiedValues = []\<rparr>"

text \<open>
  Two income items of the registry, a snapshot that stores 300 for the laundry income
  and 25 for the parking income, and the page showing it with no edits.
\<close>

definition laundry_vending_item :: property_item where
  "laundry_vending_item = Item ''Laundry / Vending'' User_Input ''Income (Annual)'' (Some ''currency'')"

definition parking_item :: property_item where
  "parking_item = Item ''Parking'' User_Input ''Income (Annual)'' (Some ''currency'')"

definition income_snapshot :: snapshot where
  "income_snapshot =
     example_snapshot\<lparr>user_inputs := Some [(''laundry_vending'', Num (Fin 300)),
                                              (''parking'', Num (Fin 25))]\<rparr>"

definition income_state :: page_state where
  "income_state =
     \<lparr>router_id = Some ''P1'',
      propertyDetail = Some [income_snapshot],
      isLoading = False,
      isRecalculating = False,
      error = None,
      modifiedValues = []\<rparr>"

section \<open>Characters and keys\<close>

lemmas char_defs =
  to_lower_def to_upper_def is_upper_def is_lower_def is_digit_def char_of_def bit_Suc_0_iff

text \<open>The character functions on the printable characters, for evaluation.\<close>

lemma is_upper_eval:
  "is_upper CHR '' '' = False"
  "is_upper CHR ''!'' = False"
  "is_upper CHR ''#'' = False"
  "is_upper CHR ''$'' = False"
  "is_upper CHR ''%'' = False"
  "is_upper CHR ''&'' = False"
  "is_upper CHR ''('' = False"
  "is_upper CHR '')'' = False"
  "is_upper CHR ''*'' = False"
  "is_upper CHR ''+'' = False"
  "is_upper CHR '','' = False"
  "is_upper CHR ''-'' = False"
  "is_upper CHR ''.'' = False"
  "is_upper CHR ''/'' = False"
  "is_upper CHR ''0'' = False"
  "is_upper CHR ''1'' = False"
  "is_upper CHR ''2'' = False"
  "is_upper CHR ''3'' = False"
  "is_upper CHR ''4'' = False"
  "is_upper CHR ''5'' = False"
  "is_upper CHR ''6'' = False"
  "is_upper CHR ''7'' = False"
  "is_upper CHR ''8'' = False"
  "is_upper CHR ''9'' = False"
  "is_upper CHR '':'' = False"
  "is_upper CHR '';'' = False"
  "is_upper CHR ''<'' = False"
  "is_upper CHR ''='' = False"
  "is_upper CHR ''>'' = False"
  "is_upper CHR ''?'' = False"
  "is_upper CHR ''@'' = False"
  "is_upper CHR ''A'' = True"
  "is_upper CHR ''B'' = True"
  "is_upper CHR ''C'' = True"
  "is_upper CHR ''D'' = True"
  "is_upper CHR ''E'' = True"
  "is_upper CHR ''F'' = True"
  "is_upper CHR ''G'' = True"
  "is_upper CHR ''H'' = True"
  "is_upper CHR ''I'' = True"
  "is_upper CHR ''J'' = True"
  "is_upper CHR ''K'' = True"
  "is_upper CHR ''L'' = True"
  "is_upper CHR ''M'' = True"
  "is_upper CHR ''N'' = True"
  "is_upper CHR ''O'' = True"
  "is_upper CHR ''P'' = True"
  "is_upper CHR ''Q'' = True"
  "is_upper CHR ''R'' = True"
  "is_upper CHR ''S'' = True"
  "is_upper CHR ''T'' = True"
  "is_upper CHR ''U'' = True"
  "is_upper CHR ''V'' = True"
  "is_upper CHR ''W'' = True"
  "is_upper CHR ''X'' = True"
  "is_upper CHR ''Y'' = True"
  "is_upper CHR ''Z'' = True"
  "is_upper CHR ''['' = False"
  "is_upper CHR '']'' = False"
  "is_upper CHR ''^'' = False"
  "is_upper CHR ''_'' = False"
  "is_upper CHR ''a'' = False"
  "is_upper CHR ''b'' = False"
  "is_upper CHR ''c'' = False"
  "is_upper CHR ''d'' = False"
  "is_upper CHR ''e'' = False"
  "is_upper CHR ''f'' = False"
  "is_upper CHR ''g'' = False"
  "is_upper CHR ''h'' = False"
  "is_upper CHR ''i'' = False"
  "is_upper CHR ''j'' = False"
  "is_upper CHR ''k'' = False"
  "is_upper CHR ''l'' = False"
  "is_upper CHR ''m'' = False"
  "is_upper CHR ''n'' = False"
  "is_upper CHR ''o'' = False"
  "is_upper CHR ''p'' = False"
  "is_upper CHR ''q'' = False"
  "is_upper CHR ''r'' = False"
  "is_upper CHR ''s'' = False"
  "is_upper CHR ''t'' = False"
  "is_upper CHR ''u'' = False"
  "is_upper CHR ''v'' = False"
  "is_upper CHR ''w'' = False"
  "is_upper CHR ''x'' = False"
  "is_upper CHR ''y'' = False"
  "is_upper CHR ''z'' = False"
  "is_upper CHR ''{'' = False"
  "is_upper CHR ''|'' = False"
  "is_upper CHR ''}'' = False"
  "is_upper CHR ''~'' = False"
  by (simp_all add: char_defs)

lemma is_lower_eval:
  "is_lower CHR '' '' = False"
  "is_lower CHR ''!'' = False"
  "is_lower CHR ''#'' = False"
  "is_lower CHR ''$'' = False"
  "is_lower CHR ''%'' = False"
  "is_lower CHR ''&'' = False"
  "is_lower CHR ''('' = False"
  "is_lower CHR '')'' = False"
  "is_lower CHR ''*'' = False"
  "is_lower CHR ''+'' = False"
  "is_lower CHR '','' = False"
  "is_lower CHR ''-'' = False"
  "is_lower CHR ''.'' = False"
  "is_lower CHR ''/'' = False"
  "is_lower CHR ''0'' = False"
  "is_lower CHR ''1'' = False"
  "is_lower CHR ''2'' = False"
  "is_lower CHR ''3'' = False"
  "is_lower CHR ''4'' = False"
  "is_lower CHR ''5'' = False"
  "is_lower CHR ''6'' = False"
  "is_lower CHR ''7'' = False"
  "is_lower CHR ''8'' = False"
  "is_lower CHR ''9'' = False"
  "is_lower CHR '':'' = False"
  "is_lower CHR '';'' = False"
  "is_lower CHR ''<'' = False"
  "is_lower CHR ''='' = False"
  "is_lower CHR ''>'' = False"
  "is_lower CHR ''?'' = False"
  "is_lower CHR ''@'' = False"
  "is_lower CHR ''A'' = False"
  "is_lower CHR ''B'' = False"
  "is_lower CHR ''C'' = False"
  "is_lower CHR ''D'' = False"
  "is_lower CHR ''E'' = False"
  "is_lower CHR ''F'' = False"
  "is_lower CHR ''G'' = False"
  "is_lower CHR ''H'' = False"
  "is_lower CHR ''I'' = False"
  "is_lower CHR ''J'' = False"
  "is_lower CHR ''K'' = False"
  "is_lower CHR ''L'' = False"
  "is_lower CHR ''M'' = False"
  "is_lower CHR ''N'' = False"
  "is_lower CHR ''O'' = False"
  "is_lower CHR ''P'' = False"
  "is_lower CHR ''Q'' = False"
  "is_lower CHR ''R'' = False"
  "is_lower CHR ''S'' = False"
  "is_lower CHR ''T'' = False"
  "is_lower CHR ''U'' = False"
  "is_lower CHR ''V'' = False"
  "is_lower CHR ''W'' = False"
  "is_lower CHR ''X'' = False"
  "is_lower CHR ''Y'' = False"
  "is_lower CHR ''Z'' = False"
  "is_lower CHR ''['' = False"
  "is_lower CHR '']'' = False"
  "is_lower CHR ''^'' = False"
  "is_lower CHR ''_'' = False"
  "is_lower CHR ''a'' = True"
  "is_lower CHR ''b'' = True"
  "is_lower CHR ''c'' = True"
  "is_lower CHR ''d'' = True"
  "is_lower CHR ''e'' = True"
  "is_lower CHR ''f'' = True"
  "is_lower CHR ''g'' = True"
  "is_lower CHR ''h'' = True"
  "is_lower CHR ''i'' = True"
  "is_lower CHR ''j'' = True"
  "is_lower CHR ''k'' = True"
  "is_lower CHR ''l'' = True"
  "is_lower CHR ''m'' = True"
  "is_lower CHR ''n'' = True"
  "is_lower CHR ''o'' = True"
  "is_lower CHR ''p'' = True"
  "is_lower CHR ''q'' = True"
  "is_lower CHR ''r'' = True"
  "is_lower CHR ''s'' = True"
  "is_lower CHR ''t'' = True"
  "is_lower CHR ''u'' = True"
  "is_lower CHR ''v'' = True"
  "is_lower CHR ''w'' = True"
  "is_lower CHR ''x'' = True"
  "is_lower CHR ''y'' = True"
  "is_lower CHR ''z'' = True"
  "is_lower CHR ''{'' = False"
  "is_lower CHR ''|'' = False"
  "is_lower CHR ''}'' = False"
  "is_lower CHR ''~'' = False"
  by (simp_all add: char_defs)

lemma is_digit_eval:
  "is_digit CHR '' '' = False"
  "is_digit CHR ''!'' = False"
  "is_digit CHR ''#'' = False"
  "is_digit CHR ''$'' = False"
  "is_digit CHR ''%'' = False"
  "is_digit CHR ''&'' = False"
  "is_digit CHR ''('' = False"
  "is_digit CHR '')'' = False"
  "is_digit CHR ''*'' = False"
  "is_digit CHR ''+'' = False"
  "is_digit CHR '','' = False"
  "is_digit CHR ''-'' = False"
  "is_digit CHR ''.'' = False"
  "is_digit CHR ''/'' = False"
  "is_digit CHR ''0'' = True"
  "is_digit CHR ''1'' = True"
  "is_digit CHR ''2'' = True"
  "is_digit CHR ''3'' = True"
  "is_digit CHR ''4'' = True"
  "is_digit CHR ''5'' = True"
  "is_digit CHR ''6'' = True"
  "is_digit CHR ''7'' = True"
  "is_digit CHR ''8'' = True"
  "is_digit CHR ''9'' = True"
  "is_digit CHR '':'' = False"
  "is_digit CHR '';'' = False"
  "is_digit CHR ''<'' = False"
  "is_digit CHR ''='' = False"
  "is_digit CHR ''>'' = False"
  "is_digit CHR ''?'' = False"
  "is_digit CHR ''@'' = False"
  "is_digit CHR ''A'' = False"
  "is_digit CHR ''B'' = False"
  "is_digit CHR ''C'' = False"
  "is_digit CHR ''D'' = False"
  "is_digit CHR ''E'' = False"
  "is_digit CHR ''F'' = False"
  "is_digit CHR ''G'' = False"
  "is_digit CHR ''H'' = False"
  "is_digit CHR ''I'' = False"
  "is_digit CHR ''J'' = False"
  "is_digit CHR ''K'' = False"
  "is_digit CHR ''L'' = False"
  "is_digit CHR ''M'' = False"
  "is_digit CHR ''N'' = False"
  "is_digit CHR ''O'' = False"
  "is_digit CHR ''P'' = False"
  "is_digit CHR ''Q'' = False"
  "is_digit CHR ''R'' = False"
  "is_digit CHR ''S'' = False"
  "is_digit CHR ''T'' = False"
  "is_digit CHR ''U'' = False"
  "is_digit CHR ''V'' = False"
  "is_digit CHR ''W'' = False"
  "is_digit CHR ''X'' = False"
  "is_digit CHR ''Y'' = False"
  "is_digit CHR ''Z'' = False"
  "is_digit CHR ''['' = False"
  "is_digit CHR '']'' = False"
  "is_digit CHR ''^'' = False"
  "is_digit CHR ''_'' = False"
  "is_digit CHR ''a'' = False"
  "is_digit CHR ''b'' = False"
  "is_digit CHR ''c'' = False"
  "is_digit CHR ''d'' = False"
  "is_digit CHR ''e'' = False"
  "is_digit CHR ''f'' = False"
  "is_digit CHR ''g'' = False"
  "is_digit CHR ''h'' = False"
  "is_digit CHR ''i'' = False"
  "is_digit CHR ''j'' = False"
  "is_digit CHR ''k'' = False"
  "is_digit CHR ''l'' = False"
  "is_digit CHR ''m'' = False"
  "is_digit CHR ''n'' = False"
  "is_digit CHR ''o'' = False"
  "is_digit CHR ''p'' = False"
  "is_digit CHR ''q'' = False"
  "is_digit CHR ''r'' = False"
  "is_digit CHR ''s'' = False"
  "is_digit CHR ''t'' = False"
  "is_digit CHR ''u'' = False"
  "is_digit CHR ''v'' = False"
  "is_digit CHR ''w'' = False"
  "is_digit CHR ''x'' = False"
  "is_digit CHR ''y'' = False"
  "is_digit CHR ''z'' = False"
  "is_digit CHR ''{'' = False"
  "is_digit CHR ''|'' = False"
  "is_digit CHR ''}'' = False"
  "is_digit CHR ''~'' = False"
  by (simp_all add: char_defs)

lemma to_lower_eval:
  "to_lower CHR '' '' = CHR '' ''"
  "to_lower CHR ''!'' = CHR ''!''"
  "to_lower CHR ''#'' = CHR ''#''"
  "to_lower CHR ''$'' = CHR ''$''"
  "to_lower CHR ''%'' = CHR ''%''"
  "to_lower CHR ''&'' = CHR ''&''"
  "to_lower CHR ''('' = CHR ''(''"
  "to_lower CHR '')'' = CHR '')''"
  "to_lower CHR ''*'' = CHR ''*''"
  "to_lower CHR ''+'' = CHR ''+''"
  "to_lower CHR '','' = CHR '',''"
  "to_lower CHR ''-'' = CHR ''-''"
  "to_lower CHR ''.'' = CHR ''.''"
  "to_lower CHR ''/'' = CHR ''/''"
  "to_lower CHR ''0'' = CHR ''0''"
  "to_lower CHR ''1'' = CHR ''1''"
  "to_lower CHR ''2'' = CHR ''2''"
  "to_lower CHR ''3'' = CHR ''3''"
  "to_lower CHR ''4'' = CHR ''4''"
  "to_lower CHR ''5'' = CHR ''5''"
  "to_lower CHR ''6'' = CHR ''6''"
  "to_lower CHR ''7'' = CHR ''7''"
  "to_lower CHR ''8'' = CHR ''8''"
  "to_lower CHR ''9'' = CHR ''9''"
  "to_lower CHR '':'' = CHR '':''"
  "to_lower CHR '';'' = CHR '';''"
  "to_lower CHR ''<'' = CHR ''<''"
  "to_lower CHR ''='' = CHR ''=''"
  "to_lower CHR ''>'' = CHR ''>''"
  "to_lower CHR ''?'' = CHR ''?''"
  "to_lower CHR ''@'' = CHR ''@''"
  "to_lower CHR ''A'' = CHR ''a''"
  "to_lower CHR ''B'' = CHR ''b''"
  "to_lower CHR ''C'' = CHR ''c''"
  "to_lower CHR ''D'' = CHR ''d''"
  "to_lower CHR ''E'' = CHR ''e''"
  "to_lower CHR ''F'' = CHR ''f''"
  "to_lower CHR ''G'' = CHR ''g''"
  "to_lower CHR ''H'' = CHR ''h''"
  "to_lower CHR ''I'' = CHR ''i''"
  "to_lower CHR ''J'' = CHR ''j''"
  "to_lower CHR ''K'' = CHR ''k''"
  "to_lower CHR ''L'' = CHR ''l''"
  "to_lower CHR ''M'' = CHR ''m''"
  "to_lower CHR ''N'' = CHR ''n''"
  "to_lower CHR ''O'' = CHR ''o''"
  "to_lower CHR ''P'' = CHR ''p''"
  "to_lower CHR ''Q'' = CHR ''q''"
  "to_lower CHR ''R'' = CHR ''r''"
  "to_lower CHR ''S'' = CHR ''s''"
  "to_lower CHR ''T'' = CHR ''t''"
  "to_lower CHR ''U'' = CHR ''u''"
  "to_lower CHR ''V'' = CHR ''v''"
  "to_lower CHR ''W'' = CHR ''w''"
  "to_lower CHR ''X'' = CHR ''x''"
  "to_lower CHR ''Y'' = CHR ''y''"
  "to_lower CHR ''Z'' = CHR ''z''"
  "to_lower CHR ''['' = CHR ''[''"
  "to_lower CHR '']'' = CHR '']''"
  "to_lower CHR ''^'' = CHR ''^''"
  "to_lower CHR ''_'' = CHR ''_''"
  "to_lower CHR ''a'' = CHR ''a''"
  "to_lower CHR ''b'' = CHR ''b''"
  "to_lower CHR ''c'' = CHR ''c''"
  "to_lower CHR ''d'' = CHR ''d''"
  "to_lower CHR ''e'' = CHR ''e''"
  "to_lower CHR ''f'' = CHR ''f''"
  "to_lower CHR ''g'' = CHR ''g''"
  "to_lower CHR ''h'' = CHR ''h''"
  "to_lower CHR ''i'' = CHR ''i''"
  "to_lower CHR ''j'' = CHR ''j''"
  "to_lower CHR ''k'' = CHR ''k''"
  "to_lower CHR ''l'' = CHR ''l''"
  "to_lower CHR ''m'' = CHR ''m''"
  "to_lower CHR ''n'' = CHR ''n''"
  "to_lower CHR ''o'' = CHR ''o''"
  "to_lower CHR ''p'' = CHR ''p''"
  "to_lower CHR ''q'' = CHR ''q''"
  "to_lower CHR ''r'' = CHR ''r''"
  "to_lower CHR ''s'' = CHR ''s''"
  "to_lower CHR ''t'' = CHR ''t''"
  "to_lower CHR ''u'' = CHR ''u''"
  "to_lower CHR ''v'' = CHR ''v''"
  "to_lower CHR ''w'' = CHR ''w''"
  "to_lower CHR ''x'' = CHR ''x''"
  "to_lower CHR ''y'' = CHR ''y''"
  "to_lower CHR ''z'' = CHR ''z''"
  "to_lower CHR ''{'' = CHR ''{''"
  "to_lower CHR ''|'' = CHR ''|''"
  "to_lower CHR ''}'' = CHR ''}''"
  "to_lower CHR ''~'' = CHR ''~''"
  by (simp_all add: char_defs)

lemma to_upper_eval:
  "to_upper CHR '' '' = CHR '' ''"
  "to_upper CHR ''!'' = CHR ''!''"
  "to_upper CHR ''#'' = CHR ''#''"
  "to_upper CHR ''$'' = CHR ''$''"
  "to_upper CHR ''%'' = CHR ''%''"
  "to_upper CHR ''&'' = CHR ''&''"
  "to_upper CHR ''('' = CHR ''(''"
  "to_upper CHR '')'' = CHR '')''"
  "to_upper CHR ''*'' = CHR ''*''"
  "to_upper CHR ''+'' = CHR ''+''"
  "to_upper CHR '','' = CHR '',''"
  "to_upper CHR ''-'' = CHR ''-''"
  "to_upper CHR ''.'' = CHR ''.''"
  "to_upper CHR ''/'' = CHR ''/''"
  "to_upper CHR ''0'' = CHR ''0''"
  "to_upper CHR ''1'' = CHR ''1''"
  "to_upper CHR ''2'' = CHR ''2''"
  "to_upper CHR ''3'' = CHR ''3''"
  "to_upper CHR ''4'' = CHR ''4''"
  "to_upper CHR ''5'' = CHR ''5''"
  "to_upper CHR ''6'' = CHR ''6''"
  "to_upper CHR ''7'' = CHR ''7''"
  "to_upper CHR ''8'' = CHR ''8''"
  "to_upper CHR ''9'' = CHR ''9''"
  "to_upper CHR '':'' = CHR '':''"
  "to_upper CHR '';'' = CHR '';''"
  "to_upper CHR ''<'' = CHR ''<''"
  "to_upper CHR ''='' = CHR ''=''"
  "to_upper CHR ''>'' = CHR ''>''"
  "to_upper CHR ''?'' = CHR ''?''"
  "to_upper CHR ''@'' = CHR ''@''"
  "to_upper CHR ''A'' = CHR ''A''"
  "to_upper CHR ''B'' = CHR ''B''"
  "to_upper CHR ''C'' = CHR ''C''"
  "to_upper CHR ''D'' = CHR ''D''"
  "to_upper CHR ''E'' = CHR ''E''"
  "to_upper CHR ''F'' = CHR ''F''"
  "to_upper CHR ''G'' = CHR ''G''"
  "to_upper CHR ''H'' = CHR ''H''"
  "to_upper CHR ''I'' = CHR ''I''"
  "to_upper CHR ''J'' = CHR ''J''"
  "to_upper CHR ''K'' = CHR ''K''"
  "to_upper CHR ''L'' = CHR ''L''"
  "to_upper CHR ''M'' = CHR ''M''"
  "to_upper CHR ''N'' = CHR ''N''"
  "to_upper CHR ''O'' = CHR ''O''"
  "to_upper CHR ''P'' = CHR ''P''"
  "to_upper CHR ''Q'' = CHR ''Q''"
  "to_upper CHR ''R'' = CHR ''R''"
  "to_upper CHR ''S'' = CHR ''S''"
  "to_upper CHR ''T'' = CHR ''T''"
  "to_upper CHR ''U'' = CHR ''U''"
  "to_upper CHR ''V'' = CHR ''V''"
  "to_upper CHR ''W'' = CHR ''W''"
  "to_upper CHR ''X'' = CHR ''X''"
  "to_upper CHR ''Y'' = CHR ''Y''"
  "to_upper CHR ''Z'' = CHR ''Z''"
  "to_upper CHR ''['' = CHR ''[''"
  "to_upper CHR '']'' = CHR '']''"
  "to_upper CHR ''^'' = CHR ''^''"
  "to_upper CHR ''_'' = CHR ''_''"
  "to_upper CHR ''a'' = CHR ''A''"
  "to_upper CHR ''b'' = CHR ''B''"
  "to_upper CHR ''c'' = CHR ''C''"
  "to_upper CHR ''d'' = CHR ''D''"
  "to_upper CHR ''e'' = CHR ''E''"
  "to_upper CHR ''f'' = CHR ''F''"
  "to_upper CHR ''g'' = CHR ''G''"
  "to_upper CHR ''h'' = CHR ''H''"
  "to_upper CHR ''i'' = CHR ''I''"
  "to_upper CHR ''j'' = CHR ''J''"
  "to_upper CHR ''k'' = CHR ''K''"
  "to_upper CHR ''l'' = CHR ''L''"
  "to_upper CHR ''m'' = CHR ''M''"
  "to_upper CHR ''n'' = CHR ''N''"
  "to_upper CHR ''o'' = CHR ''O''"
  "to_upper CHR ''p'' = CHR ''P''"
  "to_upper CHR ''q'' = CHR ''Q''"
  "to_upper CHR ''r'' = CHR ''R''"
  "to_upper CHR ''s'' = CHR ''S''"
  "to_upper CHR ''t'' = CHR ''T''"
  "to_upper CHR ''u'' = CHR ''U''"
  "to_upper CHR ''v'' = CHR ''V''"
  "to_upper CHR ''w'' = CHR ''W''"
  "to_upper CHR ''x'' = CHR ''X''"
  "to_upper CHR ''y'' = CHR ''Y''"
  "to_upper CHR ''z'' = CHR ''Z''"
  "to_upper CHR ''{'' = CHR ''{''"
  "to_upper CHR ''|'' = CHR ''|''"
  "to_upper CHR ''}'' = CHR ''}''"
  "to_upper CHR ''~'' = CHR ''~''"
  by (simp_all add: char_defs)

lemmas char_eval =
  is_upper_eval is_lower_eval is_digit_eval to_lower_eval to_upper_eval toLowerCase_def

section \<open>Rounding to a double\<close>

lemma pow2_power_int: "pow2 k = 2 powi k"
  by (simp add: pow2_def power_int_def power_one_over inverse_eq_divide)

lemma pow2_mono: "j \<le> k \<Longrightarrow> pow2 j \<le> pow2 k"
  unfolding pow2_power_int by (rule power_int_increasing) simp_all

lemma pow2_pos: "0 < pow2 k"
  unfolding pow2_power_int by simp

lemma pow2_add: "pow2 (j + k) = pow2 j * pow2 k"
  unfolding pow2_power_int by (simp add: power_int_add)

text \<open>The search finds the binade of every number from the smallest normal one on, and
  stops at the exponent of the subnormal numbers below it.\<close>

lemma find_exponent_at:
  "e \<le> e0 \<Longrightarrow> a < pow2 (e + 1) \<Longrightarrow> pow2 e \<le> a \<or> e = - 1022 \<Longrightarrow> - 1022 \<le> e
     \<Longrightarrow> find_exponent e0 a = e"
proof (induction e0 a rule: find_exponent.induct)
  case (1 e0 a)
  show ?case
  proof (cases "e0 = e")
    case True
    with 1(4,5) show ?thesis
      by (subst find_exponent.simps) auto
  next
    case False
    with 1(2) have lt: "e < e0" by simp
    hence "e + 1 \<le> e0" by simp
    hence "pow2 (e + 1) \<le> pow2 e0" by (rule pow2_mono)
    with 1(3) have nle: "\<not> pow2 e0 \<le> a" by simp
    from lt 1(5) have big: "\<not> e0 \<le> - 1022" by simp
    from lt have "e \<le> e0 - 1" by simp
    with 1(1) [OF big nle] 1(3,4,5) have "find_exponent (e0 - 1) a = e" by simp
    with big nle show ?thesis
      by (subst find_exponent.simps) simp
  qed
qed

lemma find_exponent_binade:
  "a < pow2 (e0 + 1) \<Longrightarrow> pow2 (- 1022) \<le> a \<Longrightarrow> - 1022 \<le> e0 \<Longrightarrow>
   pow2 (find_exponent e0 a) \<le> a \<and> a < pow2 (find_exponent e0 a + 1)"
proof (induction e0 a rule: find_exponent.induct)
  case (1 e0 a)
  show ?case
  proof (cases "e0 \<le> - 1022")
    case True
    with 1(4) have "e0 = - 1022" by simp
    with 1(2,3) show ?thesis
      by (subst (1 2) find_exponent.simps) simp
  next
    case big: False
    show ?thesis
    proof (cases "pow2 e0 \<le> a")
      case True
      with big 1(2) show ?thesis
        by (subst (1 2) find_exponent.simps) simp
    next
      case False
      then have "a < pow2 (e0 - 1 + 1)" by simp
      moreover have "- 1022 \<le> e0 - 1" using big by simp
      ultimately have "pow2 (find_exponent (e0 - 1) a) \<le> a \<and>
                       a < pow2 (find_exponent (e0 - 1) a + 1)"
        using 1(1) [OF big False] 1(3) by blast
      with big False show ?thesis
        by (subst (1 2) find_exponent.simps) simp
    qed
  qed
qed

text \<open>With the binade known, the rounded value is read off without the search.\<close>

lemma to_double_at:
  assumes "pow2 e \<le> \<bar>x\<bar>" "\<bar>x\<bar> < pow2 (e + 1)" "- 1022 \<le> e" "e \<le> 1023"
  shows "to_double x = sgn x * of_int (round_half_even (\<bar>x\<bar> / pow2 (e - 52))) * pow2 (e - 52)"
proof -
  from assms(1) pow2_pos [of e] have "x \<noteq> 0" by auto
  moreover from assms have "find_exponent 1023 \<bar>x\<bar> = e"
    by (intro find_exponent_at) simp_all
  ultimately show ?thesis by (simp add: to_double_def Let_def)
qed

lemma round_half_even_near: "\<bar>of_int (round_half_even m) - m\<bar> \<le> 1 / 2"
proof -
  have "of_int \<lfloor>m\<rfloor> \<le> m" "m < of_int \<lfloor>m\<rfloor> + 1"
    by linarith+
  then show ?thesis
    by (auto simp: round_half_even_def Let_def)
qed

text \<open>Rounding a number of the normal range moves it by at most the fraction \<open>2^-53\<close> of
  its magnitude.\<close>

lemma to_double_near:
  assumes "pow2 (- 1022) \<le> \<bar>y\<bar>" and "\<bar>y\<bar> < pow2 1024"
  shows "\<bar>to_double y - y\<bar> \<le> \<bar>y\<bar> / 2 ^ 53"
proof -
  define e where "e = find_exponent 1023 \<bar>y\<bar>"
  define q where "q = pow2 (e - 52)"
  define m where "m = round_half_even (\<bar>y\<bar> / q)"
  have binade: "pow2 e \<le> \<bar>y\<bar>"
    using find_exponent_binade [of "\<bar>y\<bar>" 1023] assms by (simp add: e_def)
  have q: "0 < q" by (simp add: q_def pow2_pos)
  have nz: "y \<noteq> 0"
    using assms(1) pow2_pos [of "- 1022"] by auto
  have rounded: "to_double y = sgn y * of_int m * q"
    using nz by (simp add: to_double_def Let_def e_def q_def m_def)
  have "y = sgn y * (\<bar>y\<bar> / q) * q"
    using q by (simp add: sgn_mult_abs)
  then have "to_double y - y = sgn y * (of_int m - \<bar>y\<bar> / q) * q"
    using rounded by (simp add: algebra_simps)
  then have "\<bar>to_double y - y\<bar> = \<bar>of_int m - \<bar>y\<bar> / q\<bar> * q"
    using q nz by (simp add: abs_mult abs_sgn_eq)
  also have "\<dots> \<le> 1 / 2 * q"
    using round_half_even_near [of "\<bar>y\<bar> / q"] q
    by (intro mult_right_mono) (simp_all add: m_def)
  also have "1 / 2 * q = pow2 e / 2 ^ 53"
  proof -
    have "pow2 e = pow2 (e - 52) * pow2 52"
      using pow2_add [of "e - 52" 52] by simp
    then show ?thesis
      by (simp add: q_def pow2_def)
  qed
  also have "\<dots> \<le> \<bar>y\<bar> / 2 ^ 53"
    using binade by (simp add: divide_right_mono)
  finally show ?thesis .
qed

text \<open>The doubles of the examples: the stored rates 0.055, 0.05551, 0.00615 and 0.03625,
  their products with 100, and the entries 5.55 and 3.62 with the quotient of 5.55 by 100.\<close>

lemma double_5: "to_double 5 = 5"
  using to_double_at [of 2 5]
  by (simp add: pow2_def round_half_even_def Let_def)

lemma double_6: "to_double 6 = 6"
  using to_double_at [of 2 6]
  by (simp add: pow2_def round_half_even_def Let_def)

lemma double_8: "to_double 8 = 8"
  using to_double_at [of 3 8]
  by (simp add: pow2_def round_half_even_def Let_def)

lemma double_150000: "to_double 150000 = 150000"
  using to_double_at [of 17 150000]
  by (simp add: pow2_def round_half_even_def Let_def)

lemma double_5_5: "to_double (550 / 100) = 55 / 10"
  using to_double_at [of 2 "550 / 100"]
  by (simp add: pow2_def round_half_even_def Let_def)

lemma double_0_055: "to_double (55 / 1000) = 7926335344172073 / 2 ^ 57"
  using to_double_at [of "- 5" "55 / 1000"]
  by (simp add: pow2_def round_half_even_def Let_def)

lemma double_0_055_times_100: "to_double (7926335344172073 / 2 ^ 57 * 100) = 55 / 10"
  using to_double_at [of 2 "7926335344172073 / 2 ^ 57 * 100"]
  by (simp add: pow2_def round_half_even_def Let_def)

lemma double_0_05551: "to_double (5551 / 100000) = 7999834090090759 / 2 ^ 57"
  using to_double_at [of "- 5" "5551 / 100000"]
  by (simp add: pow2_def round_half_even_def Let_def)

lemma double_0_05551_times_100: "to_double (7999834090090759 / 2 ^ 57 * 100) = 6249870382883405 / 2 ^ 50"
  using to_double_at [of 2 "7999834090090759 / 2 ^ 57 * 100"]
  by (simp add: pow2_def round_half_even_def Let_def)

lemma double_5_55: "to_double (555 / 100) = 6248744482976563 / 2 ^ 50"
  using to_double_at [of 2 "555 / 100"]
  by (simp add: pow2_def round_half_even_def Let_def)

lemma double_5_55_by_100: "to_double (6248744482976563 / 2 ^ 50 / 100) = 7998392938210001 / 2 ^ 57"
  using to_double_at [of "- 5" "6248744482976563 / 2 ^ 50 / 100"]
  by (simp add: pow2_def round_half_even_def Let_def)

lemma double_0_0555: "to_double (555 / 10000) = 7998392938210001 / 2 ^ 57"
  using to_double_at [of "- 5" "555 / 10000"]
  by (simp add: pow2_def round_half_even_def Let_def)

lemma double_0_00615: "to_double (615 / 100000) = 7090467253332109 / 2 ^ 60"
  using to_double_at [of "- 8" "615 / 100000"]
  by (simp add: pow2_def round_half_even_def Let_def)

lemma double_0_00615_times_100: "to_double (7090467253332109 / 2 ^ 60 * 100) = 5539427541665710 / 2 ^ 53"
  using to_double_at [of "- 1" "7090467253332109 / 2 ^ 60 * 100"]
  by (simp add: pow2_def round_half_even_def Let_def)

lemma double_0_03625: "to_double (3625 / 100000) = 5224175567749775 / 2 ^ 57"
  using to_double_at [of "- 5" "3625 / 100000"]
  by (simp add: pow2_def round_half_even_def Let_def)

lemma double_0_03625_times_100: "to_double (5224175567749775 / 2 ^ 57 * 100) = 8162774324609023 / 2 ^ 51"
  using to_double_at [of 1 "5224175567749775 / 2 ^ 57 * 100"]
  by (simp add: pow2_def round_half_even_def Let_def)

lemma double_3_62: "to_double (362 / 100) = 8151515325540598 / 2 ^ 51"
  using to_double_at [of 1 "362 / 100"]
  by (simp add: pow2_def round_half_even_def Let_def)

text \<open>
  Dividing an entry of at most two fraction digits by 100, multiplying the quotient by 100
  and rounding the product to two fraction digits gives the entry back: the three
  roundings together move the value by far less than half a hundredth.
\<close>

lemma two_digit_round_trip:
  fixes k :: int
  assumes "\<bar>k\<bar> \<le> 10 ^ 12"
  shows "parseFloat_toFixed2 (mul100 (or_zero (div100 (Fin (to_double (of_int k / 100)))))) =
           Fin (to_double (of_int k / 100))"
proof (cases "k = 0")
  case True
  then show ?thesis
    by (simp add: to_double_def Let_def)
next
  case False
  define c :: real where "c = of_int k / 100"
  define x where "x = to_double c"
  define s where "s = to_double (x / 100)"
  define t where "t = to_double (s * 100)"
  have k100: "of_int k = c * 100"
    by (simp add: c_def)
  have "1 \<le> \<bar>k\<bar>"
    using False by simp
  then have "(1 :: real) \<le> of_int \<bar>k\<bar>"
    by linarith
  then have c_lo: "1 / 100 \<le> \<bar>c\<bar>"
    by (simp add: c_def)
  have "(of_int \<bar>k\<bar> :: real) \<le> of_int (10 ^ 12)"
    using assms by (rule of_int_le_iff [THEN iffD2])
  then have c_hi: "\<bar>c\<bar> \<le> 10000000000"
    by (simp add: c_def)
  have lo: "pow2 (- 1022) \<le> 1 / 100000"
    by (simp add: pow2_def)
  have hi: "(100000000000 :: real) \<le> pow2 1024"
    by (simp add: pow2_def)
  have eps: "\<bar>to_double y - y\<bar> \<le> \<bar>y\<bar> / 1000000000000000"
    if "1 / 100000 \<le> \<bar>y\<bar>" and "\<bar>y\<bar> < 100000000000" for y
  proof -
    have "\<bar>to_double y - y\<bar> \<le> \<bar>y\<bar> / 2 ^ 53"
      using that lo hi by (intro to_double_near) linarith+
    also have "\<dots> \<le> \<bar>y\<bar> / 1000000000000000"
      by (intro divide_left_mono) simp_all
    finally show ?thesis .
  qed
  have x: "\<bar>x - c\<bar> \<le> \<bar>c\<bar> / 1000000000000000"
    unfolding x_def using c_lo c_hi by (intro eps) linarith+
  have x_lo: "1 / 200 \<le> \<bar>x\<bar>"
    using x c_lo c_hi by linarith
  have x_hi: "\<bar>x\<bar> \<le> 10000000001"
    using x c_lo c_hi by linarith
  have s: "\<bar>s - x / 100\<bar> \<le> \<bar>x / 100\<bar> / 1000000000000000"
    unfolding s_def using x_lo x_hi by (intro eps) (simp, linarith)+
  have x100: "\<bar>x / 100\<bar> = \<bar>x\<bar> / 100"
    by simp
  have s_lo: "1 / 40000 \<le> \<bar>s\<bar>"
    using s x_lo x_hi unfolding x100 by linarith
  have s_hi: "\<bar>s\<bar> \<le> 100000001"
    using s x_lo x_hi unfolding x100 by linarith
  have s100: "\<bar>s * 100\<bar> = \<bar>s\<bar> * 100"
    by simp
  have t: "\<bar>t - s * 100\<bar> \<le> \<bar>s * 100\<bar> / 1000000000000000"
    unfolding t_def using s_lo s_hi by (intro eps) (simp, linarith)+
  have near: "\<bar>t - c\<bar> \<le> 1 / 1000"
    using x s t c_hi x_hi s_hi unfolding x100 s100 by linarith
  have s_nz: "s \<noteq> 0" using s_lo by auto
  have t_nz: "t \<noteq> 0" using near c_lo by auto
  have chain: "mul100 (or_zero (div100 (Fin (to_double (of_int k / 100))))) = Fin t"
    using s_nz t_nz by (simp add: Let_def c_def [symmetric] x_def [symmetric] s_def [symmetric]
        t_def [symmetric])
  show ?thesis
  proof (cases "0 < k")
    case True
    then have "0 < c" by (simp add: c_def)
    then have pos: "0 < t" using near c_lo by linarith
    have "\<lfloor>\<bar>t\<bar> * 100 + 1 / 2\<rfloor> = k"
      using near pos k100 by (intro floor_unique) linarith+
    then show ?thesis
      unfolding chain using pos by (simp add: Let_def)
  next
    case neg: False
    then have "k < 0" using False by simp
    then have "c < 0" by (simp add: c_def)
    then have negt: "t < 0" using near c_lo by linarith
    have mk: "real_of_int (- k) = - (c * 100)"
      using k100 by simp
    have "\<lfloor>\<bar>t\<bar> * 100 + 1 / 2\<rfloor> = - k"
      using near negt mk by (intro floor_unique) linarith+
    then show ?thesis
      unfolding chain using negt \<open>k < 0\<close> by (simp add: Let_def)
  qed
qed

lemma upper_of_lower:
  assumes "is_lower c"
  shows "is_upper (to_upper c) \<and> to_lower (to_upper c) = c"
proof -
  define n where "n = (of_char c :: nat)"
  have n: "97 \<le> n" "n \<le> 122"
    using assms by (simp_all add: is_lower_def n_def)
  have u: "(of_char (to_upper c) :: nat) = n - 32"
    using assms n by (simp add: to_upper_def n_def)
  have "char_of (n - 32 + 32) = c"
    using n by (simp add: n_def)
  then show ?thesis
    using n u by (auto simp: is_upper_def to_lower_def)
qed

lemma to_lower_not_upper: "\<not> is_upper (to_lower c)"
proof (cases "is_upper c")
  case True
  define n where "n = (of_char c :: nat)"
  have n: "65 \<le> n" "n \<le> 90"
    using True by (simp_all add: is_upper_def n_def)
  have "(of_char (to_lower c) :: nat) = n + 32"
    using True n by (simp add: to_lower_def n_def)
  then show ?thesis
    using n by (simp add: is_upper_def)
next
  case False
  then show ?thesis by (simp add: to_lower_def)
qed

lemma to_lower_idem: "to_lower (to_lower c) = to_lower c"
  using to_lower_not_upper [of c] by (simp add: to_lower_def)

section \<open>Round trip of the key casing\<close>

lemma key_roundtrip:
  "list_all (\<lambda>c. \<not> is_upper c) k \<Longrightarrow> camelToSnakeKey (snakeToCamelKey k) = k"
  by (induction k rule: snakeToCamelKey.induct) (auto simp: upper_of_lower)

lemma camel_not_proto:
  assumes "snake_key k"
  shows "snakeToCamelKey k \<noteq> ''__proto__''"
proof
  assume "snakeToCamelKey k = ''__proto__''"
  then have "camelToSnakeKey (snakeToCamelKey k) = camelToSnakeKey ''__proto__''"
    by simp
  then have "k = ''__proto__''"
    using assms by (simp add: snake_key_def key_roundtrip is_upper_def)
  then show False
    using assms by (simp add: snake_key_def)
qed

lemma snakeToCamelKey_inj:
  "snake_key a \<Longrightarrow> snake_key b \<Longrightarrow> snakeToCamelKey a = snakeToCamelKey b \<Longrightarrow> a = b"
  by (metis key_roundtrip snake_key_def)

lemma obj_put_fresh: "k \<notin> fst ` set acc \<Longrightarrow> obj_put acc k v = acc @ [(k, v)]"
  by (induction acc) auto

lemma foldl_assign_fresh:
  "distinct (map (f \<circ> fst) kvs) \<Longrightarrow> \<forall>kv \<in> set kvs. f (fst kv) \<noteq> ''__proto__'' \<Longrightarrow>
   (f \<circ> fst) ` set kvs \<inter> fst ` set acc = {} \<Longrightarrow>
   foldl (\<lambda>acc (key, v). obj_assign acc (f key) v) acc kvs =
     acc @ map (\<lambda>(key, v). (f key, v)) kvs"
proof (induction kvs arbitrary: acc)
  case Nil
  then show ?case by simp
next
  case (Cons kv kvs)
  obtain k v where kv: "kv = (k, v)" by (cases kv)
  have fresh: "f k \<notin> fst ` set acc"
    using Cons.prems(3) kv by auto
  have first: "obj_assign acc (f k) v = acc @ [(f k, v)]"
    using Cons.prems(2) fresh kv by (simp add: obj_assign_def obj_put_fresh)
  have disj: "(f \<circ> fst) ` set kvs \<inter> fst ` set (acc @ [(f k, v)]) = {}"
    using Cons.prems(1,3) kv by auto
  have "foldl (\<lambda>acc (key, v). obj_assign acc (f key) v) (acc @ [(f k, v)]) kvs =
        (acc @ [(f k, v)]) @ map (\<lambda>(key, v). (f key, v)) kvs"
    using Cons.IH [OF _ _ disj] Cons.prems(1,2) by simp
  then show ?case
    using first kv by simp
qed

lemma roundtrip_snake_keys:
  "keys_ok snake_key m \<Longrightarrow> convertCamelToSnake (convertSnakeToCamel m) = m"
proof (induction m)
  case (Arr xs)
  then show ?case by (simp add: map_idI)
next
  case (Obj kvs)
  have d: "distinct (map fst kvs)"
    and sk: "\<forall>kv \<in> set kvs. snake_key (fst kv)"
    and ok: "\<forall>kv \<in> set kvs. keys_ok snake_key (snd kv)"
    using Obj.prems by auto
  let ?camel = "map (map_prod id convertSnakeToCamel) kvs"
  have inj: "inj_on snakeToCamelKey (set (map fst kvs))"
    using sk by (auto intro!: inj_onI dest: snakeToCamelKey_inj)
  have e1: "map (snakeToCamelKey \<circ> fst) ?camel = map snakeToCamelKey (map fst kvs)"
    by (induction kvs) auto
  have d1a: "distinct (map snakeToCamelKey (map fst kvs))"
    using d inj by (simp only: distinct_map)
  have d1: "distinct (map (snakeToCamelKey \<circ> fst) ?camel)"
    unfolding e1 by (rule d1a)
  have np1: "\<forall>kv \<in> set ?camel. snakeToCamelKey (fst kv) \<noteq> ''__proto__''"
    using sk by (auto simp: camel_not_proto)
  have s1: "foldl (\<lambda>acc (key, v). obj_assign acc (snakeToCamelKey key) v) [] ?camel =
            map (\<lambda>(key, v). (snakeToCamelKey key, convertSnakeToCamel v)) kvs"
    using foldl_assign_fresh [OF d1 np1, of "[]"] by (simp add: case_prod_beta comp_def)
  let ?snake = "map (map_prod id convertCamelToSnake)
                 (map (\<lambda>(key, v). (snakeToCamelKey key, convertSnakeToCamel v)) kvs)"
  have rt: "\<forall>kv \<in> set kvs. camelToSnakeKey (snakeToCamelKey (fst kv)) = fst kv"
    using sk by (simp add: snake_key_def key_roundtrip)
  have keys2: "map (camelToSnakeKey \<circ> fst) ?snake = map fst kvs"
    using rt by (auto simp: case_prod_beta)
  have d2: "distinct (map (camelToSnakeKey \<circ> fst) ?snake)"
    unfolding keys2 by (rule d)
  have np2: "\<forall>kv \<in> set ?snake. camelToSnakeKey (fst kv) \<noteq> ''__proto__''"
    using sk rt by (fastforce simp: snake_key_def)
  have vals: "\<forall>kv \<in> set kvs. convertCamelToSnake (convertSnakeToCamel (snd kv)) = snd kv"
    using Obj.IH ok by (auto simp: snds.simps)
  have s2: "foldl (\<lambda>acc (key, v). obj_assign acc (camelToSnakeKey key) v) [] ?snake =
            map (\<lambda>(key, v). (camelToSnakeKey key, v)) ?snake"
    using foldl_assign_fresh [OF d2 np2, of "[]"] by simp
  have "map (\<lambda>(key, v). (camelToSnakeKey key, v)) ?snake =
        map (\<lambda>kv. (camelToSnakeKey (snakeToCamelKey (fst kv)),
                      convertCamelToSnake (convertSnakeToCamel (snd kv)))) kvs"
    by (simp add: case_prod_beta comp_def)
  also have "\<dots> = map (\<lambda>kv. kv) kvs"
    using rt vals by (intro map_cong) auto
  finally have "map (\<lambda>(key, v). (camelToSnakeKey key, v)) ?snake = kvs"
    by simp
  then show ?case
    using s1 s2 by simp
qed simp_all

lemma keys_ok_mono:
  "(\<And>k. P k \<Longrightarrow> Q k) \<Longrightarrow> keys_ok P m \<Longrightarrow> keys_ok Q m"
  by (induction m) (auto simp: snds.simps)

lemma canonical_keys_snake: "list_all snake_key canonical_keys"
  by (simp add: canonical_keys_def api_values_def userInputMappings_def snake_key_def is_upper_def)

text \<open>
  Claim C6. A mapping whose keys, at every level of nesting, are canonical snake-style
  keys of the property page comes back unchanged when it is converted to camel case and
  back again; scalars and the shape of arrays are kept on the way.
\<close>

theorem wire_format_round_trip:
  assumes "keys_ok (\<lambda>k. k \<in> set canonical_keys) m"
  shows "convertCamelToSnake (convertSnakeToCamel m) = m"
proof -
  have "\<And>k. k \<in> set canonical_keys \<Longrightarrow> snake_key k"
    using canonical_keys_snake by (simp add: list_all_iff)
  then have "keys_ok snake_key m"
    using assms keys_ok_mono [of "\<lambda>k. k \<in> set canonical_keys" snake_key m] by blast
  then show ?thesis
    by (rule roundtrip_snake_keys)
qed

theorem wire_format_round_trip_witness:
  "convertSnakeToCamel example_mapping =
     Obj [(''vacancyRate'', Num (Fin (5 / 100))),
          (''firstMtgCmhcFee'', Num (Fin 0)),
          (''address'', Str ''12 Elm Street''),
          (''repairs'', Arr [Obj [(''legal'', Null), (''lessProRationOfRents'', Bool True)]])]
   \<and> convertCamelToSnake (convertSnakeToCamel example_mapping) = example_mapping"
proof -
  have ok: "keys_ok (\<lambda>k. k \<in> set canonical_keys) example_mapping"
    by (simp add: example_mapping_def canonical_keys_def api_values_def userInputMappings_def)
  have camel: "convertSnakeToCamel example_mapping =
     Obj [(''vacancyRate'', Num (Fin (5 / 100))),
          (''firstMtgCmhcFee'', Num (Fin 0)),
          (''address'', Str ''12 Elm Street''),
          (''repairs'', Arr [Obj [(''legal'', Null), (''lessProRationOfRents'', Bool True)]])]"
    by (simp add: example_mapping_def obj_assign_def char_eval)
  show ?thesis
    using camel wire_format_round_trip [OF ok] by simp
qed

section \<open>The recalculation payload\<close>

lemma Item_sel:
  "name (Item n t s f) = n"
  "value_type (Item n t s f) = t"
  "item_section (Item n t s f) = s"
  "format (Item n t s f) = f"
  by (simp_all add: Item_def)

lemma userInputKey_eval:
  "userInputKey ''Vacancy Rate'' = ''vacancy_rate''"
  "userInputKey ''Management Rate'' = ''management_rate''"
  "userInputKey ''Advertising Cost per Vacancy'' = ''advertising_cost_per_vacancy''"
  "userInputKey ''Annual Appreciation Rate'' = ''annual_appreciation_rate''"
  "userInputKey ''Repairs'' = ''repairs''"
  "userInputKey ''Repairs Contingency'' = ''repairs_contingency''"
  "userInputKey ''Lender Fee'' = ''lender_fee''"
  "userInputKey ''Broker Fee'' = ''broker_fee''"
  "userInputKey ''Environmentals'' = ''environmentals''"
  "userInputKey ''Inspections'' = ''inspections''"
  "userInputKey ''Appraisals'' = ''appraisals''"
  "userInputKey ''Misc'' = ''misc''"
  "userInputKey ''Legal'' = ''legal''"
  "userInputKey ''1st Mtg Amortization Period'' = ''first_mtg_amortization_period''"
  "userInputKey ''1st Mtg CMHC Fee'' = ''first_mtg_cmhc_fee''"
  "userInputKey ''2nd Mtg Principle Amount'' = ''second_mtg_principle''"
  "userInputKey ''2nd Mtg Interest Rate'' = ''second_mtg_interest_rate''"
  "userInputKey ''2nd Mtg Amortization Period'' = ''second_mtg_amortization''"
  "userInputKey ''Interest Only Principle Amount'' = ''interest_only_principle''"
  "userInputKey ''Interest Only Interest Rate'' = ''interest_only_rate''"
  "userInputKey ''Other Monthly Financing Costs'' = ''other_monthly_financing''"
  "userInputKey ''Parking'' = ''parking''"
  "userInputKey ''Storage'' = ''storage''"
  "userInputKey ''Laundry / Vending'' = ''laundry_vending''"
  "userInputKey ''Other Income'' = ''other_income''"
  "userInputKey ''Electricity'' = ''electricity''"
  "userInputKey ''Gas'' = ''gas''"
  "userInputKey ''Lawn / Snow Maintenance'' = ''lawn_maintenance''"
  "userInputKey ''Water / Sewer'' = ''water_sewer''"
  "userInputKey ''Cable'' = ''cable''"
  "userInputKey ''Caretaking'' = ''caretaking''"
  "userInputKey ''Trash Removal'' = ''trash_removal''"
  "userInputKey ''Miscellaneous'' = ''miscellaneous''"
  "userInputKey ''Common Area Maintenance'' = ''common_area_maintenance''"
  "userInputKey ''Capital Improvements'' = ''capital_improvements''"
  "userInputKey ''Accounting'' = ''accounting''"
  "userInputKey ''Bad Debts'' = ''bad_debts''"
  "userInputKey ''Other Expenses'' = ''other_expenses''"
  "userInputKey ''Deposit(s) made with Offer'' = ''deposit_with_offer''"
  "userInputKey ''Less Pro-Ration of Rents'' = ''less_pro_ration_of_rents''"
  by (simp_all add: userInputKey_def key_or_def keyMappings_def derive_key_def
      lowercase_matches_def char_eval object_prototype_def)

lemma userInputMappings_eval:
  "map_of userInputMappings ''vacancy_rate'' = Some ''vacancy_rate''"
  "map_of userInputMappings ''management_rate'' = Some ''management_rate''"
  "map_of userInputMappings ''advertising_cost_per_vacancy'' = Some ''advertising_cost_per_vacancy''"
  "map_of userInputMappings ''annual_appreciation_rate'' = Some ''annual_appreciation_rate''"
  "map_of userInputMappings ''repairs'' = Some ''repairs''"
  "map_of userInputMappings ''repairs_contingency'' = Some ''repairs_contingency''"
  "map_of userInputMappings ''lender_fee'' = Some ''lender_fee''"
  "map_of userInputMappings ''broker_fee'' = Some ''broker_fee''"
  "map_of userInputMappings ''environmentals'' = Some ''environmentals''"
  "map_of userInputMappings ''inspections'' = Some ''inspections''"
  "map_of userInputMappings ''appraisals'' = Some ''appraisals''"
  "map_of userInputMappings ''misc'' = Some ''misc''"
  "map_of userInputMappings ''legal'' = Some ''legal''"
  "map_of userInputMappings ''first_mtg_amortization_period'' = Some ''first_mtg_amortization_period''"
  "map_of userInputMappings ''first_mtg_cmhc_fee'' = Some ''first_mtg_cmhc_fee''"
  "map_of userInputMappings ''second_mtg_principle'' = Some ''second_mtg_principle''"
  "map_of userInputMappings ''second_mtg_interest_rate'' = Some ''second_mtg_interest_rate''"
  "map_of userInputMappings ''second_mtg_amortization'' = Some ''second_mtg_amortization''"
  "map_of userInputMappings ''interest_only_principle'' = Some ''interest_only_principle''"
  "map_of userInputMappings ''interest_only_rate'' = Some ''interest_only_rate''"
  "map_of userInputMappings ''other_monthly_financing'' = Some ''other_monthly_financing''"
  "map_of userInputMappings ''parking'' = Some ''parking''"
  "map_of userInputMappings ''storage'' = Some ''storage''"
  "map_of userInputMappings ''laundry_vending'' = Some ''laundry_vending''"
  "map_of userInputMappings ''other_income'' = Some ''other_income''"
  "map_of userInputMappings ''electricity'' = Some ''electricity''"
  "map_of userInputMappings ''gas'' = Some ''gas''"
  "map_of userInputMappings ''lawn_maintenance'' = Some ''lawn_maintenance''"
  "map_of userInputMappings ''water_sewer'' = Some ''water_sewer''"
  "map_of userInputMappings ''cable'' = Some ''cable''"
  "map_of userInputMappings ''caretaking'' = Some ''caretaking''"
  "map_of userInputMappings ''trash_removal'' = Some ''trash_removal''"
  "map_of userInputMappings ''miscellaneous'' = Some ''miscellaneous''"
  "map_of userInputMappings ''common_area_maintenance'' = Some ''common_area_maintenance''"
  "map_of userInputMappings ''capital_improvements'' = Some ''capital_improvements''"
  "map_of userInputMappings ''accounting'' = Some ''accounting''"
  "map_of userInputMappings ''bad_debts'' = Some ''bad_debts''"
  "map_of userInputMappings ''other_expenses'' = Some ''other_expenses''"
  "map_of userInputMappings ''deposit_with_offer'' = Some ''deposit_with_offer''"
  "map_of userInputMappings ''less_pro_ration_of_rents'' = Some ''less_pro_ration_of_rents''"
  by (simp_all add: userInputMappings_def)

lemma registry_items_sections:
  "registry_items =
     property_info_items @ purchase_info_items @ financing_monthly_items @
     income_annual_items @ operating_expenses_annual_items @
     net_operating_income_annual_items @ cash_requirements_items @
     cashflow_summary_annual_items @ quick_analysis_items"
  by (simp add: registry_items_def groupedItems_def)

text \<open>Every user-input item of the registry resolves to a key of \<^verbatim>\<open>userInputMappings\<close>,
  section by section.\<close>

lemma section_keys_mapped:
  "\<forall>it \<in> set property_info_items. value_type it = User_Input \<longrightarrow>
     map_of userInputMappings (userInputKey (name it)) = Some (userInputKey (name it))"
  "\<forall>it \<in> set purchase_info_items. value_type it = User_Input \<longrightarrow>
     map_of userInputMappings (userInputKey (name it)) = Some (userInputKey (name it))"
  "\<forall>it \<in> set financing_monthly_items. value_type it = User_Input \<longrightarrow>
     map_of userInputMappings (userInputKey (name it)) = Some (userInputKey (name it))"
  "\<forall>it \<in> set income_annual_items. value_type it = User_Input \<longrightarrow>
     map_of userInputMappings (userInputKey (name it)) = Some (userInputKey (name it))"
  "\<forall>it \<in> set operating_expenses_annual_items. value_type it = User_Input \<longrightarrow>
     map_of userInputMappings (userInputKey (name it)) = Some (userInputKey (name it))"
  "\<forall>it \<in> set net_operating_income_annual_items. value_type it = User_Input \<longrightarrow>
     map_of userInputMappings (userInputKey (name it)) = Some (userInputKey (name it))"
  "\<forall>it \<in> set cash_requirements_items. value_type it = User_Input \<longrightarrow>
     map_of userInputMappings (userInputKey (name it)) = Some (userInputKey (name it))"
  "\<forall>it \<in> set cashflow_summary_annual_items. value_type it = User_Input \<longrightarrow>
     map_of userInputMappings (userInputKey (name it)) = Some (userInputKey (name it))"
  "\<forall>it \<in> set quick_analysis_items. value_type it = User_Input \<longrightarrow>
     map_of userInputMappings (userInputKey (name it)) = Some (userInputKey (name it))"
  by (simp_all add: property_info_items_def purchase_info_items_def financing_monthly_items_def
      income_annual_items_def operating_expenses_annual_items_def
      net_operating_income_annual_items_def cash_requirements_items_def
      cashflow_summary_annual_items_def quick_analysis_items_def
      Item_sel userInputKey_eval userInputMappings_eval)

lemma registry_keys_mapped:
  assumes "item \<in> set registry_items" and "value_type item = User_Input"
  shows "(userInputKey (name item), userInputKey (name item)) \<in> set userInputMappings"
proof -
  have "map_of userInputMappings (userInputKey (name item)) = Some (userInputKey (name item))"
    using assms section_keys_mapped by (auto simp: registry_items_sections)
  then show ?thesis
    by (rule map_of_SomeD)
qed

lemma userInputMappings_distinct: "distinct (map fst userInputMappings)"
  by (simp add: userInputMappings_def)

lemma userInputMappings_no_proto: "\<forall>p \<in> set userInputMappings. fst p \<noteq> ''__proto__''"
  by (simp add: userInputMappings_def)

lemma pending_or_stored_some:
  "pending_or_stored mods (Some inputs) key mappedKey =
     Inr (coalesce (coalesce (obj_get mods key) (obj_get inputs mappedKey)) (Num (Fin 0)))"
  by (simp add: pending_or_stored_def coalesce_def)

lemma collect_inputs_some:
  "collect_inputs mods (Some inputs) acc kms =
     Inr (foldl (\<lambda>acc (key, mappedKey). obj_assign acc key
            (coalesce (coalesce (obj_get mods key) (obj_get inputs mappedKey)) (Num (Fin 0))))
          acc kms)"
  by (induction kms arbitrary: acc) (auto simp: pending_or_stored_some)

lemma map_of_obj_put: "map_of (obj_put acc k v) = (map_of acc)(k \<mapsto> v)"
  by (induction acc) (auto simp: fun_upd_twist)

lemma keys_obj_put: "fst ` set (obj_put acc k v) = insert k (fst ` set acc)"
proof (induction acc)
  case Nil
  then show ?case by simp
next
  case (Cons p acc)
  obtain k1 v1 where p: "p = (k1, v1)" by (cases p)
  show ?case
  proof (cases "k1 = k")
    case True
    then show ?thesis using p by simp
  next
    case False
    then show ?thesis using Cons p by (simp add: insert_commute)
  qed
qed

lemma distinct_obj_put: "distinct (map fst acc) \<Longrightarrow> distinct (map fst (obj_put acc k v))"
proof (induction acc)
  case Nil
  then show ?case by simp
next
  case (Cons p acc)
  obtain k1 v1 where p: "p = (k1, v1)" by (cases p)
  show ?case
  proof (cases "k1 = k")
    case True
    then show ?thesis using Cons.prems p by simp
  next
    case False
    have "k1 \<notin> fst ` set (obj_put acc k v)"
      using Cons.prems p False by (simp add: keys_obj_put)
    then show ?thesis
      using Cons p False by simp
  qed
qed

lemma foldl_put_other:
  "k \<notin> fst ` set kms \<Longrightarrow>
   map_of (foldl (\<lambda>acc (key, mappedKey). obj_assign acc key (g key mappedKey)) acc kms) k =
     map_of acc k"
proof (induction kms arbitrary: acc)
  case Nil
  then show ?case by simp
next
  case (Cons p kms)
  obtain k1 m1 where p: "p = (k1, m1)" by (cases p)
  have "k1 \<noteq> k" using Cons.prems p by auto
  then have "map_of (obj_assign acc k1 (g k1 m1)) k = map_of acc k"
    by (simp add: obj_assign_def map_of_obj_put)
  then show ?case
    using Cons p by simp
qed

lemma foldl_put_lookup:
  assumes "distinct (map fst kms)" and "(k, mk) \<in> set kms"
    and "\<forall>p \<in> set kms. fst p \<noteq> ''__proto__''"
  shows "map_of (foldl (\<lambda>acc (key, mappedKey). obj_assign acc key (g key mappedKey)) acc kms) k =
           Some (g k mk)"
  using assms
proof (induction kms arbitrary: acc)
  case Nil
  then show ?case by simp
next
  case (Cons p kms)
  obtain k1 m1 where p: "p = (k1, m1)" by (cases p)
  show ?case
  proof (cases "(k, mk) = (k1, m1)")
    case True
    have "k \<notin> fst ` set kms"
      using Cons.prems(1) p True by auto
    then have "map_of (foldl (\<lambda>acc (key, mappedKey). obj_assign acc key (g key mappedKey))
                  (obj_assign acc k (g k mk)) kms) k =
               map_of (obj_assign acc k (g k mk)) k"
      by (rule foldl_put_other)
    moreover have "k \<noteq> ''__proto__''"
      using Cons.prems(3) p True by auto
    ultimately show ?thesis
      using p True by (simp add: obj_assign_def map_of_obj_put)
  next
    case False
    then have "(k, mk) \<in> set kms"
      using Cons.prems(2) p by auto
    then show ?thesis
      using Cons.IH [of "obj_assign acc k1 (g k1 m1)"] Cons.prems(1,3) p by simp
  qed
qed

lemma foldl_put_distinct:
  "distinct (map fst acc) \<Longrightarrow>
   distinct (map fst (foldl (\<lambda>acc (key, mappedKey). obj_assign acc key (g key mappedKey)) acc kms))"
proof (induction kms arbitrary: acc)
  case Nil
  then show ?case by simp
next
  case (Cons p kms)
  obtain k1 m1 where p: "p = (k1, m1)" by (cases p)
  have "distinct (map fst (obj_assign acc k1 (g k1 m1)))"
    using Cons.prems by (simp add: obj_assign_def distinct_obj_put)
  then show ?case
    using Cons.IH p by simp
qed

lemma one_entry:
  "distinct (map fst xs) \<Longrightarrow> map_of xs k = Some v \<Longrightarrow>
   length (filter (\<lambda>kv. fst kv = k) xs) = 1"
proof (induction xs)
  case Nil
  then show ?case by simp
next
  case (Cons p xs)
  obtain k1 v1 where p: "p = (k1, v1)" by (cases p)
  show ?case
  proof (cases "k1 = k")
    case True
    then have "k \<notin> fst ` set xs"
      using Cons.prems(1) p by auto
    then have "filter (\<lambda>kv. fst kv = k) xs = []"
      by (auto simp: filter_empty_conv)
    then show ?thesis using p True by simp
  next
    case False
    then show ?thesis using Cons p by simp
  qed
qed

lemma api_values_distinct: "distinct (map fst (api_values api))"
  by (simp add: api_values_def)

lemma collect_defined:
  assumes "first_property (propertyDetail st) = Some property"
    and "api_data property = Some api"
    and "user_inputs property = Some inputs"
  shows "collectCurrentValues st =
     Inr (foldl (\<lambda>acc (key, mappedKey). obj_assign acc key
            (coalesce (coalesce (obj_get (modifiedValues st) key) (obj_get inputs mappedKey))
               (Num (Fin 0))))
          (api_values api) userInputMappings)"
  using assms by (simp add: collectCurrentValues_def collect_inputs_some)

text \<open>
  What the payload holds. For a snapshot whose sourced facts and user inputs are present,
  and for any pending edits, the payload has exactly one entry under the canonical key of
  every user-input item of the registry; its value is the entry of the pending edits under
  that canonical key if there is one, else the user input stored in the snapshot, else zero
  (\<^verbatim>\<open>??\<close> counts \<^verbatim>\<open>null\<close> as absent).
\<close>

lemma payload_by_canonical_key:
  assumes "first_property (propertyDetail st) = Some property"
    and "api_data property = Some api"
    and "user_inputs property = Some inputs"
  shows "\<exists>payload. collectCurrentValues st = Inr payload \<and>
           (\<forall>item \<in> set registry_items. value_type item = User_Input \<longrightarrow>
              length (filter (\<lambda>kv. fst kv = userInputKey (name item)) payload) = 1 \<and>
              map_of payload (userInputKey (name item)) =
                Some (coalesce
                        (coalesce (obj_get (modifiedValues st) (userInputKey (name item)))
                           (obj_get inputs (userInputKey (name item))))
                        (Num (Fin 0))))"
proof -
  let ?g = "\<lambda>key mappedKey.
     coalesce (coalesce (obj_get (modifiedValues st) key) (obj_get inputs mappedKey)) (Num (Fin 0))"
  let ?payload = "foldl (\<lambda>acc (key, mappedKey). obj_assign acc key (?g key mappedKey))
                    (api_values api) userInputMappings"
  have built: "collectCurrentValues st = Inr ?payload"
    using assms by (rule collect_defined)
  have dist: "distinct (map fst ?payload)"
    using api_values_distinct by (rule foldl_put_distinct)
  have entry: "length (filter (\<lambda>kv. fst kv = userInputKey (name item)) ?payload) = 1 \<and>
               map_of ?payload (userInputKey (name item)) =
                 Some (?g (userInputKey (name item)) (userInputKey (name item)))"
    if "item \<in> set registry_items" and "value_type item = User_Input" for item
  proof -
    have "(userInputKey (name item), userInputKey (name item)) \<in> set userInputMappings"
      using that by (rule registry_keys_mapped)
    then have look: "map_of ?payload (userInputKey (name item)) =
                 Some (?g (userInputKey (name item)) (userInputKey (name item)))"
      using userInputMappings_distinct userInputMappings_no_proto
      by (intro foldl_put_lookup)
    show ?thesis
      using one_entry [OF dist look] look by simp
  qed
  show ?thesis
    using built entry by blast
qed

text \<open>
  The key under which \<^verbatim>\<open>handleValueChange\<close> files an edit, for every user-input name
  of the registry. For the last thirteen names it is not the canonical key.
\<close>

lemma edit_key_eval:
  "edit_key ''Vacancy Rate'' = ''vacancy_rate''"
  "edit_key ''Management Rate'' = ''management_rate''"
  "edit_key ''Advertising Cost per Vacancy'' = ''advertising_cost_per_vacancy''"
  "edit_key ''Annual Appreciation Rate'' = ''annual_appreciation_rate''"
  "edit_key ''Repairs'' = ''repairs''"
  "edit_key ''Repairs Contingency'' = ''repairs_contingency''"
  "edit_key ''Lender Fee'' = ''lender_fee''"
  "edit_key ''Broker Fee'' = ''broker_fee''"
  "edit_key ''Environmentals'' = ''environmentals''"
  "edit_key ''Inspections'' = ''inspections''"
  "edit_key ''Appraisals'' = ''appraisals''"
  "edit_key ''Misc'' = ''misc''"
  "edit_key ''Legal'' = ''legal''"
  "edit_key ''Parking'' = ''parking''"
  "edit_key ''Storage'' = ''storage''"
  "edit_key ''Other Income'' = ''other_income''"
  "edit_key ''Electricity'' = ''electricity''"
  "edit_key ''Gas'' = ''gas''"
  "edit_key ''Cable'' = ''cable''"
  "edit_key ''Caretaking'' = ''caretaking''"
  "edit_key ''Trash Removal'' = ''trash_removal''"
  "edit_key ''Miscellaneous'' = ''miscellaneous''"
  "edit_key ''Common Area Maintenance'' = ''common_area_maintenance''"
  "edit_key ''Capital Improvements'' = ''capital_improvements''"
  "edit_key ''Accounting'' = ''accounting''"
  "edit_key ''Bad Debts'' = ''bad_debts''"
  "edit_key ''Other Expenses'' = ''other_expenses''"
  "edit_key ''1st Mtg Amortization Period'' = ''1st_mtg_amortization_period''"
  "edit_key ''1st Mtg CMHC Fee'' = ''1st_mtg_cmhc_fee''"
  "edit_key ''2nd Mtg Principle Amount'' = ''2nd_mtg_principle_amount''"
  "edit_key ''2nd Mtg Interest Rate'' = ''2nd_mtg_interest_rate''"
  "edit_key ''2nd Mtg Amortization Period'' = ''2nd_mtg_amortization_period''"
  "edit_key ''Interest Only Principle Amount'' = ''interest_only_principle_amount''"
  "edit_key ''Interest Only Interest Rate'' = ''interest_only_interest_rate''"
  "edit_key ''Other Monthly Financing Costs'' = ''other_monthly_financing_costs''"
  "edit_key ''Laundry / Vending'' = ''laundry_/_vending''"
  "edit_key ''Lawn / Snow Maintenance'' = ''lawn_/_snow_maintenance''"
  "edit_key ''Water / Sewer'' = ''water_/_sewer''"
  "edit_key ''Deposit(s) made with Offer'' = ''deposit(s)_made_with_offer''"
  "edit_key ''Less Pro-Ration of Rents'' = ''less_pro-ration_of_rents''"
  by (simp_all add: edit_key_def char_eval)

lemma edit_key_canonical:
  "edit_key ''Vacancy Rate'' = userInputKey ''Vacancy Rate''"
  "edit_key ''Management Rate'' = userInputKey ''Management Rate''"
  "edit_key ''Advertising Cost per Vacancy'' = userInputKey ''Advertising Cost per Vacancy''"
  "edit_key ''Annual Appreciation Rate'' = userInputKey ''Annual Appreciation Rate''"
  "edit_key ''Repairs'' = userInputKey ''Repairs''"
  "edit_key ''Repairs Contingency'' = userInputKey ''Repairs Contingency''"
  "edit_key ''Lender Fee'' = userInputKey ''Lender Fee''"
  "edit_key ''Broker Fee'' = userInputKey ''Broker Fee''"
  "edit_key ''Environmentals'' = userInputKey ''Environmentals''"
  "edit_key ''Inspections'' = userInputKey ''Inspections''"
  "edit_key ''Appraisals'' = userInputKey ''Appraisals''"
  "edit_key ''Misc'' = userInputKey ''Misc''"
  "edit_key ''Legal'' = userInputKey ''Legal''"
  "edit_key ''Parking'' = userInputKey ''Parking''"
  "edit_key ''Storage'' = userInputKey ''Storage''"
  "edit_key ''Other Income'' = userInputKey ''Other Income''"
  "edit_key ''Electricity'' = userInputKey ''Electricity''"
  "edit_key ''Gas'' = userInputKey ''Gas''"
  "edit_key ''Cable'' = userInputKey ''Cable''"
  "edit_key ''Caretaking'' = userInputKey ''Caretaking''"
  "edit_key ''Trash Removal'' = userInputKey ''Trash Removal''"
  "edit_key ''Miscellaneous'' = userInputKey ''Miscellaneous''"
  "edit_key ''Common Area Maintenance'' = userInputKey ''Common Area Maintenance''"
  "edit_key ''Capital Improvements'' = userInputKey ''Capital Improvements''"
  "edit_key ''Accounting'' = userInputKey ''Accounting''"
  "edit_key ''Bad Debts'' = userInputKey ''Bad Debts''"
  "edit_key ''Other Expenses'' = userInputKey ''Other Expenses''"
  by (simp_all add: edit_key_eval userInputKey_eval)

lemma edit_key_not_canonical:
  "edit_key ''1st Mtg Amortization Period'' \<noteq> userInputKey ''1st Mtg Amortization Period''"
  "edit_key ''1st Mtg CMHC Fee'' \<noteq> userInputKey ''1st Mtg CMHC Fee''"
  "edit_key ''2nd Mtg Principle Amount'' \<noteq> userInputKey ''2nd Mtg Principle Amount''"
  "edit_key ''2nd Mtg Interest Rate'' \<noteq> userInputKey ''2nd Mtg Interest Rate''"
  "edit_key ''2nd Mtg Amortization Period'' \<noteq> userInputKey ''2nd Mtg Amortization Period''"
  "edit_key ''Interest Only Principle Amount'' \<noteq> userInputKey ''Interest Only Principle Amount''"
  "edit_key ''Interest Only Interest Rate'' \<noteq> userInputKey ''Interest Only Interest Rate''"
  "edit_key ''Other Monthly Financing Costs'' \<noteq> userInputKey ''Other Monthly Financing Costs''"
  "edit_key ''Laundry / Vending'' \<noteq> userInputKey ''Laundry / Vending''"
  "edit_key ''Lawn / Snow Maintenance'' \<noteq> userInputKey ''Lawn / Snow Maintenance''"
  "edit_key ''Water / Sewer'' \<noteq> userInputKey ''Water / Sewer''"
  "edit_key ''Deposit(s) made with Offer'' \<noteq> userInputKey ''Deposit(s) made with Offer''"
  "edit_key ''Less Pro-Ration of Rents'' \<noteq> userInputKey ''Less Pro-Ration of Rents''"
  by (simp_all add: edit_key_eval userInputKey_eval)

text \<open>
  Claim C2 does not hold of the code. The payload looks a pending edit up under the
  canonical key, and the page files it under the edit key; for thirteen user-input names
  the two differ. With 300 stored for the laundry income the user enters 500: the edit is
  kept under \<^verbatim>\<open>laundry_/_vending\<close>, the field shows 500, and the payload carries the stored
  300 under \<^verbatim>\<open>laundry_vending\<close> and nothing under the edit key. An edit of the parking
  income, whose two keys agree, reaches the payload.
\<close>

theorem pending_edit_misses_payload:
  "laundry_vending_item \<in> set registry_items \<and>
   edit_key (name laundry_vending_item) = ''laundry_/_vending'' \<and>
   userInputKey (name laundry_vending_item) = ''laundry_vending'' \<and>
   modifiedValues (handleValueChange ''Laundry / Vending'' (Fin 500) income_state) =
     [(''laundry_/_vending'', Num (Fin 500))] \<and>
   renderValue no_coercion
     (modifiedValues (handleValueChange ''Laundry / Vending'' (Fin 500) income_state))
     laundry_vending_item income_snapshot = CurrencyInput (Num (Fin 500)) \<and>
   (\<exists>payload.
      collectCurrentValues (handleValueChange ''Laundry / Vending'' (Fin 500) income_state) =
        Inr payload \<and>
      map_of payload ''laundry_vending'' = Some (Num (Fin 300)) \<and>
      map_of payload ''laundry_/_vending'' = None) \<and>
   parking_item \<in> set registry_items \<and>
   edit_key (name parking_item) = userInputKey (name parking_item) \<and>
   (\<exists>payload.
      collectCurrentValues (handleValueChange ''Parking'' (Fin 40) income_state) = Inr payload \<and>
      map_of payload ''parking'' = Some (Num (Fin 40)))"
proof -
  let ?api = "[(''address'', Str ''12 Elm Street''), (''fair_market_value'', Num (Fin 450000)),
               (''number_of_units'', Num (Fin 2))]"
  let ?inputs = "[(''laundry_vending'', Num (Fin 300)), (''parking'', Num (Fin 25))]"
  have a: "api_data income_snapshot = Some ?api"
    by (simp add: income_snapshot_def example_snapshot_def)
  have u: "user_inputs income_snapshot = Some ?inputs"
    by (simp add: income_snapshot_def example_snapshot_def)
  have sel: "name laundry_vending_item = ''Laundry / Vending''"
    "format laundry_vending_item = Some ''currency''"
    "value_type laundry_vending_item = User_Input"
    by (simp_all add: laundry_vending_item_def Item_sel)
  have reg: "laundry_vending_item \<in> set registry_items"
    by (simp add: registry_items_sections income_annual_items_def laundry_vending_item_def)
  have canonical: "userInputKey (name laundry_vending_item) = ''laundry_vending''"
    by (simp add: sel userInputKey_eval)
  have filed: "edit_key (name laundry_vending_item) = ''laundry_/_vending''"
    by (simp add: sel edit_key_eval)
  have reg_parking: "parking_item \<in> set registry_items"
    by (simp add: registry_items_sections income_annual_items_def parking_item_def)
  have agree: "edit_key (name parking_item) = userInputKey (name parking_item)"
    by (simp add: parking_item_def Item_sel edit_key_canonical)
  have mods: "modifiedValues (handleValueChange ''Laundry / Vending'' (Fin 500) income_state) =
                [(''laundry_/_vending'', Num (Fin 500))]"
    by (simp add: handleValueChange_def edit_key_eval income_state_def)
  have stored: "getValue no_coercion laundry_vending_item income_snapshot = Num (Fin 300)"
    by (simp add: getValue_def getValue_try_def sel userInputKey_eval u obj_get_def
        coalesce_def nullish_def)
  have shown: "renderValue no_coercion [(''laundry_/_vending'', Num (Fin 500))]
                 laundry_vending_item income_snapshot = CurrencyInput (Num (Fin 500))"
    by (simp add: renderValue_def stored sel edit_key_eval coalesce_def nullish_def obj_get_def)
  let ?g = "\<lambda>ms key mappedKey.
     coalesce (coalesce (obj_get ms key) (obj_get ?inputs mappedKey)) (Num (Fin 0))"
  let ?payload = "\<lambda>ms. foldl (\<lambda>acc (key, mappedKey). obj_assign acc key (?g ms key mappedKey))
                    (api_values ?api) userInputMappings"
  have built: "collectCurrentValues (handleValueChange itemName v income_state) =
                 Inr (?payload (modifiedValues (handleValueChange itemName v income_state)))"
    for itemName v
    by (rule collect_defined [OF _ a u]) (simp add: handleValueChange_def income_state_def)
  have entry: "map_of (?payload ms) k = Some (?g ms k k)" if "(k, k) \<in> set userInputMappings"
    for ms k
    using userInputMappings_distinct that userInputMappings_no_proto
    by (intro foldl_put_lookup)
  have "map_of (?payload [(''laundry_/_vending'', Num (Fin 500))]) ''laundry_vending'' =
          Some (?g [(''laundry_/_vending'', Num (Fin 500))] ''laundry_vending'' ''laundry_vending'')"
    by (rule entry) (simp add: userInputMappings_def)
  then have laundry: "map_of (?payload [(''laundry_/_vending'', Num (Fin 500))]) ''laundry_vending'' =
                        Some (Num (Fin 300))"
    by (simp add: obj_get_def object_prototype_def coalesce_def nullish_def)
  have "map_of (?payload [(''laundry_/_vending'', Num (Fin 500))]) ''laundry_/_vending'' =
          map_of (api_values ?api) ''laundry_/_vending''"
    by (rule foldl_put_other) (simp add: userInputMappings_def)
  then have unread: "map_of (?payload [(''laundry_/_vending'', Num (Fin 500))]) ''laundry_/_vending'' =
                       None"
    by (simp add: api_values_def)
  have parking_mods: "modifiedValues (handleValueChange ''Parking'' (Fin 40) income_state) =
                        [(''parking'', Num (Fin 40))]"
    by (simp add: handleValueChange_def edit_key_eval income_state_def)
  have "map_of (?payload [(''parking'', Num (Fin 40))]) ''parking'' =
          Some (?g [(''parking'', Num (Fin 40))] ''parking'' ''parking'')"
    by (rule entry) (simp add: userInputMappings_def)
  then have parking: "map_of (?payload [(''parking'', Num (Fin 40))]) ''parking'' = Some (Num (Fin 40))"
    by (simp add: obj_get_def coalesce_def nullish_def)
  have first: "\<exists>payload.
      collectCurrentValues (handleValueChange ''Laundry / Vending'' (Fin 500) income_state) =
        Inr payload \<and>
      map_of payload ''laundry_vending'' = Some (Num (Fin 300)) \<and>
      map_of payload ''laundry_/_vending'' = None"
    using built [of "''Laundry / Vending''" "Fin 500"] laundry unread unfolding mods by blast
  have second: "\<exists>payload.
      collectCurrentValues (handleValueChange ''Parking'' (Fin 40) income_state) = Inr payload \<and>
      map_of payload ''parking'' = Some (Num (Fin 40))"
    using built [of "''Parking''" "Fin 40"] parking unfolding parking_mods by blast
  show ?thesis
    using reg filed canonical mods shown first reg_parking agree second by simp
qed

section \<open>Resolution of sourced items\<close>

text \<open>
  Claim C1, as the code has it. The claim asks for an \<open>UnmappedFieldError\<close> when a
  sourced item is not one of the recognised names. The \<^verbatim>\<open>default\<close> branch of the
  \<^verbatim>\<open>switch\<close> logs the name and returns the number zero instead: no exception is
  thrown, whatever the snapshot holds.
\<close>

theorem unmapped_sourced_item_is_zero:
  assumes "value_type item = API_Data" and "name item \<notin> set sourced_names"
  shows "getValue_try cn item property = Inr (Num (Fin 0)) \<and>
         getValue cn item property = Num (Fin 0)"
  using assms by (simp add: getValue_def getValue_try_def sourced_names_def)

theorem unmapped_sourced_item_is_zero_witness:
  "value_type lot_size_item = API_Data \<and> name lot_size_item \<notin> set sourced_names \<and>
   getValue no_coercion lot_size_item empty_snapshot = Num (Fin 0)"
proof -
  have t: "value_type lot_size_item = API_Data"
    by (simp add: lot_size_item_def Item_sel)
  have n: "name lot_size_item \<notin> set sourced_names"
    by (simp add: lot_size_item_def Item_sel sourced_names_def)
  show ?thesis
    using t n unmapped_sourced_item_is_zero [OF t n, of no_coercion empty_snapshot] by simp
qed

text \<open>The claim as stated fails: the unknown sourced item \<open>Lot Size\<close> resolves to zero.\<close>

theorem unmapped_sourced_item_counterexample:
  "getValue_try no_coercion lot_size_item example_snapshot = Inr (Num (Fin 0)) \<and>
   getValue no_coercion lot_size_item example_snapshot = Num (Fin 0)"
  by (simp add: getValue_def getValue_try_def lot_size_item_def Item_sel)

section \<open>Recalculation\<close>

text \<open>
  Claim C3, as the code has it. A successful recalculation replaces the snapshot by the
  response and leaves the pending edits as they were (nothing in the page ever empties
  \<^verbatim>\<open>modifiedValues\<close>). A failed one, whether the transport rejects or building the
  request throws, leaves snapshot and pending edits as they were and sets the message
  \<^verbatim>\<open>Failed to recalculate values\<close>.
\<close>

theorem recalculation_outcome:
  "(collectCurrentValues st = Inr updatedValues \<and>
    transport \<lparr>property_id = router_id st, request_values = updatedValues\<rparr> = Resolved data
      \<longrightarrow> propertyDetail (handleRecalculate transport st) = Some data \<and>
          modifiedValues (handleRecalculate transport st) = modifiedValues st \<and>
          error (handleRecalculate transport st) = error st \<and>
          \<not> isRecalculating (handleRecalculate transport st)) \<and>
   ((collectCurrentValues st = Inr updatedValues \<and>
     transport \<lparr>property_id = router_id st, request_values = updatedValues\<rparr> = Rejected err)
    \<or> collectCurrentValues st = Inl e
      \<longrightarrow> propertyDetail (handleRecalculate transport st) = propertyDetail st \<and>
          modifiedValues (handleRecalculate transport st) = modifiedValues st \<and>
          error (handleRecalculate transport st) = Some ''Failed to recalculate values'' \<and>
          \<not> isRecalculating (handleRecalculate transport st))"
  by (auto simp: handleRecalculate_def handleRecalculate_submit_def)

lemma example_state_values:
  "\<exists>updatedValues. collectCurrentValues example_state = Inr updatedValues"
proof -
  have "first_property (propertyDetail example_state) = Some example_snapshot"
    by (simp add: example_state_def)
  moreover have "\<exists>api. api_data example_snapshot = Some api"
    by (simp add: example_snapshot_def)
  moreover have "\<exists>inputs. user_inputs example_snapshot = Some inputs"
    by (simp add: example_snapshot_def)
  ultimately show ?thesis
    using collect_defined by blast
qed

lemma step_click:
  "collectCurrentValues st = Inr updatedValues \<Longrightarrow>
   step st RecalculateClick = st\<lparr>isRecalculating := True\<rparr>"
  by (simp add: handleRecalculate_submit_def)

lemma example_until_p2_loaded:
  "run example_state until_p2_loaded =
     example_state\<lparr>router_id := Some ''P2'', propertyDetail := Some [other_snapshot],
       isRecalculating := True\<rparr>"
proof -
  obtain vs where "collectCurrentValues example_state = Inr vs"
    using example_state_values by blast
  then have "step example_state RecalculateClick = example_state\<lparr>isRecalculating := True\<rparr>"
    by (rule step_click)
  then show ?thesis
    by (simp add: run_def until_p2_loaded_def id_changed_def id_present_def
        fetchPropertyDetail_submit_def example_state_def)
qed

theorem recalculation_outcome_witness:
  "propertyDetail (handleRecalculate transport_ok example_state) = Some [recalculated_snapshot] \<and>
   modifiedValues (handleRecalculate transport_ok example_state) = modifiedValues example_state \<and>
   propertyDetail (handleRecalculate transport_down example_state) = propertyDetail example_state \<and>
   modifiedValues (handleRecalculate transport_down example_state) = modifiedValues example_state \<and>
   error (handleRecalculate transport_down example_state) = Some ''Failed to recalculate values''"
proof -
  obtain vs where vs: "collectCurrentValues example_state = Inr vs"
    using example_state_values by blast
  have ok: "transport_ok \<lparr>property_id = router_id example_state, request_values = vs\<rparr> =
              Resolved [recalculated_snapshot]"
    by (simp add: transport_ok_def)
  have down: "transport_down \<lparr>property_id = router_id example_state, request_values = vs\<rparr> =
              Rejected ''Network Error''"
    by (simp add: transport_down_def)
  show ?thesis
    using vs ok down
      recalculation_outcome [of example_state vs transport_ok "[recalculated_snapshot]"]
      recalculation_outcome [of example_state vs transport_down _ "''Network Error''"]
    by simp
qed

text \<open>The claim as stated fails: after a successful recalculation the pending edit of
  the vacancy rate is still there.\<close>

theorem recalculation_keeps_edits_counterexample:
  "propertyDetail (handleRecalculate transport_ok example_state) = Some [recalculated_snapshot] \<and>
   modifiedValues (handleRecalculate transport_ok example_state) =
     [(''vacancy_rate'', Num (Fin (8 / 100)))]"
proof -
  obtain vs where "collectCurrentValues example_state = Inr vs"
    using example_state_values by blast
  then have "handleRecalculate transport_ok example_state =
      example_state\<lparr>isRecalculating := True\<rparr>
        \<lparr>propertyDetail := Some [recalculated_snapshot], isRecalculating := False\<rparr>"
    by (simp add: handleRecalculate_def handleRecalculate_submit_def transport_ok_def)
  then show ?thesis
    by (simp add: example_state_def)
qed

text \<open>
  Claim C4, as the code has it. The request carries the identifier that was active when
  it was submitted, but the response is not compared with anything: whenever it arrives
  it replaces the snapshot on display, and the active identifier stays what it is.
\<close>

theorem late_response_is_applied:
  "propertyDetail (step st (RecalculateSettled (Resolved data))) = Some data \<and>
   router_id (step st (RecalculateSettled (Resolved data))) = router_id st \<and>
   (handleRecalculate_submit st = (st1, Some req) \<longrightarrow> property_id req = router_id st)"
  by (auto simp: handleRecalculate_submit_def split: sum.splits)

theorem late_response_is_applied_witness:
  "propertyDetail (step (run example_state until_p2_loaded)
      (RecalculateSettled (Resolved [recalculated_snapshot]))) = Some [recalculated_snapshot] \<and>
   router_id (step (run example_state until_p2_loaded)
      (RecalculateSettled (Resolved [recalculated_snapshot]))) =
     router_id (run example_state until_p2_loaded) \<and>
   (\<exists>st1 req. handleRecalculate_submit example_state = (st1, Some req) \<and>
      property_id req = Some ''P1'')"
proof -
  obtain vs where "collectCurrentValues example_state = Inr vs"
    using example_state_values by blast
  then have sub: "handleRecalculate_submit example_state =
      (example_state\<lparr>isRecalculating := True\<rparr>,
       Some \<lparr>property_id = router_id example_state, request_values = vs\<rparr>)"
    by (simp add: handleRecalculate_submit_def)
  have "property_id \<lparr>property_id = router_id example_state, request_values = vs\<rparr> =
          router_id example_state"
    using sub late_response_is_applied [of example_state _
        "example_state\<lparr>isRecalculating := True\<rparr>"
        "\<lparr>property_id = router_id example_state, request_values = vs\<rparr>"]
    by blast
  then have "\<exists>st1 req. handleRecalculate_submit example_state = (st1, Some req) \<and>
      property_id req = Some ''P1''"
    using sub by (simp add: example_state_def)
  then show ?thesis
    using late_response_is_applied
      [of "run example_state until_p2_loaded" "[recalculated_snapshot]"]
    by simp
qed

text \<open>The claim as stated fails: with \<open>P2\<close> active and its snapshot on display, the late
  answer for \<open>P1\<close> takes the place of that snapshot.\<close>

theorem late_response_counterexample:
  "router_id (run example_state until_p2_loaded) = Some ''P2'' \<and>
   propertyDetail (run example_state until_p2_loaded) = Some [other_snapshot] \<and>
   router_id (run example_state late_response) = Some ''P2'' \<and>
   propertyDetail (run example_state late_response) = Some [recalculated_snapshot]"
proof -
  have "run example_state late_response =
          step (run example_state until_p2_loaded)
            (RecalculateSettled (Resolved [recalculated_snapshot]))"
    by (simp add: run_def late_response_def)
  then show ?thesis
    by (simp add: example_until_p2_loaded)
qed

section \<open>Pending edits and the active property\<close>

text \<open>
  Claim C5, as the code has it. A change of the identifier in the route only starts a
  fetch; the pending edits stay. Of all the events of the page, only a value change
  touches \<^verbatim>\<open>modifiedValues\<close>.
\<close>

theorem pending_edits_survive:
  "modifiedValues (id_changed new_id st) = modifiedValues st \<and>
   ((\<forall>itemName parsed. e \<noteq> ValueChange itemName parsed) \<longrightarrow>
      modifiedValues (step st e) = modifiedValues st)"
proof -
  have "modifiedValues (id_changed new_id st) = modifiedValues st"
    by (simp add: id_changed_def fetchPropertyDetail_submit_def Let_def)
  moreover have "modifiedValues (step st e) = modifiedValues st"
    if "\<forall>itemName parsed. e \<noteq> ValueChange itemName parsed"
  proof (cases e)
    case (RouteId i)
    then show ?thesis
      by (simp add: id_changed_def fetchPropertyDetail_submit_def Let_def)
  next
    case (FetchSettled r)
    then show ?thesis by (cases r) simp_all
  next
    case (ValueChange n p)
    then show ?thesis using that by simp
  next
    case RecalculateClick
    then show ?thesis
      by (simp add: handleRecalculate_submit_def split: sum.splits)
  next
    case (RecalculateSettled r)
    then show ?thesis by (cases r) simp_all
  next
    case (SaveProperty token r)
    then show ?thesis
      by (simp add: handleSaveProperty_def split: settled.splits)
  next
    case (SaveDefaultInputs token r)
    then show ?thesis
      by (simp add: handleSaveDefaultInputs_def split: settled.splits)
  next
    case TryAgainClick
    then show ?thesis
      by (simp add: fetchPropertyDetail_submit_def)
  qed
  ultimately show ?thesis by blast
qed

theorem pending_edits_survive_witness:
  "modifiedValues (id_changed (Some ''P2'') example_state) = modifiedValues example_state \<and>
   modifiedValues (step example_state (FetchSettled (Resolved [other_snapshot]))) =
     modifiedValues example_state"
  using pending_edits_survive [of "Some ''P2''" example_state "FetchSettled (Resolved [other_snapshot])"]
  by simp

text \<open>The claim as stated fails: the edit made on \<open>P1\<close> is still there once \<open>P2\<close> is
  active and loaded, and the vacancy-rate field of \<open>P2\<close> shows it.\<close>

theorem pending_edits_counterexample:
  "router_id (run example_state [RouteId (Some ''P2''), FetchSettled (Resolved [other_snapshot])]) =
     Some ''P2'' \<and>
   modifiedValues (run example_state [RouteId (Some ''P2''), FetchSettled (Resolved [other_snapshot])]) =
     [(''vacancy_rate'', Num (Fin (8 / 100)))] \<and>
   renderValue no_coercion
     (modifiedValues (run example_state [RouteId (Some ''P2''), FetchSettled (Resolved [other_snapshot])]))
     vacancy_rate_item other_snapshot = PercentInput (Fin 8)"
proof -
  have st: "run example_state [RouteId (Some ''P2''), FetchSettled (Resolved [other_snapshot])] =
          example_state\<lparr>router_id := Some ''P2'', propertyDetail := Some [other_snapshot]\<rparr>"
    by (simp add: run_def id_changed_def id_present_def fetchPropertyDetail_submit_def
        example_state_def)
  have shown: "renderValue no_coercion [(''vacancy_rate'', Num (Fin (8 / 100)))]
          vacancy_rate_item other_snapshot = PercentInput (Fin 8)"
    by (simp add: renderValue_def getValue_def getValue_try_def vacancy_rate_item_def Item_sel
        userInputKey_eval other_snapshot_def displayValue_def percent_names_def edit_key_def
        char_eval coalesce_def nullish_def obj_get_def object_prototype_def Let_def double_8)
  show ?thesis
    unfolding st using shown by (simp add: example_state_def)
qed

section \<open>Formatting\<close>

lemma dec_digits: "set (dec n) \<subseteq> set ''0123456789''"
proof (induction n rule: dec.induct)
  case (1 n)
  have digit: "''0123456789'' ! k \<in> set ''0123456789''" if "k < 10" for k
    using that by (intro nth_mem) simp
  show ?case
  proof (cases "n < 10")
    case True
    then show ?thesis
      using digit [of n] by (subst dec.simps) simp
  next
    case False
    have "n mod 10 < 10" by simp
    then show ?thesis
      using False 1 digit [of "n mod 10"] by (subst dec.simps) simp
  qed
qed

lemma group_rev_chars: "set (group_rev s) \<subseteq> insert CHR '','' (set s)"
  by (induction s rule: group_rev.induct) auto

lemma group3_chars: "set (group3 s) \<subseteq> insert CHR '','' (set s)"
  using group_rev_chars [of "rev s"] by (simp add: group3_def)

lemma grouped_digits_not_marker: "group3 (dec n) \<noteq> ''N/A''"
proof
  assume "group3 (dec n) = ''N/A''"
  then have "CHR ''N'' \<in> set (group3 (dec n))" by simp
  then have "CHR ''N'' \<in> insert CHR '','' (set (dec n))"
    using group3_chars by blast
  then have "CHR ''N'' \<in> set ''0123456789''"
    using dec_digits by auto
  then show False by simp
qed

lemma formatNumber_not_marker: "formatNumber n \<noteq> ''N/A''"
  by (cases n) (simp_all add: formatNumber_def grouped_digits_not_marker)

lemma formatCurrency_not_marker: "formatCurrency n \<noteq> ''N/A''"
  by (cases n) (simp_all add: formatCurrency_def)

lemma formatPercentage_not_marker: "formatPercentage n \<noteq> ''N/A''"
proof
  assume "formatPercentage n = ''N/A''"
  then have "last (toFixed2 (mul100 n) @ ''%'') = last ''N/A''"
    by (simp add: formatPercentage_def)
  then show False by simp
qed

lemma formatValue_not_marker: "\<not> nullish v \<Longrightarrow> formatValue cn v item \<noteq> ''N/A''"
  by (simp add: formatValue_def formatNumber_not_marker formatCurrency_not_marker
      formatPercentage_not_marker)

lemma floor_half: "\<lfloor>(of_int m :: real) + 1 / 2\<rfloor> = m"
  by linarith

lemma formatCurrency_round:
  "formatCurrency (math_round (Fin r)) =
     (if r < 0 then ''-'' else []) @ ''$'' @ group3 (dec (nat \<bar>\<lfloor>r + 1 / 2\<rfloor>\<bar>))"
proof (cases "- (1 / 2) \<le> r \<and> r < 0")
  case True
  then have "\<lfloor>r + 1 / 2\<rfloor> = 0" by linarith
  then show ?thesis
    using True by (simp add: formatCurrency_def group3_def dec.simps)
next
  case False
  define m where "m = \<lfloor>r + 1 / 2\<rfloor>"
  have "(m < 0) = (r + 1 / 2 < 0)"
    unfolding m_def by (simp add: floor_less_zero)
  moreover have "(r + 1 / 2 < 0) = (r < 0)"
    using False by auto
  ultimately have sign: "((of_int m :: real) < 0) = (r < 0)"
    by simp
  have "\<lfloor>\<bar>of_int m :: real\<bar> + 1 / 2\<rfloor> = \<bar>m\<bar>"
    using floor_half [of "\<bar>m\<bar>"] by simp
  then show ?thesis
    using False sign by (simp add: formatCurrency_def m_def)
qed

text \<open>
  Claim C9, as the code has it. \<^verbatim>\<open>formatValue\<close> tests for a percentage before it tests
  for a currency, and the percentage test also holds when the lower-cased name contains
  \<^verbatim>\<open>rate\<close> or \<^verbatim>\<open>ratio\<close>. For a currency item whose name contains neither, a numeric
  value is rounded with \<^verbatim>\<open>Math.round\<close> and formatted as US dollars without fraction
  digits; an item whose name contains one of the two gets the percentage rendering. With a fair market value of 450000 in the snapshot, \<^verbatim>\<open>formatValue\<close> of the
  resolved value is \<^verbatim>\<open>$450,000\<close>; the page itself shows this editable item as a number
  input holding 450000 behind a dollar sign.
\<close>

theorem currency_formatting:
  assumes "format item = Some ''currency''"
    and "\<not> str_includes (toLowerCase (name item)) ''rate''"
    and "\<not> str_includes (toLowerCase (name item)) ''ratio''"
  shows "formatValue cn (Num n) item = formatCurrency (math_round n) \<and>
         formatValue cn (Num (Fin r)) item =
           (if r < 0 then ''-'' else []) @ ''$'' @ group3 (dec (nat \<bar>\<lfloor>r + 1 / 2\<rfloor>\<bar>)) \<and>
         (api_data property = Some api \<and>
          map_of api ''fair_market_value'' = Some (Num (Fin 450000)) \<and>
          nullish (obj_get mods ''fair_market_value'')
            \<longrightarrow> formatValue cn (getValue cn fair_market_value_item property)
                  fair_market_value_item = ''$450,000'' \<and>
                renderValue cn mods fair_market_value_item property =
                  CurrencyInput (Num (Fin 450000))) \<and>
         (str_includes (toLowerCase (name other)) ''rate'' \<or>
          str_includes (toLowerCase (name other)) ''ratio''
            \<longrightarrow> formatValue cn (Num n) other = formatPercentage n)"
proof -
  have general: "formatValue cn (Num n) item = formatCurrency (math_round n)" for n
    using assms by (simp add: formatValue_def percentage_like_def currency_like_def nullish_def)
  have fmv: "formatValue cn (getValue cn fair_market_value_item property)
               fair_market_value_item = ''$450,000'' \<and>
             renderValue cn mods fair_market_value_item property = CurrencyInput (Num (Fin 450000))"
    if "api_data property = Some api"
      and "map_of api ''fair_market_value'' = Some (Num (Fin 450000))"
      and "nullish (obj_get mods ''fair_market_value'')"
  proof -
    have v: "getValue cn fair_market_value_item property = Num (Fin 450000)"
      using that(1,2)
      by (simp add: getValue_def getValue_try_def fair_market_value_item_def Item_sel obj_get_def)
    have "formatValue cn (Num (Fin 450000)) fair_market_value_item = ''$450,000''"
      by (simp add: formatValue_def percentage_like_def currency_like_def nullish_def
          fair_market_value_item_def Item_sel char_eval formatCurrency_def group3_def dec.simps)
    moreover have "renderValue cn mods fair_market_value_item property =
                     CurrencyInput (Num (Fin 450000))"
      using that(3) v
      by (simp add: renderValue_def fair_market_value_item_def Item_sel edit_key_def char_eval
          coalesce_def nullish_def)
    ultimately show ?thesis
      using v by simp
  qed
  have named: "formatValue cn (Num n) other = formatPercentage n"
    if "str_includes (toLowerCase (name other)) ''rate'' \<or>
        str_includes (toLowerCase (name other)) ''ratio''"
    using that by (auto simp: formatValue_def percentage_like_def nullish_def)
  show ?thesis
    using general formatCurrency_round fmv named by simp
qed

theorem currency_formatting_witness:
  "formatValue no_coercion (Num (Fin (5 / 100))) pro_ration_item = ''5.00%'' \<and>
   formatValue no_coercion (Num (Fin (360004 / 10))) total_income_item = ''$36,000'' \<and>
   formatValue no_coercion (Num (Fin (- 12345675 / 10))) total_income_item = ''-$1,234,567'' \<and>
   formatValue no_coercion (Num (Fin (- 2 / 10))) total_income_item = ''-$0'' \<and>
   formatValue no_coercion (getValue no_coercion fair_market_value_item example_snapshot)
     fair_market_value_item = ''$450,000'' \<and>
   renderValue no_coercion [] fair_market_value_item example_snapshot =
     CurrencyInput (Num (Fin 450000))"
proof -
  have f: "format total_income_item = Some ''currency''"
    by (simp add: total_income_item_def Item_sel)
  have r1: "\<not> str_includes (toLowerCase (name total_income_item)) ''rate''"
    by (simp add: total_income_item_def Item_sel char_eval)
  have r2: "\<not> str_includes (toLowerCase (name total_income_item)) ''ratio''"
    by (simp add: total_income_item_def Item_sel char_eval)
  have a: "api_data example_snapshot = Some [(''address'', Str ''12 Elm Street''),
             (''fair_market_value'', Num (Fin 450000)), (''number_of_units'', Num (Fin 2))]"
    by (simp add: example_snapshot_def)
  have m: "map_of [(''address'', Str ''12 Elm Street''),
             (''fair_market_value'', Num (Fin 450000)), (''number_of_units'', Num (Fin 2))]
             ''fair_market_value'' = Some (Num (Fin 450000))"
    by simp
  have e: "nullish (obj_get [] ''fair_market_value'')"
    by (simp add: nullish_def obj_get_def object_prototype_def)
  have one: "formatValue no_coercion (Num (Fin (360004 / 10))) total_income_item = ''$36,000''"
    using currency_formatting [OF f r1 r2, of no_coercion NaN "360004 / 10"]
    by (simp add: group3_def dec.simps)
  have two: "formatValue no_coercion (Num (Fin (- 12345675 / 10))) total_income_item = ''-$1,234,567''"
    using currency_formatting [OF f r1 r2, of no_coercion NaN "- 12345675 / 10"]
    by (simp add: group3_def dec.simps)
  have three: "formatValue no_coercion (Num (Fin (- 2 / 10))) total_income_item = ''-$0''"
    using currency_formatting [OF f r1 r2, of no_coercion NaN "- 2 / 10"]
    by (simp add: group3_def dec.simps)
  have four: "formatValue no_coercion (getValue no_coercion fair_market_value_item example_snapshot)
                fair_market_value_item = ''$450,000'' \<and>
              renderValue no_coercion [] fair_market_value_item example_snapshot =
                CurrencyInput (Num (Fin 450000))"
    using currency_formatting [OF f r1 r2, of no_coercion NaN 0 example_snapshot _ "[]"] a m e
    by blast
  have o: "str_includes (toLowerCase (name pro_ration_item)) ''rate'' \<or>
           str_includes (toLowerCase (name pro_ration_item)) ''ratio''"
    by (simp add: pro_ration_item_def Item_sel char_eval)
  have "formatValue no_coercion (Num (Fin (5 / 100))) pro_ration_item =
          formatPercentage (Fin (5 / 100))"
    using currency_formatting [OF f r1 r2, of no_coercion "Fin (5 / 100)" 0 example_snapshot
        _ "[]" pro_ration_item] o
    by blast
  then have zero: "formatValue no_coercion (Num (Fin (5 / 100))) pro_ration_item = ''5.00%''"
    by (simp add: formatPercentage_def fixed2_digits_def dec.simps Let_def double_5)
  show ?thesis
    using zero one two three four by simp
qed

text \<open>The claim as stated fails. The registry's currency item \<open>Less Pro-Ration of Rents\<close>
  has \<^verbatim>\<open>ratio\<close> in its name, and \<^verbatim>\<open>formatValue\<close> gives 1500 a percentage rendering; and
  the page renders the fair market value as an input, not as the string \<^verbatim>\<open>$450,000\<close>.\<close>

theorem currency_formatting_counterexample:
  "pro_ration_item \<in> set registry_items \<and>
   format pro_ration_item = Some ''currency'' \<and>
   formatValue no_coercion (Num (Fin 1500)) pro_ration_item = ''150000.00%'' \<and>
   renderValue no_coercion [] fair_market_value_item example_snapshot =
     CurrencyInput (Num (Fin 450000))"
proof -
  have "pro_ration_item \<in> set registry_items"
    by (simp add: registry_items_sections cash_requirements_items_def pro_ration_item_def)
  moreover have "formatValue no_coercion (Num (Fin 1500)) pro_ration_item = ''150000.00%''"
    by (simp add: formatValue_def percentage_like_def nullish_def pro_ration_item_def Item_sel
        char_eval formatPercentage_def fixed2_digits_def dec.simps Let_def double_150000)
  moreover have "renderValue no_coercion [] fair_market_value_item example_snapshot =
     CurrencyInput (Num (Fin 450000))"
    by (simp add: renderValue_def getValue_def getValue_try_def fair_market_value_item_def
        Item_sel example_snapshot_def edit_key_def char_eval coalesce_def nullish_def
        obj_get_def object_prototype_def)
  ultimately show ?thesis
    by (simp add: pro_ration_item_def Item_sel)
qed

text \<open>
  Claim C10, as the code has it. \<^verbatim>\<open>formatValue\<close> itself answers \<^verbatim>\<open>N/A\<close> to \<^verbatim>\<open>null\<close>
  and \<^verbatim>\<open>undefined\<close> for every item, and never to a number. But the page never hands it
  either: \<^verbatim>\<open>getValue\<close> and \<^verbatim>\<open>renderValue\<close> put zero in the place of a null or missing
  value first, so no rendered line item ever shows the marker, and a calculated item
  whose value is null or missing is rendered exactly as the value zero is.
\<close>

theorem not_available_marker:
  "formatValue cn Null item = ''N/A'' \<and>
   formatValue cn Undefined item = ''N/A'' \<and>
   formatValue cn (Num n) item \<noteq> ''N/A'' \<and>
   renderValue cn mods item property \<noteq> Formatted ''N/A'' \<and>
   (value_type item = Calculated \<and> name item \<noteq> ''Address'' \<and>
    calculated_data property = Some calc \<and>
    nullish (obj_get calc (calculatedKey (name item)))
      \<longrightarrow> renderValue cn mods item property =
            Formatted (formatValue cn (Num (Fin 0)) item))"
proof -
  have "\<not> nullish (coalesce v (Num (Fin 0)))" for v
    by (simp add: coalesce_def nullish_def)
  then have "formatValue cn (coalesce v (Num (Fin 0))) item \<noteq> ''N/A''" for v
    by (rule formatValue_not_marker)
  then have "renderValue cn mods item property \<noteq> Formatted ''N/A''"
    by (simp add: renderValue_def Let_def split: sum.splits)
  moreover have "formatValue cn (Num n) item \<noteq> ''N/A''"
    by (rule formatValue_not_marker) (simp add: nullish_def)
  moreover have "renderValue cn mods item property =
                   Formatted (formatValue cn (Num (Fin 0)) item)"
    if "value_type item = Calculated" and "name item \<noteq> ''Address''"
      and "calculated_data property = Some calc"
      and "nullish (obj_get calc (calculatedKey (name item)))"
    using that
    by (simp add: renderValue_def getValue_def getValue_try_def coalesce_def nullish_def)
  ultimately show ?thesis
    by (simp add: formatValue_def nullish_def)
qed

theorem not_available_marker_witness:
  "formatValue no_coercion Null vacancy_loss_item = ''N/A'' \<and>
   formatValue no_coercion (Num (Fin 0)) vacancy_loss_item = ''$0'' \<and>
   renderValue no_coercion [] vacancy_loss_item null_loss_snapshot = Formatted ''$0''"
proof -
  have sel: "value_type vacancy_loss_item = Calculated"
    "name vacancy_loss_item \<noteq> ''Address''"
    by (simp_all add: vacancy_loss_item_def Item_sel)
  have c: "calculated_data null_loss_snapshot =
             Some [(''Total Income'', Num (Fin 36000)), (''Vacancy Loss Percentage'', Null)]"
    by (simp add: null_loss_snapshot_def)
  have k: "calculatedKey (name vacancy_loss_item) = ''Vacancy Loss Percentage''"
    by (simp add: vacancy_loss_item_def Item_sel calculatedKey_def key_or_def
        calculatedKeyMappings_def)
  have m: "nullish (obj_get [(''Total Income'', Num (Fin 36000)),
             (''Vacancy Loss Percentage'', Null)] (calculatedKey (name vacancy_loss_item)))"
    by (simp add: k obj_get_def nullish_def)
  have z: "formatValue no_coercion (Num (Fin 0)) vacancy_loss_item = ''$0''"
    by (simp add: formatValue_def percentage_like_def currency_like_def nullish_def
        vacancy_loss_item_def Item_sel char_eval formatCurrency_def group3_def dec.simps)
  have "formatValue no_coercion Null vacancy_loss_item = ''N/A'' \<and>
        renderValue no_coercion [] vacancy_loss_item null_loss_snapshot =
          Formatted (formatValue no_coercion (Num (Fin 0)) vacancy_loss_item)"
    using not_available_marker [of no_coercion vacancy_loss_item "Fin 0" "[]" null_loss_snapshot
        "[(''Total Income'', Num (Fin 36000)), (''Vacancy Loss Percentage'', Null)]"]
      sel c m
    by blast
  then show ?thesis
    using z by simp
qed

text \<open>The claim as stated fails in the display: a vacancy loss that is missing from the
  snapshot, one that is \<^verbatim>\<open>null\<close> and one that is zero all render as \<^verbatim>\<open>$0\<close>.\<close>

theorem not_available_marker_counterexample:
  "renderValue no_coercion [] vacancy_loss_item example_snapshot = Formatted ''$0'' \<and>
   renderValue no_coercion [] vacancy_loss_item null_loss_snapshot = Formatted ''$0'' \<and>
   renderValue no_coercion [] vacancy_loss_item zero_loss_snapshot = Formatted ''$0''"
  by (simp add: renderValue_def getValue_def getValue_try_def vacancy_loss_item_def Item_sel
      calculatedKey_def key_or_def calculatedKeyMappings_def
      example_snapshot_def null_loss_snapshot_def zero_loss_snapshot_def
      coalesce_def nullish_def obj_get_def object_prototype_def
      formatValue_def percentage_like_def currency_like_def char_eval
      formatCurrency_def group3_def dec.simps)

section \<open>Percentage fields in edit mode\<close>

lemma section_percentages:
  "\<forall>it \<in> set property_info_items. value_type it \<noteq> Calculated \<and>
     format it = Some ''percentage'' \<longrightarrow> name it \<in> set percent_names"
  "\<forall>it \<in> set purchase_info_items. value_type it \<noteq> Calculated \<and>
     format it = Some ''percentage'' \<longrightarrow> name it \<in> set percent_names"
  "\<forall>it \<in> set financing_monthly_items. value_type it \<noteq> Calculated \<and>
     format it = Some ''percentage'' \<longrightarrow> name it \<in> set percent_names"
  "\<forall>it \<in> set income_annual_items. value_type it \<noteq> Calculated \<and>
     format it = Some ''percentage'' \<longrightarrow> name it \<in> set percent_names"
  "\<forall>it \<in> set operating_expenses_annual_items. value_type it \<noteq> Calculated \<and>
     format it = Some ''percentage'' \<longrightarrow> name it \<in> set percent_names"
  "\<forall>it \<in> set net_operating_income_annual_items. value_type it \<noteq> Calculated \<and>
     format it = Some ''percentage'' \<longrightarrow> name it \<in> set percent_names"
  "\<forall>it \<in> set cash_requirements_items. value_type it \<noteq> Calculated \<and>
     format it = Some ''percentage'' \<longrightarrow> name it \<in> set percent_names"
  "\<forall>it \<in> set cashflow_summary_annual_items. value_type it \<noteq> Calculated \<and>
     format it = Some ''percentage'' \<longrightarrow> name it \<in> set percent_names"
  "\<forall>it \<in> set quick_analysis_items. value_type it \<noteq> Calculated \<and>
     format it = Some ''percentage'' \<longrightarrow> name it \<in> set percent_names"
  by (simp_all add: property_info_items_def purchase_info_items_def financing_monthly_items_def
      income_annual_items_def operating_expenses_annual_items_def
      net_operating_income_annual_items_def cash_requirements_items_def
      cashflow_summary_annual_items_def quick_analysis_items_def
      Item_sel percent_names_def)

lemma registry_percentages:
  "it \<in> set registry_items \<Longrightarrow> value_type it \<noteq> Calculated \<Longrightarrow>
   format it = Some ''percentage'' \<Longrightarrow> name it \<in> set percent_names"
  using section_percentages by (auto simp: registry_items_sections)

lemma obj_get_obj_put: "obj_get (obj_put obj k v) k = v"
  by (simp add: obj_get_def map_of_obj_put)

lemma stored_rate:
  "getValue no_coercion vacancy_rate_item (rate_snapshot r) = Num (Fin (to_double r))"
  by (simp add: getValue_def getValue_try_def vacancy_rate_item_def Item_sel userInputKey_eval
      rate_snapshot_def example_snapshot_def obj_get_def coalesce_def nullish_def)

text \<open>
  Claim C7, as the code has it. For each of the seven names of the percentage branch
  (they cover every editable percentage item of the registry) the stored value is the
  fraction and the edit field holds the percent. Reading shows the product of the stored
  value and 100, rounded to two fraction digits; writing stores the quotient of the entry
  and 100; product and quotient are those of doubles. Below the magnitude \<open>1e300\<close>, where
  the product cannot overflow, an entry is therefore shown again as the product of its
  quotient, rounded to two fraction digits, and an entry of at most two fraction digits
  and at most ten digits before the point is shown again as it was entered.
\<close>

theorem percentage_edit_conversion:
  assumes "name item \<in> set percent_names"
    and "format item = Some ''percentage''"
    and "value_type item \<noteq> Calculated"
  shows "(nullish (obj_get mods (edit_key (name item))) \<and>
          getValue cn item property = Num (Fin r) \<and> \<bar>r\<bar> < 10 ^ 300
            \<longrightarrow> renderValue cn mods item property =
                  PercentInput (parseFloat_toFixed2 (mul100 (Fin r)))) \<and>
         modifiedValues (percent_onChange item (Fin x) st) =
           obj_put (modifiedValues st) (edit_key (name item)) (Num (or_zero (div100 (Fin x)))) \<and>
         (\<bar>x\<bar> < 10 ^ 300
            \<longrightarrow> renderValue cn (modifiedValues (percent_onChange item (Fin x) st)) item property =
                  PercentInput (parseFloat_toFixed2 (mul100 (or_zero (div100 (Fin x)))))) \<and>
         (\<bar>k\<bar> \<le> 10 ^ 12
            \<longrightarrow> renderValue cn
                  (modifiedValues (percent_onChange item (Fin (to_double (of_int k / 100))) st))
                  item property =
                  PercentInput (Fin (to_double (of_int k / 100)))) \<and>
         (other \<in> set registry_items \<and> value_type other \<noteq> Calculated \<and>
          format other = Some ''percentage'' \<longrightarrow> name other \<in> set percent_names)"
proof -
  have not_address: "name item \<noteq> ''Address''"
    using assms(1) by (auto simp: percent_names_def)
  have editable: "value_type item = API_Data \<or> value_type item = User_Input"
    using assms(3) by (cases "value_type item") simp_all
  have shown: "renderValue cn ms item property = PercentInput (parseFloat_toFixed2 (mul100 n))"
    if "coalesce (coalesce (obj_get ms (edit_key (name item))) (getValue cn item property))
          (Num (Fin 0)) = Num n" for ms n
    using that assms(1,2) not_address editable
    by (simp add: renderValue_def displayValue_def Let_def)
  have read: "renderValue cn mods item property =
                PercentInput (parseFloat_toFixed2 (mul100 (Fin r)))"
    if "nullish (obj_get mods (edit_key (name item)))"
      and "getValue cn item property = Num (Fin r)"
    using that by (intro shown) (simp add: coalesce_def nullish_def)
  have wr: "modifiedValues (percent_onChange item parsed st) =
              obj_put (modifiedValues st) (edit_key (name item)) (Num (or_zero (div100 parsed)))"
    for parsed
    using assms(1) by (simp add: percent_onChange_def handleValueChange_def)
  have write_read:
    "renderValue cn (modifiedValues (percent_onChange item parsed st)) item property =
       PercentInput (parseFloat_toFixed2 (mul100 (or_zero (div100 parsed))))" for parsed
    by (intro shown) (simp add: wr obj_get_obj_put coalesce_def nullish_def)
  have returns:
    "renderValue cn (modifiedValues (percent_onChange item (Fin (to_double (of_int k / 100))) st))
       item property = PercentInput (Fin (to_double (of_int k / 100)))"
    if "\<bar>k\<bar> \<le> 10 ^ 12"
    unfolding write_read two_digit_round_trip [OF that] ..
  show ?thesis
    using read wr write_read returns registry_percentages by blast
qed

text \<open>
  The vacancy rate. Raw 0.055 is shown as 5.5; entering 6 stores the double 0.06, which
  is shown as 6; raw 0.00615, whose product with 100 is a double just below 0.615, is
  shown as 0.61.
\<close>

theorem percentage_edit_conversion_witness:
  "vacancy_rate_item \<in> set registry_items \<and>
   renderValue no_coercion [] vacancy_rate_item (rate_snapshot (55 / 1000)) =
     PercentInput (Fin (55 / 10)) \<and>
   modifiedValues (percent_onChange vacancy_rate_item (Fin 6) unedited_state) =
     [(''vacancy_rate'', Num (Fin (to_double (6 / 100))))] \<and>
   renderValue no_coercion (modifiedValues (percent_onChange vacancy_rate_item (Fin 6) unedited_state))
     vacancy_rate_item example_snapshot = PercentInput (Fin 6) \<and>
   renderValue no_coercion [] vacancy_rate_item (rate_snapshot (615 / 100000)) =
     PercentInput (Fin (to_double (61 / 100)))"
proof -
  have reg: "vacancy_rate_item \<in> set registry_items"
    by (simp add: registry_items_sections property_info_items_def vacancy_rate_item_def)
  have n: "name vacancy_rate_item \<in> set percent_names"
    by (simp add: vacancy_rate_item_def Item_sel percent_names_def)
  have f: "format vacancy_rate_item = Some ''percentage''"
    by (simp add: vacancy_rate_item_def Item_sel)
  have t: "value_type vacancy_rate_item \<noteq> Calculated"
    by (simp add: vacancy_rate_item_def Item_sel)
  have key: "edit_key (name vacancy_rate_item) = ''vacancy_rate''"
    by (simp add: vacancy_rate_item_def Item_sel edit_key_eval)
  have e: "nullish (obj_get [] (edit_key (name vacancy_rate_item)))"
    by (simp add: key nullish_def obj_get_def object_prototype_def)
  have b1: "\<bar>to_double (55 / 1000)\<bar> < 10 ^ 300"
    unfolding double_0_055 by simp
  have b2: "\<bar>to_double (615 / 100000)\<bar> < 10 ^ 300"
    unfolding double_0_00615 by simp
  have b3: "\<bar>600 :: int\<bar> \<le> 10 ^ 12"
    by simp
  note inst = percentage_edit_conversion [OF n f t, where mods = "[]" and cn = no_coercion
      and property = "rate_snapshot (55 / 1000)" and r = "to_double (55 / 1000)" and x = 6
      and st = unedited_state and k = 600 and other = vacancy_rate_item]
  have "renderValue no_coercion [] vacancy_rate_item (rate_snapshot (55 / 1000)) =
          PercentInput (parseFloat_toFixed2 (mul100 (Fin (to_double (55 / 1000)))))"
    using inst e stored_rate [of "55 / 1000"] b1 by blast
  moreover have "mul100 (Fin (to_double (55 / 1000))) = Fin (55 / 10)"
    unfolding mul100.simps double_0_055 double_0_055_times_100 by (simp add: Let_def)
  moreover have "parseFloat_toFixed2 (Fin (55 / 10)) = Fin (55 / 10)"
    using double_5_5 by (simp add: Let_def)
  ultimately have one: "renderValue no_coercion [] vacancy_rate_item (rate_snapshot (55 / 1000)) =
               PercentInput (Fin (55 / 10))"
    by simp
  have "modifiedValues (percent_onChange vacancy_rate_item (Fin 6) unedited_state) =
          obj_put (modifiedValues unedited_state) (edit_key (name vacancy_rate_item))
            (Num (or_zero (div100 (Fin 6))))"
    using inst by blast
  moreover have "div100 (Fin 6) = Fin (to_double (6 / 100))"
    by (simp add: Let_def)
  ultimately have two: "modifiedValues (percent_onChange vacancy_rate_item (Fin 6) unedited_state) =
               [(''vacancy_rate'', Num (Fin (to_double (6 / 100))))]"
    by (simp add: key unedited_state_def)
  have "renderValue no_coercion
          (modifiedValues (percent_onChange vacancy_rate_item (Fin (to_double (of_int 600 / 100)))
             unedited_state))
          vacancy_rate_item (rate_snapshot (55 / 1000)) =
        PercentInput (Fin (to_double (of_int 600 / 100)))"
    using inst b3 by blast
  then have "renderValue no_coercion
          (modifiedValues (percent_onChange vacancy_rate_item (Fin 6) unedited_state))
          vacancy_rate_item (rate_snapshot (55 / 1000)) = PercentInput (Fin 6)"
    using double_6 by simp
  then have three: "renderValue no_coercion
          (modifiedValues (percent_onChange vacancy_rate_item (Fin 6) unedited_state))
          vacancy_rate_item example_snapshot = PercentInput (Fin 6)"
    unfolding two
    by (simp add: renderValue_def vacancy_rate_item_def Item_sel edit_key_eval coalesce_def
        nullish_def obj_get_def)
  have "renderValue no_coercion [] vacancy_rate_item (rate_snapshot (615 / 100000)) =
          PercentInput (parseFloat_toFixed2 (mul100 (Fin (to_double (615 / 100000)))))"
    using percentage_edit_conversion [OF n f t, where mods = "[]" and cn = no_coercion
        and property = "rate_snapshot (615 / 100000)" and r = "to_double (615 / 100000)"]
      e stored_rate [of "615 / 100000"] b2 by blast
  moreover have "mul100 (Fin (to_double (615 / 100000))) = Fin (5539427541665710 / 2 ^ 53)"
    unfolding mul100.simps double_0_00615 double_0_00615_times_100 by (simp add: Let_def)
  moreover have "parseFloat_toFixed2 (Fin (5539427541665710 / 2 ^ 53)) = Fin (to_double (61 / 100))"
    by (simp add: Let_def)
  ultimately have four: "renderValue no_coercion [] vacancy_rate_item (rate_snapshot (615 / 100000)) =
               PercentInput (Fin (to_double (61 / 100)))"
    by simp
  show ?thesis
    using reg one two three four by simp
qed

text \<open>
  The claim as stated fails: the two conversions are not inverse to each other. A stored
  rate of 0.05551 is shown as 5.55, and 5.55 written back is stored as 0.0555, another
  double; an entry of 3.625 is stored as 0.03625, whose product with 100 is a double
  just below 3.625, and is shown as 3.62.
\<close>

theorem percentage_round_trip_counterexample:
  "renderValue no_coercion [] vacancy_rate_item (rate_snapshot (5551 / 100000)) =
     PercentInput (Fin (to_double (555 / 100))) \<and>
   modifiedValues (percent_onChange vacancy_rate_item (Fin (to_double (555 / 100))) unedited_state) =
     [(''vacancy_rate'', Num (Fin (to_double (555 / 10000))))] \<and>
   to_double (555 / 10000) \<noteq> to_double (5551 / 100000) \<and>
   modifiedValues (percent_onChange vacancy_rate_item (Fin (3625 / 1000)) unedited_state) =
     [(''vacancy_rate'', Num (Fin (to_double (3625 / 100000))))] \<and>
   renderValue no_coercion
     (modifiedValues (percent_onChange vacancy_rate_item (Fin (3625 / 1000)) unedited_state))
     vacancy_rate_item example_snapshot = PercentInput (Fin (to_double (362 / 100))) \<and>
   to_double (362 / 100) \<noteq> 3625 / 1000"
proof -
  have sel: "name vacancy_rate_item = ''Vacancy Rate''"
    "format vacancy_rate_item = Some ''percentage''"
    "value_type vacancy_rate_item = User_Input"
    by (simp_all add: vacancy_rate_item_def Item_sel)
  have shown: "renderValue no_coercion ms vacancy_rate_item property =
                 PercentInput (parseFloat_toFixed2 (mul100 n))"
    if "coalesce (coalesce (obj_get ms ''vacancy_rate'')
          (getValue no_coercion vacancy_rate_item property)) (Num (Fin 0)) = Num n"
    for ms property n
    using that
    by (simp add: renderValue_def sel edit_key_eval displayValue_def percent_names_def Let_def)
  have stores: "modifiedValues (percent_onChange vacancy_rate_item parsed unedited_state) =
                  [(''vacancy_rate'', Num (or_zero (div100 parsed)))]" for parsed
    by (simp add: percent_onChange_def handleValueChange_def sel edit_key_eval percent_names_def
        unedited_state_def)
  have "renderValue no_coercion [] vacancy_rate_item (rate_snapshot (5551 / 100000)) =
          PercentInput (parseFloat_toFixed2 (mul100 (Fin (to_double (5551 / 100000)))))"
    by (rule shown) (simp add: stored_rate coalesce_def nullish_def obj_get_def object_prototype_def)
  moreover have "mul100 (Fin (to_double (5551 / 100000))) = Fin (6249870382883405 / 2 ^ 50)"
    unfolding mul100.simps double_0_05551 double_0_05551_times_100 by (simp add: Let_def)
  moreover have "parseFloat_toFixed2 (Fin (6249870382883405 / 2 ^ 50)) = Fin (to_double (555 / 100))"
    by (simp add: Let_def)
  ultimately have read: "renderValue no_coercion [] vacancy_rate_item (rate_snapshot (5551 / 100000)) =
                     PercentInput (Fin (to_double (555 / 100)))"
    by simp
  have "div100 (Fin (to_double (555 / 100))) = Fin (to_double (555 / 10000))"
    unfolding div100.simps double_5_55 double_5_55_by_100 double_0_0555 by (simp add: Let_def)
  then have written: "modifiedValues (percent_onChange vacancy_rate_item (Fin (to_double (555 / 100)))
                      unedited_state) = [(''vacancy_rate'', Num (Fin (to_double (555 / 10000))))]"
    by (simp add: stores)
  have other: "to_double (555 / 10000) \<noteq> to_double (5551 / 100000)"
    unfolding double_0_0555 double_0_05551 by simp
  have quotient: "div100 (Fin (3625 / 1000)) = Fin (to_double (3625 / 100000))"
    by (simp add: Let_def)
  have entry: "modifiedValues (percent_onChange vacancy_rate_item (Fin (3625 / 1000)) unedited_state) =
                 [(''vacancy_rate'', Num (Fin (to_double (3625 / 100000))))]"
    unfolding stores quotient by simp
  have "renderValue no_coercion [(''vacancy_rate'', Num (Fin (to_double (3625 / 100000))))]
          vacancy_rate_item example_snapshot =
        PercentInput (parseFloat_toFixed2 (mul100 (Fin (to_double (3625 / 100000)))))"
    by (rule shown) (simp add: coalesce_def nullish_def obj_get_def)
  moreover have "mul100 (Fin (to_double (3625 / 100000))) = Fin (8162774324609023 / 2 ^ 51)"
    unfolding mul100.simps double_0_03625 double_0_03625_times_100 by (simp add: Let_def)
  moreover have "parseFloat_toFixed2 (Fin (8162774324609023 / 2 ^ 51)) = Fin (to_double (362 / 100))"
    by (simp add: Let_def)
  ultimately have again: "renderValue no_coercion
      (modifiedValues (percent_onChange vacancy_rate_item (Fin (3625 / 1000)) unedited_state))
      vacancy_rate_item example_snapshot = PercentInput (Fin (to_double (362 / 100)))"
    unfolding entry by simp
  have differs: "to_double (362 / 100) \<noteq> 3625 / 1000"
    unfolding double_3_62 by simp
  show ?thesis
    using read written other entry again differs by blast
qed

section \<open>Normalisation of display names\<close>

lemma replace_non_alnum_map:
  "replace_non_alnum s = map (\<lambda>c. if is_lower c \<or> is_digit c then c else CHR ''_'') s"
  by (induction s) simp_all

lemma to_lower_fixed: "\<not> is_upper c \<Longrightarrow> to_lower c = c"
  by (simp add: to_lower_def)

lemma is_digit_to_lower: "is_digit (to_lower c) = is_digit c"
proof (cases "is_upper c")
  case True
  define n where "n = (of_char c :: nat)"
  have n: "65 \<le> n" "n \<le> 90"
    using True by (simp_all add: is_upper_def n_def)
  have "(of_char (to_lower c) :: nat) = n + 32"
    using True n by (simp add: to_lower_def n_def)
  then show ?thesis
    using n by (simp add: is_digit_def n_def [symmetric])
next
  case False
  then show ?thesis by (simp add: to_lower_def)
qed

lemma is_lower_to_lower: "is_lower (to_lower c) = (is_lower c \<or> is_upper c)"
proof (cases "is_upper c")
  case True
  define n where "n = (of_char c :: nat)"
  have n: "65 \<le> n" "n \<le> 90"
    using True by (simp_all add: is_upper_def n_def)
  have "(of_char (to_lower c) :: nat) = n + 32"
    using True n by (simp add: to_lower_def n_def)
  then show ?thesis
    using n True by (simp add: is_lower_def)
next
  case False
  then show ?thesis by (simp add: to_lower_def)
qed

lemma derive_key_map:
  "derive_key nm =
     map (\<lambda>c. if is_lower (to_lower c) \<or> is_digit c then to_lower c else CHR ''_'') nm"
proof -
  have under: "to_lower CHR ''_'' = CHR ''_''"
    by (simp add: char_eval)
  have "to_lower (if is_lower d \<or> is_digit d then d else CHR ''_'') =
          (if is_lower d \<or> is_digit d then d else CHR ''_'')" for d
    using under by (auto simp: to_lower_def is_lower_def is_upper_def is_digit_def)
  then show ?thesis
    by (simp add: derive_key_def lowercase_matches_def toLowerCase_def replace_non_alnum_map
        is_digit_to_lower comp_def to_lower_idem under)
qed

lemma keyMappings_values: "map_of keyMappings k = Some v \<Longrightarrow> v \<noteq> []"
proof -
  have "\<forall>p \<in> set keyMappings. snd p \<noteq> []"
    by (simp add: keyMappings_def)
  then show "map_of keyMappings k = Some v \<Longrightarrow> v \<noteq> []"
    by (auto dest!: map_of_SomeD)
qed

lemma calculatedKeyMappings_values: "map_of calculatedKeyMappings k = Some v \<Longrightarrow> v \<noteq> []"
proof -
  have "\<forall>p \<in> set calculatedKeyMappings. snd p \<noteq> []"
    by (simp add: calculatedKeyMappings_def)
  then show "map_of calculatedKeyMappings k = Some v \<Longrightarrow> v \<noteq> []"
    by (auto dest!: map_of_SomeD)
qed

lemma alnum_not_underscore: "alnum c \<Longrightarrow> c \<noteq> CHR ''_''"
  by (auto simp: alnum_def is_lower_def is_upper_def is_digit_def)

lemma alnum_to_lower: "alnum (to_lower c) = alnum c"
  by (auto simp: alnum_def is_lower_to_lower is_digit_to_lower to_lower_not_upper)

lemma collapse_no_runs:
  "no_adjacent s \<Longrightarrow> (in_run \<longrightarrow> s = [] \<or> alnum (hd s)) \<Longrightarrow>
   collapse_runs in_run s = map (\<lambda>c. if alnum c then c else CHR ''_'') s"
proof (induction s arbitrary: in_run)
  case Nil
  then show ?case by simp
next
  case (Cons c cs)
  have rest: "no_adjacent cs"
    using Cons.prems(1) by (cases cs) simp_all
  show ?case
  proof (cases "alnum c")
    case True
    then show ?thesis
      using Cons.IH [OF rest, of False] by simp
  next
    case False
    then have "\<not> in_run"
      using Cons.prems(2) by simp
    moreover have "cs = [] \<or> alnum (hd cs)"
      using Cons.prems(1) False by (cases cs) simp_all
    ultimately show ?thesis
      using False Cons.IH [OF rest, of True] by simp
  qed
qed

lemma no_adjacent_map: "no_adjacent (map to_lower s) = no_adjacent s"
  by (induction s rule: no_adjacent.induct) (simp_all add: alnum_to_lower)

lemma trim_nothing:
  assumes "t \<noteq> []" and "hd t \<noteq> CHR ''_''" and "last t \<noteq> CHR ''_''"
  shows "trim_underscores t = t"
proof -
  have front: "dropWhile (\<lambda>c. c = CHR ''_'') t = t"
    using assms(1,2) by (cases t) simp_all
  have "rev t \<noteq> []" and "hd (rev t) \<noteq> CHR ''_''"
    using assms(1,3) by (simp_all add: hd_rev)
  then have "dropWhile (\<lambda>c. c = CHR ''_'') (rev t) = rev t"
    by (cases "rev t") simp_all
  then show ?thesis
    by (simp add: trim_underscores_def front)
qed

lemma plain_name_agrees:
  assumes "plain_name nm"
  shows "spec_derive nm = derive_key nm"
proof -
  let ?s = "map to_lower nm"
  let ?g = "\<lambda>c. if alnum c then c else CHR ''_''"
  have ne: "nm \<noteq> []" and first: "alnum (hd nm)" and final: "alnum (last nm)"
    and adj: "no_adjacent nm"
    using assms by (simp_all add: plain_name_def)
  have "collapse_runs False ?s = map ?g ?s"
    using adj by (intro collapse_no_runs) (simp_all add: no_adjacent_map)
  moreover have "trim_underscores (map ?g ?s) = map ?g ?s"
  proof (rule trim_nothing)
    show "map ?g ?s \<noteq> []"
      using ne by simp
    have "hd (map ?g ?s) = to_lower (hd nm)"
      using ne first by (simp add: hd_map alnum_to_lower)
    then show "hd (map ?g ?s) \<noteq> CHR ''_''"
      using first alnum_not_underscore [of "to_lower (hd nm)"] by (simp add: alnum_to_lower)
    have "last (map ?g ?s) = to_lower (last nm)"
      using ne final by (simp add: last_map alnum_to_lower)
    then show "last (map ?g ?s) \<noteq> CHR ''_''"
      using final alnum_not_underscore [of "to_lower (last nm)"] by (simp add: alnum_to_lower)
  qed
  moreover have "map ?g ?s = derive_key nm"
    by (simp add: derive_key_map comp_def alnum_to_lower)
      (auto simp: alnum_def is_lower_to_lower)
  ultimately show ?thesis
    by (simp add: spec_derive_def toLowerCase_def)
qed

text \<open>
  Claim C8, as the code has it. For a user-input item the key is derived by lower-casing
  the name and putting one underscore in the place of every single character that is
  not a lower-case letter or a digit: runs are not collapsed and nothing is trimmed.
  Then the override table is consulted, and the derived key is used unchanged when it
  has no entry (a key that names a property inherited from \<open>Object.prototype\<close> finds
  that property instead). For a calculated item the display name itself is looked up
  and otherwise used as it is. On a name with alphanumeric ends and no two
  non-alphanumeric neighbours, the derivation agrees with the one of the
  specification.
\<close>

theorem normalisation_as_coded:
  "derive_key nm =
     map (\<lambda>c. if is_lower (to_lower c) \<or> is_digit c then to_lower c else CHR ''_'') nm \<and>
   length (derive_key nm) = length nm \<and>
   userInputKey nm =
     (case map_of keyMappings (derive_key nm) of
        Some k \<Rightarrow> k
      | None \<Rightarrow> if derive_key nm \<in> set object_prototype then builtin_text (derive_key nm)
                else derive_key nm) \<and>
   calculatedKey nm =
     (case map_of calculatedKeyMappings nm of
        Some k \<Rightarrow> k
      | None \<Rightarrow> if nm \<in> set object_prototype then builtin_text nm else nm) \<and>
   (plain_name nm \<longrightarrow> spec_derive nm = derive_key nm)"
proof -
  have "length (derive_key nm) = length nm"
    by (simp add: derive_key_map)
  moreover have "userInputKey nm =
     (case map_of keyMappings (derive_key nm) of
        Some k \<Rightarrow> k
      | None \<Rightarrow> if derive_key nm \<in> set object_prototype then builtin_text (derive_key nm)
                else derive_key nm)"
    by (auto simp: userInputKey_def key_or_def split: option.splits dest: keyMappings_values)
  moreover have "calculatedKey nm =
     (case map_of calculatedKeyMappings nm of
        Some k \<Rightarrow> k
      | None \<Rightarrow> if nm \<in> set object_prototype then builtin_text nm else nm)"
    by (auto simp: calculatedKey_def key_or_def split: option.splits
        dest: calculatedKeyMappings_values)
  ultimately show ?thesis
    using derive_key_map plain_name_agrees by blast
qed

theorem normalisation_as_coded_witness:
  "plain_name ''Repairs Contingency'' \<and>
   spec_derive ''Repairs Contingency'' = ''repairs_contingency'' \<and>
   derive_key ''Repairs Contingency'' = ''repairs_contingency'' \<and>
   userInputKey ''Water / Sewer'' = ''water_sewer'' \<and>
   calculatedKey ''Vacancy Loss'' = ''Vacancy Loss Percentage''"
proof -
  have p: "plain_name ''Repairs Contingency''"
    by (simp add: plain_name_def alnum_def char_eval)
  have d: "derive_key ''Repairs Contingency'' = ''repairs_contingency''"
    by (simp add: derive_key_def lowercase_matches_def char_eval)
  have "plain_name ''Repairs Contingency'' \<longrightarrow>
          spec_derive ''Repairs Contingency'' = derive_key ''Repairs Contingency''"
    using normalisation_as_coded [of "''Repairs Contingency''"] by blast
  then have s: "spec_derive ''Repairs Contingency'' = ''repairs_contingency''"
    using p d by simp
  have w: "derive_key ''Water / Sewer'' = ''water___sewer''"
    by (simp add: derive_key_def lowercase_matches_def char_eval)
  have "userInputKey ''Water / Sewer'' =
     (case map_of keyMappings (derive_key ''Water / Sewer'') of
        Some k \<Rightarrow> k
      | None \<Rightarrow> if derive_key ''Water / Sewer'' \<in> set object_prototype
                then builtin_text (derive_key ''Water / Sewer'')
                else derive_key ''Water / Sewer'')"
    using normalisation_as_coded [of "''Water / Sewer''"] by blast
  then have u: "userInputKey ''Water / Sewer'' = ''water_sewer''"
    by (simp add: w keyMappings_def)
  have "calculatedKey ''Vacancy Loss'' =
     (case map_of calculatedKeyMappings ''Vacancy Loss'' of
        Some k \<Rightarrow> k
      | None \<Rightarrow> if ''Vacancy Loss'' \<in> set object_prototype then builtin_text ''Vacancy Loss''
                else ''Vacancy Loss'')"
    using normalisation_as_coded [of "''Vacancy Loss''"] by blast
  then have c: "calculatedKey ''Vacancy Loss'' = ''Vacancy Loss Percentage''"
    by (simp add: calculatedKeyMappings_def)
  show ?thesis
    using p d s u c by simp
qed

text \<open>The claim as stated fails. The code keeps one underscore per character where the
  specification collapses a run, so the two produce different keys for a registry name;
  and a calculated name is not lower-cased at all.\<close>

theorem normalisation_counterexample:
  "derive_key ''Laundry / Vending'' = ''laundry___vending'' \<and>
   spec_derive ''Laundry / Vending'' = ''laundry_vending'' \<and>
   userInputKey ''Deposit(s) made with Offer'' = ''deposit_with_offer'' \<and>
   spec_normalize keyMappings ''Deposit(s) made with Offer'' = ''deposit_s_made_with_offer'' \<and>
   calculatedKey ''Net Operating Income'' = ''Net Operating Income''"
proof -
  have "derive_key ''Laundry / Vending'' = ''laundry___vending''"
    by (simp add: derive_key_def lowercase_matches_def char_eval)
  moreover have "spec_derive ''Laundry / Vending'' = ''laundry_vending''"
    by (simp add: spec_derive_def trim_underscores_def alnum_def char_eval)
  moreover have "spec_normalize keyMappings ''Deposit(s) made with Offer'' =
                   ''deposit_s_made_with_offer''"
    by (simp add: spec_normalize_def spec_derive_def trim_underscores_def alnum_def char_eval
        keyMappings_def)
  moreover have "calculatedKey ''Net Operating Income'' = ''Net Operating Income''"
    by (simp add: calculatedKey_def key_or_def calculatedKeyMappings_def object_prototype_def)
  ultimately show ?thesis
    by (simp add: userInputKey_eval)
qed

end
